theory Spec2Isabelle
  imports Main "HOL-Library.Word"
begin

unbundle bit_operations_syntax

section \<open>Static Data Authentication of ccid-utils (\<^verbatim>\<open>emv_sda.c\<close>)\<close>

text \<open>
  The development embeds the functions of \<^verbatim>\<open>src/emv_sda.c\<close> as HOL functions: every C
  function is a definition under the C function's name, and its loops and its repeated
  statements are auxiliary functions next to it.

  \<^item> Bytes are \<open>8 word\<close>, \<^verbatim>\<open>size_t\<close> is \<open>64 word\<close> (subtraction wraps around, as in C),
    \<^verbatim>\<open>int\<close> and \<^verbatim>\<open>unsigned int\<close> are \<open>32 word\<close> (the sign of an \<^verbatim>\<open>int\<close> is read by \<open>sint\<close>).
  \<^item> Memory owned by the tag store is an explicit store of blocks: a pointer is the
    identity of a block, \<^verbatim>\<open>NULL\<close> is \<open>0\<close>, and every access names an offset and a size
    that are checked against the block. An access outside a block is undefined behaviour
    in C; the model makes it the outcome \<open>MemFault\<close>.
  \<^item> A buffer obtained from \<^verbatim>\<open>malloc\<close> and released in the same function is a local byte
    list of the requested size whose initial content is indeterminate (chosen by the
    \<open>malloc\<close> parameter, as a function of the size requested); a write beyond it is the
    outcome \<open>ScratchOverflow\<close>.
  \<^item> Every \<^verbatim>\<open>return 0\<close> and \<^verbatim>\<open>return NULL\<close> of the source is a branch of the model that
    returns \<open>Inl\<close> of a tag naming the place; success is \<open>Inr\<close>. The C functions do not
    distinguish their failures in the value they return, only in what they print.
  \<^item> What the file calls but does not define (OpenSSL's \<^verbatim>\<open>SHA1\<close>, \<^verbatim>\<open>RSA_public_encrypt\<close>,
    \<^verbatim>\<open>RSA_new\<close>, \<^verbatim>\<open>BN_bin2bn\<close>, libc's \<^verbatim>\<open>malloc\<close>, the tag store's \<^verbatim>\<open>emv_data_int\<close> and
    the macro \<^verbatim>\<open>EMV_AIP_SDA\<close>) is a parameter, collected in the record \<open>prims\<close>.
\<close>

subsection \<open>Machine types, errors\<close>

type_synonym u8 = "8 word"
type_synonym size_t = "64 word"
type_synonym c_int = "32 word"
type_synonym ptr = nat
type_synonym heap = "ptr \<Rightarrow> u8 list option"

datatype error =
    UnsupportedMethod   \<comment> \<open>\<^verbatim>\<open>emv-sda: card doesn't support SDA\<close>\<close>
  | DataMissing         \<comment> \<open>\<^verbatim>\<open>get_required_data\<close> returned 0\<close>
  | KeyNotFound         \<comment> \<open>a CA key callback returned \<^verbatim>\<open>NULL\<close>\<close>
  | NoMemory            \<comment> \<open>\<^verbatim>\<open>malloc\<close>, \<^verbatim>\<open>RSA_new\<close> or \<^verbatim>\<open>BN_bin2bn\<close> returned \<^verbatim>\<open>NULL\<close>\<close>
  | LengthMismatch      \<comment> \<open>\<^verbatim>\<open>emv-sda: issuer pubkey cert failed len check\<close>\<close>
  | RecoveryFailed      \<comment> \<open>\<^verbatim>\<open>recover\<close>: \<^verbatim>\<open>ret < 0 || (unsigned)ret != len\<close>\<close>
  | BadFormat           \<comment> \<open>one of the header byte comparisons failed\<close>
  | BadTrailer          \<comment> \<open>\<^verbatim>\<open>emsa-pss: bad trailer\<close>\<close>
  | HashMismatch        \<comment> \<open>\<^verbatim>\<open>memcmp\<close> of the digest returned non-zero\<close>
  | MemFault            \<comment> \<open>access outside a block of the store (undefined behaviour)\<close>
  | ScratchOverflow     \<comment> \<open>write beyond a \<^verbatim>\<open>malloc\<close>ed buffer (undefined behaviour)\<close>

definition SHA_DIGEST_LENGTH :: size_t where
  "SHA_DIGEST_LENGTH = 20"

subsection \<open>Data\<close>

text \<open>\<^verbatim>\<open>struct _emv_data\<close>, the two fields the file reads.\<close>

record emv_data =
  d_data :: ptr
  d_len :: size_t

text \<open>\<^verbatim>\<open>struct sda_req\<close>.\<close>

record sda_req =
  ca_pk_idx :: c_int
  pk_cert :: ptr
  pk_cert_len :: size_t
  pk_r :: ptr
  pk_r_len :: size_t
  pk_exp :: ptr
  pk_exp_len :: size_t
  ssa_data :: ptr
  ssa_data_len :: size_t

text \<open>
  OpenSSL's \<^verbatim>\<open>RSA\<close> object, its fields \<^verbatim>\<open>n\<close> and \<^verbatim>\<open>e\<close>. A \<^verbatim>\<open>BIGNUM\<close> is represented by the
  big-endian byte string that \<^verbatim>\<open>BN_bin2bn\<close> was given.
\<close>

record rsa_key =
  rsa_n :: "u8 list"
  rsa_e :: "u8 list"

datatype tag =
    EMV_TAG_CA_PK_INDEX
  | EMV_TAG_ISS_PK_CERT
  | EMV_TAG_ISS_PK_R
  | EMV_TAG_ISS_PK_EXP
  | EMV_TAG_SSA_DATA

text \<open>
  \<^verbatim>\<open>struct _emv\<close>, the fields the file uses: the two AIP bytes \<^verbatim>\<open>e_aip\<close>, the array
  \<^verbatim>\<open>e_db.db_sda\<close> of \<^verbatim>\<open>e_db.db_numsda\<close> record pointers (a list, in array order), the key
  slots \<^verbatim>\<open>e_ca_pk\<close> and \<^verbatim>\<open>e_iss_pk\<close> (\<open>None\<close> is \<^verbatim>\<open>NULL\<close>) and the flag \<^verbatim>\<open>e_sda_ok\<close>.

  Modelled from the spec: \<^verbatim>\<open>_emv_retrieve_data\<close> is not in the source files; the spec
  gives the tag store as \<^verbatim>\<open>lookup(tag) -> Option<ByteView>\<close>. The field \<open>e_tags\<close> is that
  lookup, \<open>None\<close> for the \<^verbatim>\<open>NULL\<close> the callers test for.
\<close>

record emv =
  e_aip :: "u8 \<times> u8"
  e_tags :: "tag \<Rightarrow> emv_data option"
  db_sda :: "emv_data list"
  e_ca_pk :: "rsa_key option"
  e_iss_pk :: "rsa_key option"
  e_sda_ok :: int

text \<open>
  The parameters. \<open>SHA1 m\<close> is the digest written to \<^verbatim>\<open>md\<close>. \<open>RSA_public_encrypt flen from key\<close>
  is called with \<^verbatim>\<open>RSA_NO_PADDING\<close> and gives the \<^verbatim>\<open>int\<close> returned together with the
  bytes written to \<^verbatim>\<open>to\<close>. \<open>malloc n\<close> is \<open>None\<close> for \<^verbatim>\<open>NULL\<close> and otherwise the
  indeterminate initial content of the new buffer, by offset. \<open>RSA_new_ok\<close> and
  \<open>BN_bin2bn_ok\<close> say whether these allocating constructors return non-\<^verbatim>\<open>NULL\<close>.
  \<open>emv_data_int\<close> is the tag store's integer decoder, which reads the store.
\<close>

record prims =
  SHA1 :: "u8 list \<Rightarrow> u8 list"
  RSA_public_encrypt :: "c_int \<Rightarrow> u8 list \<Rightarrow> rsa_key \<Rightarrow> c_int \<times> u8 list"
  malloc :: "size_t \<Rightarrow> (nat \<Rightarrow> u8) option"
  RSA_new_ok :: bool
  BN_bin2bn_ok :: "u8 list \<Rightarrow> bool"
  emv_data_int :: "heap \<Rightarrow> emv_data option \<Rightarrow> c_int"
  EMV_AIP_SDA :: u8

subsection \<open>Memory accesses\<close>

definition NULL :: ptr where
  "NULL = 0"

definition block :: "heap \<Rightarrow> ptr \<Rightarrow> u8 list option" where
  "block h p = (if p = NULL then None else h p)"

text \<open>\<^verbatim>\<open>p[off]\<close>\<close>

definition load_u8 :: "heap \<Rightarrow> ptr \<Rightarrow> nat \<Rightarrow> error + u8" where
  "load_u8 h p off =
     (case block h p of
        None \<Rightarrow> Inl MemFault
      | Some bs \<Rightarrow> if off < length bs then Inr (bs ! off) else Inl MemFault)"

text \<open>The \<open>n\<close> bytes at \<^verbatim>\<open>p + off\<close>.\<close>

definition load :: "heap \<Rightarrow> ptr \<Rightarrow> nat \<Rightarrow> nat \<Rightarrow> error + u8 list" where
  "load h p off n =
     (case block h p of
        None \<Rightarrow> Inl MemFault
      | Some bs \<Rightarrow> if off + n \<le> length bs then Inr (take n (drop off bs)) else Inl MemFault)"

text \<open>Writing \<open>src\<close> at offset \<open>off\<close> of a local buffer.\<close>

definition poke :: "u8 list \<Rightarrow> nat \<Rightarrow> u8 list \<Rightarrow> error + u8 list" where
  "poke dst off src =
     (if off + length src \<le> length dst
      then Inr (take off dst @ src @ drop (off + length src) dst)
      else Inl ScratchOverflow)"

text \<open>\<^verbatim>\<open>memcpy(dst + doff, p + off, n)\<close> from the store into a local buffer.\<close>

definition memcpy_in :: "u8 list \<Rightarrow> nat \<Rightarrow> heap \<Rightarrow> ptr \<Rightarrow> nat \<Rightarrow> nat \<Rightarrow> error + u8 list" where
  "memcpy_in dst doff h p off n =
     (case load h p off n of Inl x \<Rightarrow> Inl x | Inr bs \<Rightarrow> poke dst doff bs)"

text \<open>\<^verbatim>\<open>memcpy(p, src, length src)\<close> from a local buffer into the store.\<close>

definition memcpy_out :: "heap \<Rightarrow> ptr \<Rightarrow> u8 list \<Rightarrow> (error + unit) \<times> heap" where
  "memcpy_out h p src =
     (case block h p of
        None \<Rightarrow> (Inl MemFault, h)
      | Some old \<Rightarrow>
          if length src \<le> length old
          then (Inr (), h(p := Some (src @ drop (length src) old)))
          else (Inl MemFault, h))"

text \<open>The buffer \<^verbatim>\<open>malloc(n)\<close> returns.\<close>

definition fresh :: "(nat \<Rightarrow> u8) \<Rightarrow> size_t \<Rightarrow> u8 list" where
  "fresh f n = map f [0..<unat n]"

subsection \<open>The functions of \<^verbatim>\<open>emv_sda.c\<close>\<close>

text \<open>
  \<^verbatim>\<open>emsa_pss_decode\<close>: \<^verbatim>\<open>msg\<close> with \<^verbatim>\<open>msg_len\<close> is the caller's local buffer, a byte list;
  \<^verbatim>\<open>em\<close> points into the store.
\<close>

definition emsa_pss_decode :: "prims \<Rightarrow> u8 list \<Rightarrow> heap \<Rightarrow> ptr \<Rightarrow> size_t \<Rightarrow> error + unit" where
  "emsa_pss_decode P msg h em em_len =
     (let md = SHA1 P msg in
      case load_u8 h em (unat (em_len - 1)) of
        Inl x \<Rightarrow> Inl x
      | Inr t \<Rightarrow>
          if t \<noteq> 0xbc then Inl BadTrailer
          else
            let mdb_len = em_len - SHA_DIGEST_LENGTH - 1 in
            case load h em (unat mdb_len) (unat SHA_DIGEST_LENGTH) of
              Inl x \<Rightarrow> Inl x
            | Inr d \<Rightarrow> if d \<noteq> md then Inl HashMismatch else Inr ())"

text \<open>One of the four pointer lookups of \<^verbatim>\<open>get_required_data\<close>.\<close>

definition required_element :: "emv \<Rightarrow> tag \<Rightarrow> error + emv_data" where
  "required_element e t =
     (case e_tags e t of
        None \<Rightarrow> Inl DataMissing
      | Some d \<Rightarrow> if d_data d = NULL then Inl DataMissing else Inr d)"

definition get_required_data :: "prims \<Rightarrow> emv \<Rightarrow> heap \<Rightarrow> error + sda_req" where
  "get_required_data P e h =
     (let i = emv_data_int P h (e_tags e EMV_TAG_CA_PK_INDEX) in
      if sint i < 0 then Inl DataMissing
      else
        case required_element e EMV_TAG_ISS_PK_CERT of Inl x \<Rightarrow> Inl x | Inr c \<Rightarrow>
        case required_element e EMV_TAG_ISS_PK_R of Inl x \<Rightarrow> Inl x | Inr r \<Rightarrow>
        case required_element e EMV_TAG_ISS_PK_EXP of Inl x \<Rightarrow> Inl x | Inr x \<Rightarrow>
        case required_element e EMV_TAG_SSA_DATA of Inl x \<Rightarrow> Inl x | Inr s \<Rightarrow>
          Inr \<lparr>ca_pk_idx = i,
               pk_cert = d_data c, pk_cert_len = d_len c,
               pk_r = d_data r, pk_r_len = d_len r,
               pk_exp = d_data x, pk_exp_len = d_len x,
               ssa_data = d_data s, ssa_data_len = d_len s\<rparr>)"

text \<open>
  The callbacks \<^verbatim>\<open>mod\<close> and \<^verbatim>\<open>exp\<close> return a pointer and a length, or \<^verbatim>\<open>NULL\<close>: here the
  bytes, or \<open>None\<close>. The result is the key with \<^verbatim>\<open>*key_len\<close>.
\<close>

definition get_ca_key ::
  "prims \<Rightarrow> c_int \<Rightarrow> (c_int \<Rightarrow> u8 list option) \<Rightarrow> (c_int \<Rightarrow> u8 list option)
     \<Rightarrow> error + (rsa_key \<times> size_t)" where
  "get_ca_key P idx mod_cb exp_cb =
     (case mod_cb idx of
        None \<Rightarrow> Inl KeyNotFound
      | Some modulus \<Rightarrow>
          case exp_cb idx of
            None \<Rightarrow> Inl KeyNotFound
          | Some exponent \<Rightarrow>
              if \<not> RSA_new_ok P then Inl NoMemory
              else if \<not> BN_bin2bn_ok P modulus then Inl NoMemory
              else if \<not> BN_bin2bn_ok P exponent then Inl NoMemory
              else Inr (\<lparr>rsa_n = modulus, rsa_e = exponent\<rparr>, of_nat (length modulus)))"

text \<open>
  \<^verbatim>\<open>recover\<close>: the transform is given the \<open>len\<close> bytes at \<^verbatim>\<open>ptr\<close> and writes into \<^verbatim>\<open>tmp\<close>;
  only after the comparison of its return value are the \<open>len\<close> bytes of \<^verbatim>\<open>tmp\<close> copied to
  \<^verbatim>\<open>ptr\<close>, which is the caller's buffer itself.
\<close>

definition recover :: "prims \<Rightarrow> ptr \<Rightarrow> size_t \<Rightarrow> rsa_key \<Rightarrow> heap \<Rightarrow> (error + unit) \<times> heap" where
  "recover P p len key h =
     (case malloc P len of
        None \<Rightarrow> (Inl NoMemory, h)
      | Some f \<Rightarrow>
          case load h p 0 (unat len) of
            Inl x \<Rightarrow> (Inl x, h)
          | Inr src \<Rightarrow>
              let (ret, out) = RSA_public_encrypt P (ucast len) src key in
              case poke (fresh f len) 0 out of
                Inl x \<Rightarrow> (Inl x, h)
              | Inr tmp \<Rightarrow>
                  if sint ret < 0 \<or> (ucast ret :: size_t) \<noteq> len then (Inl RecoveryFailed, h)
                  else memcpy_out h p (take (unat len) tmp))"

definition check_pk_cert :: "prims \<Rightarrow> sda_req \<Rightarrow> heap \<Rightarrow> error + unit" where
  "check_pk_cert P req h =
     (case load_u8 h (pk_cert req) 0 of Inl x \<Rightarrow> Inl x | Inr b0 \<Rightarrow>
      if b0 \<noteq> 0x6a then Inl BadFormat else
      case load_u8 h (pk_cert req) 1 of Inl x \<Rightarrow> Inl x | Inr b1 \<Rightarrow>
      if b1 \<noteq> 0x02 then Inl BadFormat else
      case load_u8 h (pk_cert req) 11 of Inl x \<Rightarrow> Inl x | Inr b11 \<Rightarrow>
      if b11 \<noteq> 0x01 then Inl BadFormat else
      let n = pk_cert_len req - (SHA_DIGEST_LENGTH + 2);
          msg_len = n + pk_r_len req + pk_exp_len req in
      case malloc P msg_len of None \<Rightarrow> Inl NoMemory | Some f \<Rightarrow>
      case memcpy_in (fresh f msg_len) 0 h (pk_cert req) 1 (unat n) of
        Inl x \<Rightarrow> Inl x | Inr m1 \<Rightarrow>
      case memcpy_in m1 (unat n) h (pk_r req) 0 (unat (pk_r_len req)) of
        Inl x \<Rightarrow> Inl x | Inr m2 \<Rightarrow>
      case memcpy_in m2 (unat n + unat (pk_r_len req)) h (pk_exp req) 0 (unat (pk_exp_len req)) of
        Inl x \<Rightarrow> Inl x | Inr msg \<Rightarrow>
      emsa_pss_decode P msg h (pk_cert req) (pk_cert_len req))"

definition make_issuer_pk :: "prims \<Rightarrow> sda_req \<Rightarrow> heap \<Rightarrow> error + rsa_key" where
  "make_issuer_pk P req h =
     (case malloc P (pk_cert_len req) of None \<Rightarrow> Inl NoMemory | Some f \<Rightarrow>
      let kb_len = pk_cert_len req - (15 + 21) in
      case memcpy_in (fresh f (pk_cert_len req)) 0 h (pk_cert req) 15 (unat kb_len) of
        Inl x \<Rightarrow> Inl x | Inr t1 \<Rightarrow>
      case memcpy_in t1 (unat kb_len) h (pk_r req) 0 (unat (pk_r_len req)) of
        Inl x \<Rightarrow> Inl x | Inr tmp \<Rightarrow>
      if \<not> RSA_new_ok P then Inl NoMemory else
      case load h (pk_exp req) 0 (unat (pk_exp_len req)) of Inl x \<Rightarrow> Inl x | Inr ex \<Rightarrow>
      if \<not> BN_bin2bn_ok P tmp \<or> \<not> BN_bin2bn_ok P ex then Inl NoMemory
      else Inr \<lparr>rsa_n = tmp, rsa_e = ex\<rparr>)"

definition get_issuer_pk ::
  "prims \<Rightarrow> sda_req \<Rightarrow> rsa_key \<Rightarrow> size_t \<Rightarrow> heap \<Rightarrow> (error + rsa_key) \<times> heap" where
  "get_issuer_pk P req ca_key key_len h =
     (if pk_cert_len req \<noteq> key_len then (Inl LengthMismatch, h)
      else
        case recover P (pk_cert req) key_len ca_key h of
          (Inl x, h') \<Rightarrow> (Inl x, h')
        | (Inr u, h') \<Rightarrow>
            (case check_pk_cert P req h' of
               Inl x \<Rightarrow> (Inl x, h')
             | Inr u \<Rightarrow> (make_issuer_pk P req h', h')))"

text \<open>The first loop of \<^verbatim>\<open>check_ssa\<close>: \<^verbatim>\<open>data_len += rec[i]->d_len\<close>.\<close>

fun sda_data_len :: "emv_data list \<Rightarrow> size_t \<Rightarrow> size_t" where
  "sda_data_len [] data_len = data_len"
| "sda_data_len (r # rs) data_len = sda_data_len rs (data_len + d_len r)"

text \<open>
  The second loop: \<^verbatim>\<open>memcpy(tmp, rec[i]->d_data, rec[i]->d_len); tmp += rec[i]->d_len\<close>,
  with \<^verbatim>\<open>tmp\<close> as an offset into \<^verbatim>\<open>msg\<close>.
\<close>

fun copy_records :: "heap \<Rightarrow> emv_data list \<Rightarrow> u8 list \<Rightarrow> nat \<Rightarrow> error + (u8 list \<times> nat)" where
  "copy_records h [] msg tmp = Inr (msg, tmp)"
| "copy_records h (r # rs) msg tmp =
     (case memcpy_in msg tmp h (d_data r) 0 (unat (d_len r)) of
        Inl x \<Rightarrow> Inl x
      | Inr msg' \<Rightarrow> copy_records h rs msg' (tmp + unat (d_len r)))"

definition check_ssa ::
  "prims \<Rightarrow> heap \<Rightarrow> ptr \<Rightarrow> size_t \<Rightarrow> emv_data list \<Rightarrow> u8 \<times> u8 \<Rightarrow> error + unit" where
  "check_ssa P h p len recs aip =
     (let data_len = sda_data_len recs 2;
          cf_len = len - (SHA_DIGEST_LENGTH + 2);
          msg_len = cf_len + data_len in
      case malloc P msg_len of None \<Rightarrow> Inl NoMemory | Some f \<Rightarrow>
      case memcpy_in (fresh f msg_len) 0 h p 1 (unat cf_len) of
        Inl x \<Rightarrow> Inl x | Inr m1 \<Rightarrow>
      case copy_records h recs m1 (unat cf_len) of
        Inl x \<Rightarrow> Inl x | Inr (m2, tmp) \<Rightarrow>
      case poke m2 tmp [fst aip, snd aip] of
        Inl x \<Rightarrow> Inl x | Inr msg \<Rightarrow>
      emsa_pss_decode P msg h p len)"

definition verify_ssa_data ::
  "prims \<Rightarrow> emv_data list \<Rightarrow> sda_req \<Rightarrow> rsa_key \<Rightarrow> u8 \<times> u8 \<Rightarrow> heap \<Rightarrow> (error + unit) \<times> heap" where
  "verify_ssa_data P recs req iss_key aip h =
     (case recover P (ssa_data req) (ssa_data_len req) iss_key h of
        (Inl x, h') \<Rightarrow> (Inl x, h')
      | (Inr u, h') \<Rightarrow>
          (case load_u8 h' (ssa_data req) 0 of Inl x \<Rightarrow> (Inl x, h') | Inr b0 \<Rightarrow>
           if b0 \<noteq> 0x6a then (Inl BadFormat, h') else
           case load_u8 h' (ssa_data req) 1 of Inl x \<Rightarrow> (Inl x, h') | Inr b1 \<Rightarrow>
           if b1 \<noteq> 0x03 then (Inl BadFormat, h') else
           case load_u8 h' (ssa_data req) 2 of Inl x \<Rightarrow> (Inl x, h') | Inr b2 \<Rightarrow>
           if b2 \<noteq> 0x01 then (Inl BadFormat, h') else
           (check_ssa P h' (ssa_data req) (ssa_data_len req) recs aip, h')))"

definition emv_authenticate_static_data ::
  "prims \<Rightarrow> (c_int \<Rightarrow> u8 list option) \<Rightarrow> (c_int \<Rightarrow> u8 list option) \<Rightarrow> emv \<times> heap
     \<Rightarrow> (error + unit) \<times> emv \<times> heap" where
  "emv_authenticate_static_data P mod_cb exp_cb s =
     (case s of (e, h) \<Rightarrow>
      if fst (e_aip e) AND EMV_AIP_SDA P = 0 then (Inl UnsupportedMethod, e, h) else
      case get_required_data P e h of Inl x \<Rightarrow> (Inl x, e, h) | Inr req \<Rightarrow>
      case get_ca_key P (ca_pk_idx req) mod_cb exp_cb of
        Inl x \<Rightarrow> (Inl x, e, h)
      | Inr (ca_key, ca_key_len) \<Rightarrow>
          let e1 = e\<lparr>e_ca_pk := Some ca_key\<rparr> in
          (case get_issuer_pk P req ca_key ca_key_len h of
             (Inl x, h1) \<Rightarrow> (Inl x, e1\<lparr>e_iss_pk := None\<rparr>, h1)
           | (Inr iss, h1) \<Rightarrow>
               let e2 = e1\<lparr>e_iss_pk := Some iss\<rparr> in
               (case verify_ssa_data P (db_sda e2) req iss (e_aip e2) h1 of
                  (Inl x, h2) \<Rightarrow> (Inl x, e2, h2)
                | (Inr u, h2) \<Rightarrow> (Inr (), e2\<lparr>e_sda_ok := 1\<rparr>, h2))))"

definition emv_sda_ok :: "emv \<Rightarrow> int" where
  "emv_sda_ok e = (if e_sda_ok e \<noteq> 0 then 1 else 0)"

text \<open>
  The bytes an SDA-relevant record contributes: the \<open>d_len\<close> bytes at \<open>d_data\<close>, \<open>None\<close>
  when they are not all inside the record's block.
\<close>

definition record_bytes :: "heap \<Rightarrow> emv_data \<Rightarrow> u8 list option" where
  "record_bytes h r =
     (case load h (d_data r) 0 (unat (d_len r)) of Inl x \<Rightarrow> None | Inr bs \<Rightarrow> Some bs)"

subsection \<open>Concrete primitives and fixtures\<close>

text \<open>
  The theorems below hold for every choice of the primitives. To run the functions on
  concrete cards, the digest is instantiated with SHA-1 as FIPS 180 defines it, and the RSA
  transform with textbook RSA on big-endian byte strings (what \<^verbatim>\<open>RSA_public_encrypt\<close>
  computes with \<^verbatim>\<open>RSA_NO_PADDING\<close>: an error unless the input has the size of the modulus
  and is smaller than it).
\<close>

type_synonym u32 = "32 word"

definition rotl32 :: "nat \<Rightarrow> u32 \<Rightarrow> u32" where
  "rotl32 n x = push_bit n x OR drop_bit (32 - n) x"

fun be32 :: "u8 list \<Rightarrow> u32 list" where
  "be32 (a # b # c # d # bs) =
     (push_bit 24 (ucast a) OR push_bit 16 (ucast b) OR push_bit 8 (ucast c) OR ucast d) # be32 bs"
| "be32 bs = []"

definition sha1_pad :: "u8 list \<Rightarrow> u8 list" where
  "sha1_pad m =
     m @ [0x80] @ replicate ((119 - length m mod 64) mod 64) 0 @
     map (\<lambda>i. of_nat ((8 * length m) div 2 ^ (8 * (7 - i)))) [0..<8]"

fun sha1_sched :: "nat \<Rightarrow> u32 list \<Rightarrow> u32 list" where
  "sha1_sched 0 w = w"
| "sha1_sched (Suc k) w =
     sha1_sched k
       (w @ [rotl32 1 (w ! (length w - 3) XOR w ! (length w - 8) XOR w ! (length w - 14) XOR
                        w ! (length w - 16))])"

definition sha1_f :: "nat \<Rightarrow> u32 \<Rightarrow> u32 \<Rightarrow> u32 \<Rightarrow> u32" where
  "sha1_f t b c d =
     (if t < 20 then (b AND c) OR (NOT b AND d)
      else if t < 40 then b XOR c XOR d
      else if t < 60 then (b AND c) OR (b AND d) OR (c AND d)
      else b XOR c XOR d)"

definition sha1_k :: "nat \<Rightarrow> u32" where
  "sha1_k t =
     (if t < 20 then 0x5a827999 else if t < 40 then 0x6ed9eba1
      else if t < 60 then 0x8f1bbcdc else 0xca62c1d6)"

type_synonym sha1_state = "u32 \<times> u32 \<times> u32 \<times> u32 \<times> u32"

fun sha1_rounds :: "u32 list \<Rightarrow> nat \<Rightarrow> sha1_state \<Rightarrow> sha1_state" where
  "sha1_rounds [] t s = s"
| "sha1_rounds (w # ws) t (a, b, c, d, e) =
     sha1_rounds ws (Suc t) (rotl32 5 a + sha1_f t b c d + e + sha1_k t + w, a, rotl32 30 b, c, d)"

definition sha1_block :: "sha1_state \<Rightarrow> u8 list \<Rightarrow> sha1_state" where
  "sha1_block h blk =
     (case h of (h0, h1, h2, h3, h4) \<Rightarrow>
      case sha1_rounds (sha1_sched 64 (be32 blk)) 0 h of (a, b, c, d, e) \<Rightarrow>
        (h0 + a, h1 + b, h2 + c, h3 + d, h4 + e))"

fun sha1_blocks :: "nat \<Rightarrow> sha1_state \<Rightarrow> u8 list \<Rightarrow> sha1_state" where
  "sha1_blocks 0 h bs = h"
| "sha1_blocks (Suc n) h bs = sha1_blocks n (sha1_block h (take 64 bs)) (drop 64 bs)"

definition bytes32 :: "u32 \<Rightarrow> u8 list" where
  "bytes32 w = [ucast (drop_bit 24 w), ucast (drop_bit 16 w), ucast (drop_bit 8 w), ucast w]"

definition sha1 :: "u8 list \<Rightarrow> u8 list" where
  "sha1 m =
     (let p = sha1_pad m in
      case sha1_blocks (length p div 64)
             (0x67452301, 0xefcdab89, 0x98badcfe, 0x10325476, 0xc3d2e1f0) p
      of (a, b, c, d, e) \<Rightarrow> bytes32 a @ bytes32 b @ bytes32 c @ bytes32 d @ bytes32 e)"

definition be_nat :: "u8 list \<Rightarrow> nat" where
  "be_nat bs = foldl (\<lambda>a b. a * 256 + unat b) 0 bs"

fun nat_be :: "nat \<Rightarrow> nat \<Rightarrow> u8 list" where
  "nat_be 0 v = []"
| "nat_be (Suc k) v = nat_be k (v div 256) @ [of_nat (v mod 256)]"

definition modexp :: "nat \<Rightarrow> nat \<Rightarrow> nat \<Rightarrow> nat" where
  "modexp m e n = m ^ e mod n"

definition textbook_rsa :: "c_int \<Rightarrow> u8 list \<Rightarrow> rsa_key \<Rightarrow> c_int \<times> u8 list" where
  "textbook_rsa flen src key =
     (let n = be_nat (rsa_n key); e = be_nat (rsa_e key);
          k = length (dropWhile (\<lambda>b. b = 0) (rsa_n key)); m = be_nat src
      in if unat flen \<noteq> k \<or> length src \<noteq> k \<or> n \<le> m then (- 1, [])
         else (of_nat k, nat_be k (modexp m e n)))"

definition first_byte_int :: "heap \<Rightarrow> emv_data option \<Rightarrow> c_int" where
  "first_byte_int h d =
     (case d of
        None \<Rightarrow> - 1
      | Some r \<Rightarrow> (case load_u8 h (d_data r) 0 of Inl x \<Rightarrow> - 1 | Inr b \<Rightarrow> ucast b))"

definition demo_prims :: prims where
  "demo_prims =
     \<lparr>SHA1 = sha1, RSA_public_encrypt = textbook_rsa,
      malloc = (\<lambda>n. Some (\<lambda>i. 0xaa)), RSA_new_ok = True, BN_bin2bn_ok = (\<lambda>bs. True),
      emv_data_int = first_byte_int, EMV_AIP_SDA = 0x40\<rparr>"

text \<open>A 320-bit CA key with exponent 3, and the issuer key its certificate carries.\<close>

definition demo_ca_mod :: "u8 list" where
  "demo_ca_mod =
    [0xcb, 0xbd, 0x7c, 0x9c, 0x3f, 0x86, 0x14, 0x2f, 0x2d, 0x8f,
     0x3f, 0xb4, 0xb6, 0x74, 0x90, 0x36, 0x43, 0xde, 0x9b, 0x25,
     0x08, 0x22, 0x6d, 0x98, 0x2b, 0xc1, 0x4b, 0x26, 0xde, 0x42,
     0x06, 0x04, 0xd2, 0x0e, 0x2b, 0xa9, 0x31, 0x70, 0x40, 0x33]"

definition demo_ca_key :: rsa_key where
  "demo_ca_key = \<lparr>rsa_n = demo_ca_mod, rsa_e = [0x03]\<rparr>"

definition demo_iss_mod :: "u8 list" where
  "demo_iss_mod =
    [0xb8, 0xbb, 0x9f, 0x68, 0xa5, 0xd5, 0x39, 0x6d, 0x59, 0xf2,
     0x1d, 0x0e, 0x50, 0x80, 0xc9, 0x23, 0x07, 0x06, 0x08, 0xa8,
     0x49, 0x17, 0x31, 0x21, 0xb2, 0x22, 0x9a, 0xb0, 0x4a, 0xf8,
     0x5e, 0xf0, 0xc6, 0xaa, 0x11, 0x75, 0x35, 0x5a, 0xad, 0xa7]"

definition demo_iss_key :: rsa_key where
  "demo_iss_key = \<lparr>rsa_n = demo_iss_mod, rsa_e = [0x03]\<rparr>"

text \<open>The issuer certificate as the card stores it, and the block it recovers to.\<close>

definition demo_cert :: "u8 list" where
  "demo_cert =
    [0xa5, 0x59, 0xf1, 0x33, 0x6a, 0xb3, 0x6e, 0x95, 0xeb, 0x9c,
     0x19, 0xa7, 0x74, 0xf1, 0x1d, 0xfc, 0x22, 0x8e, 0x31, 0x13,
     0x45, 0x77, 0x2b, 0x24, 0x0d, 0xa8, 0x27, 0x11, 0x95, 0x3c,
     0xd6, 0x70, 0x08, 0x18, 0x42, 0xa0, 0x30, 0x43, 0x1b, 0x09]"

definition demo_cert_rec :: "u8 list" where
  "demo_cert_rec =
    [0x6a, 0x02, 0x12, 0x34, 0x56, 0xff, 0x12, 0x30, 0x00, 0x00,
     0x01, 0x01, 0x01, 0x28, 0x01, 0xb8, 0xbb, 0x9f, 0x68, 0x91,
     0x31, 0xbb, 0xcc, 0x21, 0x96, 0x6f, 0x9b, 0x71, 0x83, 0x09,
     0xd1, 0x70, 0x9d, 0x88, 0xe9, 0xb5, 0x96, 0x07, 0x2f, 0xbc]"

definition demo_pk_r :: "u8 list" where
  "demo_pk_r =
    [0xa5, 0xd5, 0x39, 0x6d, 0x59, 0xf2, 0x1d, 0x0e, 0x50, 0x80,
     0xc9, 0x23, 0x07, 0x06, 0x08, 0xa8, 0x49, 0x17, 0x31, 0x21,
     0xb2, 0x22, 0x9a, 0xb0, 0x4a, 0xf8, 0x5e, 0xf0, 0xc6, 0xaa,
     0x11, 0x75, 0x35, 0x5a, 0xad, 0xa7]"

text \<open>The signed static data as stored and as recovered, and the two SDA records.\<close>

definition demo_ssa :: "u8 list" where
  "demo_ssa =
    [0x20, 0x7e, 0x89, 0x49, 0xd2, 0x4d, 0xae, 0xe9, 0xd1, 0x12,
     0x54, 0xcb, 0x31, 0xf9, 0xb7, 0x06, 0x7d, 0x11, 0x3a, 0x96,
     0x1e, 0x02, 0x37, 0xaf, 0xc5, 0xd9, 0xfb, 0x7d, 0xe3, 0xe1,
     0xf4, 0x8b, 0xb4, 0x80, 0x5d, 0xe7, 0xde, 0xe3, 0x7b, 0xdc]"

definition demo_ssa_rec :: "u8 list" where
  "demo_ssa_rec =
    [0x6a, 0x03, 0x01, 0xda, 0xc1, 0xbb, 0xbb, 0xbb, 0xbb, 0xbb,
     0xbb, 0xbb, 0xbb, 0xbb, 0xbb, 0xbb, 0xbb, 0xbb, 0xbb, 0x9e,
     0xcd, 0xaf, 0x1e, 0xff, 0xe6, 0xc0, 0xf2, 0x1e, 0x14, 0x3c,
     0x44, 0x0e, 0x60, 0x24, 0x0e, 0x72, 0x34, 0x6d, 0x62, 0xbc]"

definition demo_R1 :: "u8 list" where
  "demo_R1 = [0x9f, 0x10, 0x02, 0xaa, 0x55]"

definition demo_R2 :: "u8 list" where
  "demo_R2 = [0x5a, 0x02, 0x47, 0x61]"

text \<open>
  The store: certificate at 10, remainder at 11, exponent at 12, signed data at 13, the
  records at 14 and 15, the CA key index at 16.
\<close>

definition demo_heap :: heap where
  "demo_heap =
     (\<lambda>p. None)(10 := Some demo_cert, 11 := Some demo_pk_r, 12 := Some [0x03],
        13 := Some demo_ssa, 14 := Some demo_R1, 15 := Some demo_R2, 16 := Some [0x01])"

definition demo_tags :: "tag \<Rightarrow> emv_data option" where
  "demo_tags t =
     (case t of
        EMV_TAG_CA_PK_INDEX \<Rightarrow> Some \<lparr>d_data = 16, d_len = 1\<rparr>
      | EMV_TAG_ISS_PK_CERT \<Rightarrow> Some \<lparr>d_data = 10, d_len = 40\<rparr>
      | EMV_TAG_ISS_PK_R \<Rightarrow> Some \<lparr>d_data = 11, d_len = 36\<rparr>
      | EMV_TAG_ISS_PK_EXP \<Rightarrow> Some \<lparr>d_data = 12, d_len = 1\<rparr>
      | EMV_TAG_SSA_DATA \<Rightarrow> Some \<lparr>d_data = 13, d_len = 40\<rparr>)"

definition demo_recs :: "emv_data list" where
  "demo_recs = [\<lparr>d_data = 14, d_len = 5\<rparr>, \<lparr>d_data = 15, d_len = 4\<rparr>]"

definition demo_emv :: emv where
  "demo_emv =
     \<lparr>e_aip = (0x5c, 0x00), e_tags = demo_tags, db_sda = demo_recs,
      e_ca_pk = None, e_iss_pk = None, e_sda_ok = 0\<rparr>"

definition demo_req :: sda_req where
  "demo_req =
     \<lparr>ca_pk_idx = 1, pk_cert = 10, pk_cert_len = 40, pk_r = 11, pk_r_len = 36,
      pk_exp = 12, pk_exp_len = 1, ssa_data = 13, ssa_data_len = 40\<rparr>"

definition demo_mod :: "c_int \<Rightarrow> u8 list option" where
  "demo_mod idx = (if idx = 1 then Some demo_ca_mod else None)"

definition demo_exp :: "c_int \<Rightarrow> u8 list option" where
  "demo_exp idx = (if idx = 1 then Some [0x03] else None)"

text \<open>The store after the certificate, and then the signed data, have been recovered.\<close>

definition demo_heap1 :: heap where
  "demo_heap1 = demo_heap(10 := Some demo_cert_rec)"

definition demo_heap2 :: heap where
  "demo_heap2 = demo_heap1(13 := Some demo_ssa_rec)"

text \<open>The messages the two stages hash for this card.\<close>

definition demo_cert_msg :: "u8 list" where
  "demo_cert_msg =
    [0x02, 0x12, 0x34, 0x56, 0xff, 0x12, 0x30, 0x00, 0x00, 0x01,
     0x01, 0x01, 0x28, 0x01, 0xb8, 0xbb, 0x9f, 0x68, 0xa5, 0xd5,
     0x39, 0x6d, 0x59, 0xf2, 0x1d, 0x0e, 0x50, 0x80, 0xc9, 0x23,
     0x07, 0x06, 0x08, 0xa8, 0x49, 0x17, 0x31, 0x21, 0xb2, 0x22,
     0x9a, 0xb0, 0x4a, 0xf8, 0x5e, 0xf0, 0xc6, 0xaa, 0x11, 0x75,
     0x35, 0x5a, 0xad, 0xa7, 0x03]"

definition demo_ssa_msg :: "u8 list" where
  "demo_ssa_msg =
    [0x03, 0x01, 0xda, 0xc1, 0xbb, 0xbb, 0xbb, 0xbb, 0xbb, 0xbb,
     0xbb, 0xbb, 0xbb, 0xbb, 0xbb, 0xbb, 0xbb, 0xbb, 0x9f, 0x10,
     0x02, 0xaa, 0x55, 0x5a, 0x02, 0x47, 0x61, 0x5c, 0x00]"

text \<open>The message of the signed data when the two records are exchanged.\<close>

definition swapped_ssa_msg :: "u8 list" where
  "swapped_ssa_msg =
    [0x03, 0x01, 0xda, 0xc1, 0xbb, 0xbb, 0xbb, 0xbb, 0xbb, 0xbb,
     0xbb, 0xbb, 0xbb, 0xbb, 0xbb, 0xbb, 0xbb, 0xbb, 0x5a, 0x02,
     0x47, 0x61, 0x9f, 0x10, 0x02, 0xaa, 0x55, 0x5c, 0x00]"

text \<open>
  A second card: the same CA key, and a certificate issued over a remainder of one byte
  (the issuer key is shorter than the CA key).
\<close>

definition short_cert :: "u8 list" where
  "short_cert =
    [0x8b, 0xb0, 0x67, 0x16, 0xe6, 0x1a, 0x96, 0x2f, 0xa4, 0x2b,
     0xff, 0x1f, 0xb1, 0x7c, 0xd4, 0xc2, 0x8e, 0xa5, 0xf2, 0xc7,
     0xf7, 0x61, 0x51, 0x04, 0xa2, 0xaf, 0xf7, 0x01, 0xef, 0xa3,
     0x7f, 0x0f, 0x27, 0x26, 0x82, 0x36, 0x18, 0x66, 0x90, 0x9e]"

definition short_cert_rec :: "u8 list" where
  "short_cert_rec =
    [0x6a, 0x02, 0x12, 0x34, 0x56, 0xff, 0x12, 0x30, 0x00, 0x00,
     0x01, 0x01, 0x01, 0x28, 0x01, 0xb8, 0xbb, 0x9f, 0x68, 0xbd,
     0xf5, 0x84, 0xe1, 0x29, 0x89, 0x19, 0x08, 0xab, 0xce, 0x30,
     0x35, 0xcd, 0x7f, 0x50, 0x8c, 0x3f, 0x53, 0x7c, 0xbb, 0xbc]"

definition short_cert_msg :: "u8 list" where
  "short_cert_msg =
    [0x02, 0x12, 0x34, 0x56, 0xff, 0x12, 0x30, 0x00, 0x00, 0x01,
     0x01, 0x01, 0x28, 0x01, 0xb8, 0xbb, 0x9f, 0x68, 0xa5, 0x03]"

definition short_heap :: heap where
  "short_heap = demo_heap(10 := Some short_cert, 11 := Some [0xa5])"

definition short_req :: sda_req where
  "short_req = demo_req\<lparr>pk_r_len := 1\<rparr>"

definition short_heap1 :: heap where
  "short_heap1 = short_heap(10 := Some short_cert_rec)"

text \<open>A card with a one-byte certificate under a one-byte CA key (modulus 253, exponent 3).\<close>

definition tiny_heap :: heap where
  "tiny_heap =
     (\<lambda>p. None)(10 := Some [0x11], 11 := Some [0x00], 12 := Some [0x03], 13 := Some [0x00],
        16 := Some [0x02])"

definition tiny_tags :: "tag \<Rightarrow> emv_data option" where
  "tiny_tags t =
     (case t of
        EMV_TAG_CA_PK_INDEX \<Rightarrow> Some \<lparr>d_data = 16, d_len = 1\<rparr>
      | EMV_TAG_ISS_PK_CERT \<Rightarrow> Some \<lparr>d_data = 10, d_len = 1\<rparr>
      | EMV_TAG_ISS_PK_R \<Rightarrow> Some \<lparr>d_data = 11, d_len = 1\<rparr>
      | EMV_TAG_ISS_PK_EXP \<Rightarrow> Some \<lparr>d_data = 12, d_len = 1\<rparr>
      | EMV_TAG_SSA_DATA \<Rightarrow> Some \<lparr>d_data = 13, d_len = 1\<rparr>)"

definition tiny_emv :: emv where
  "tiny_emv = demo_emv\<lparr>e_tags := tiny_tags, db_sda := []\<rparr>"

definition tiny_mod :: "c_int \<Rightarrow> u8 list option" where
  "tiny_mod idx = (if idx = 2 then Some [0xfd] else None)"

definition tiny_exp :: "c_int \<Rightarrow> u8 list option" where
  "tiny_exp idx = (if idx = 2 then Some [0x03] else None)"

definition tiny_req :: sda_req where
  "tiny_req =
     \<lparr>ca_pk_idx = 2, pk_cert = 10, pk_cert_len = 1, pk_r = 11, pk_r_len = 1,
      pk_exp = 12, pk_exp_len = 1, ssa_data = 13, ssa_data_len = 1\<rparr>"

definition tiny_heap1 :: heap where
  "tiny_heap1 = tiny_heap(10 := Some [0x6a])"

text \<open>
  A third card: the first card with another certificate, one that recovers to the block of
  the first card's with \<open>0x6b\<close> as its first byte. That byte is not part of the hashed
  message, so trailer and digest of the recovered block are intact.
\<close>

definition bad_cert :: "u8 list" where
  "bad_cert =
    [0xb8, 0x04, 0x96, 0x86, 0x5d, 0x61, 0x36, 0xf2, 0x7e, 0x04,
     0xa0, 0xe3, 0x93, 0x50, 0xe7, 0x19, 0x36, 0x1b, 0xc6, 0x9b,
     0xb8, 0x60, 0x4c, 0x4d, 0x0d, 0xd5, 0x47, 0x41, 0xbc, 0x1d,
     0x71, 0xd2, 0xac, 0x4c, 0xa7, 0x05, 0x6e, 0x8c, 0xed, 0xb4]"

definition bad_cert_heap :: heap where
  "bad_cert_heap = demo_heap(10 := Some bad_cert)"

definition bad_header_heap :: heap where
  "bad_header_heap = demo_heap(10 := Some (0x6b # tl demo_cert_rec))"

text \<open>A CA key provider whose key 1 has a one-byte modulus.\<close>

definition small_mod :: "c_int \<Rightarrow> u8 list option" where
  "small_mod idx = (if idx = 1 then Some [0xfd] else None)"

text \<open>A store whose block 10 is the single byte \<open>0xBC\<close>.\<close>

definition trailer_only_heap :: heap where
  "trailer_only_heap = (\<lambda>p. None)(10 := Some [0xbc])"

text \<open>
  A fourth card, under a 21-byte CA key (key 3): a certificate of the length of that key,
  and the 21 bytes it recovers to, with the three header bytes and the trailer in place.
\<close>

definition card21_ca_mod :: "u8 list" where
  "card21_ca_mod =
    [0xb1, 0xbc, 0x49, 0xa5, 0xa2, 0x2a, 0x0b, 0xc1, 0xee, 0x7f,
     0x70, 0xf6, 0x0a, 0xa0, 0xe3, 0xaf, 0x61, 0x2c, 0xd2, 0x1a,
     0x51]"

definition card21_cert :: "u8 list" where
  "card21_cert =
    [0x75, 0xe5, 0x46, 0xbc, 0xac, 0x3b, 0x37, 0x34, 0xd2, 0xde,
     0xa5, 0x3b, 0x4c, 0x93, 0xa1, 0x09, 0x76, 0x6a, 0xd3, 0x01,
     0x3d]"

definition card21_cert_rec :: "u8 list" where
  "card21_cert_rec =
    [0x6a, 0x02, 0x12, 0x34, 0x56, 0xff, 0x12, 0x30, 0x00, 0x00,
     0x01, 0x01, 0x01, 0x15, 0x01, 0xc1, 0xc2, 0xc3, 0xc4, 0xc5,
     0xbc]"

definition card21_ca_key :: rsa_key where
  "card21_ca_key = \<lparr>rsa_n = card21_ca_mod, rsa_e = [0x03]\<rparr>"

definition card21_heap :: heap where
  "card21_heap =
     (\<lambda>p. None)(10 := Some card21_cert, 11 := Some [0xa5], 12 := Some [0x03],
        13 := Some [0x00], 16 := Some [0x03])"

definition card21_tags :: "tag \<Rightarrow> emv_data option" where
  "card21_tags t =
     (case t of
        EMV_TAG_CA_PK_INDEX \<Rightarrow> Some \<lparr>d_data = 16, d_len = 1\<rparr>
      | EMV_TAG_ISS_PK_CERT \<Rightarrow> Some \<lparr>d_data = 10, d_len = 21\<rparr>
      | EMV_TAG_ISS_PK_R \<Rightarrow> Some \<lparr>d_data = 11, d_len = 1\<rparr>
      | EMV_TAG_ISS_PK_EXP \<Rightarrow> Some \<lparr>d_data = 12, d_len = 1\<rparr>
      | EMV_TAG_SSA_DATA \<Rightarrow> Some \<lparr>d_data = 13, d_len = 1\<rparr>)"

definition card21_emv :: emv where
  "card21_emv = demo_emv\<lparr>e_tags := card21_tags, db_sda := []\<rparr>"

definition card21_mod :: "c_int \<Rightarrow> u8 list option" where
  "card21_mod idx = (if idx = 3 then Some card21_ca_mod else None)"

definition card21_exp :: "c_int \<Rightarrow> u8 list option" where
  "card21_exp idx = (if idx = 3 then Some [0x03] else None)"

definition card21_req :: sda_req where
  "card21_req =
     \<lparr>ca_pk_idx = 3, pk_cert = 10, pk_cert_len = 21, pk_r = 11, pk_r_len = 1,
      pk_exp = 12, pk_exp_len = 1, ssa_data = 13, ssa_data_len = 1\<rparr>"

definition card21_heap1 :: heap where
  "card21_heap1 = card21_heap(10 := Some card21_cert_rec)"

text \<open>
  A fifth card, under a 35-byte CA key (key 4): its certificate recovers to 14 header
  bytes, the SHA-1 digest of the message \<open>check_pk_cert\<close> builds for it, and the trailer.
\<close>

definition card35_ca_mod :: "u8 list" where
  "card35_ca_mod =
    [0xa5, 0xfb, 0x28, 0xfa, 0x94, 0xab, 0x1a, 0x06, 0x18, 0x12,
     0x49, 0xdf, 0x6a, 0x9c, 0x49, 0x30, 0x94, 0x83, 0x31, 0xa0,
     0xa4, 0xa6, 0x91, 0xcf, 0xbb, 0x0f, 0xac, 0xad, 0x10, 0x6b,
     0xe8, 0x52, 0x1c, 0xb1, 0x8b]"

definition card35_cert :: "u8 list" where
  "card35_cert =
    [0x42, 0xed, 0x80, 0x40, 0x04, 0x2c, 0x3e, 0x2c, 0x96, 0x7a,
     0x58, 0xcb, 0x83, 0x0c, 0x15, 0x68, 0x72, 0xfc, 0x9d, 0x74,
     0x59, 0x23, 0xba, 0x23, 0x88, 0x0f, 0x9e, 0x93, 0xc7, 0xb3,
     0xaf, 0xd6, 0x93, 0x53, 0x08]"

definition card35_cert_rec :: "u8 list" where
  "card35_cert_rec =
    [0x6a, 0x02, 0x12, 0x34, 0x56, 0xff, 0x12, 0x30, 0x00, 0x00,
     0x01, 0x01, 0x01, 0x23, 0xa4, 0x7e, 0x17, 0x39, 0x83, 0xf5,
     0xfa, 0x5c, 0xa8, 0x39, 0x80, 0xd0, 0x61, 0x39, 0x84, 0x7d,
     0xd4, 0x05, 0xf2, 0x77, 0xbc]"

definition card35_cert_msg :: "u8 list" where
  "card35_cert_msg =
    [0x02, 0x12, 0x34, 0x56, 0xff, 0x12, 0x30, 0x00, 0x00, 0x01,
     0x01, 0x01, 0x23, 0xde, 0xad, 0xbe, 0xef, 0x03]"

definition card35_ca_key :: rsa_key where
  "card35_ca_key = \<lparr>rsa_n = card35_ca_mod, rsa_e = [0x03]\<rparr>"

definition card35_heap :: heap where
  "card35_heap =
     (\<lambda>p. None)(10 := Some card35_cert, 11 := Some [0xde, 0xad, 0xbe, 0xef], 12 := Some [0x03],
        13 := Some [0x00], 16 := Some [0x04])"

definition card35_tags :: "tag \<Rightarrow> emv_data option" where
  "card35_tags t =
     (case t of
        EMV_TAG_CA_PK_INDEX \<Rightarrow> Some \<lparr>d_data = 16, d_len = 1\<rparr>
      | EMV_TAG_ISS_PK_CERT \<Rightarrow> Some \<lparr>d_data = 10, d_len = 35\<rparr>
      | EMV_TAG_ISS_PK_R \<Rightarrow> Some \<lparr>d_data = 11, d_len = 4\<rparr>
      | EMV_TAG_ISS_PK_EXP \<Rightarrow> Some \<lparr>d_data = 12, d_len = 1\<rparr>
      | EMV_TAG_SSA_DATA \<Rightarrow> Some \<lparr>d_data = 13, d_len = 1\<rparr>)"

definition card35_emv :: emv where
  "card35_emv = demo_emv\<lparr>e_tags := card35_tags, db_sda := []\<rparr>"

definition card35_mod :: "c_int \<Rightarrow> u8 list option" where
  "card35_mod idx = (if idx = 4 then Some card35_ca_mod else None)"

definition card35_exp :: "c_int \<Rightarrow> u8 list option" where
  "card35_exp idx = (if idx = 4 then Some [0x03] else None)"

definition card35_req :: sda_req where
  "card35_req =
     \<lparr>ca_pk_idx = 4, pk_cert = 10, pk_cert_len = 35, pk_r = 11, pk_r_len = 4,
      pk_exp = 12, pk_exp_len = 1, ssa_data = 13, ssa_data_len = 1\<rparr>"

definition card35_heap1 :: heap where
  "card35_heap1 = card35_heap(10 := Some card35_cert_rec)"

text \<open>
  A sixth card, under the 40-byte CA key of the first: the issuer modulus its certificate
  carries begins with 19 zero bytes, so the issuer key has 21 significant bytes, and the
  signed static data has 21 bytes.
\<close>

definition padded_iss_mod :: "u8 list" where
  "padded_iss_mod =
    [0x00, 0x00, 0x00, 0x00, 0x00, 0x00, 0x00, 0x00, 0x00, 0x00,
     0x00, 0x00, 0x00, 0x00, 0x00, 0x00, 0x00, 0x00, 0x00, 0x94,
     0x59, 0xbb, 0xa1, 0x66, 0xac, 0xc5, 0xf7, 0xdd, 0x6c, 0xad,
     0xfe, 0x1f, 0xaf, 0x0d, 0xc1, 0x17, 0x27, 0x7b, 0x04, 0xdd]"

definition padded_pk_r :: "u8 list" where
  "padded_pk_r =
    [0x00, 0x00, 0x00, 0x00, 0x00, 0x00, 0x00, 0x00, 0x00, 0x00,
     0x00, 0x00, 0x00, 0x00, 0x00, 0x94, 0x59, 0xbb, 0xa1, 0x66,
     0xac, 0xc5, 0xf7, 0xdd, 0x6c, 0xad, 0xfe, 0x1f, 0xaf, 0x0d,
     0xc1, 0x17, 0x27, 0x7b, 0x04, 0xdd]"

definition padded_cert :: "u8 list" where
  "padded_cert =
    [0x54, 0xba, 0x72, 0x5c, 0xb9, 0x8a, 0x74, 0x49, 0x0a, 0xf8,
     0x03, 0x4c, 0x50, 0xe0, 0x20, 0xbf, 0x7f, 0x1d, 0x66, 0x92,
     0xdf, 0xf8, 0x34, 0x76, 0x1f, 0x2d, 0xc1, 0xfe, 0x36, 0x9e,
     0x6b, 0xbb, 0x48, 0x94, 0x73, 0xbc, 0x55, 0x35, 0x4d, 0x05]"

definition padded_cert_rec :: "u8 list" where
  "padded_cert_rec =
    [0x6a, 0x02, 0x12, 0x34, 0x56, 0xff, 0x12, 0x30, 0x00, 0x00,
     0x01, 0x01, 0x01, 0x15, 0x01, 0x00, 0x00, 0x00, 0x00, 0x98,
     0x8f, 0x7e, 0xb3, 0x7c, 0xe0, 0xd0, 0x05, 0x83, 0x48, 0x42,
     0x23, 0x5c, 0xab, 0x34, 0xa0, 0x27, 0xd9, 0xfb, 0xe4, 0xbc]"

definition padded_cert_msg :: "u8 list" where
  "padded_cert_msg =
    [0x02, 0x12, 0x34, 0x56, 0xff, 0x12, 0x30, 0x00, 0x00, 0x01,
     0x01, 0x01, 0x15, 0x01, 0x00, 0x00, 0x00, 0x00, 0x00, 0x00,
     0x00, 0x00, 0x00, 0x00, 0x00, 0x00, 0x00, 0x00, 0x00, 0x00,
     0x00, 0x00, 0x00, 0x94, 0x59, 0xbb, 0xa1, 0x66, 0xac, 0xc5,
     0xf7, 0xdd, 0x6c, 0xad, 0xfe, 0x1f, 0xaf, 0x0d, 0xc1, 0x17,
     0x27, 0x7b, 0x04, 0xdd, 0x03]"

definition padded_ssa :: "u8 list" where
  "padded_ssa =
    [0x74, 0xed, 0x5d, 0x64, 0x89, 0xa5, 0xaf, 0x60, 0xf5, 0xd7,
     0xfd, 0xc5, 0xc8, 0x09, 0xd7, 0xe3, 0x78, 0x53, 0x0c, 0x28,
     0x9f]"

definition padded_ssa_rec :: "u8 list" where
  "padded_ssa_rec =
    [0x6a, 0x03, 0x01, 0xda, 0xc1, 0xbb, 0xbb, 0xbb, 0xbb, 0xbb,
     0xbb, 0xbb, 0xbb, 0xbb, 0xbb, 0xbb, 0xbb, 0xbb, 0xbb, 0xbb,
     0xbc]"

definition padded_iss_key :: rsa_key where
  "padded_iss_key = \<lparr>rsa_n = padded_iss_mod, rsa_e = [0x03]\<rparr>"

definition padded_heap :: heap where
  "padded_heap =
     demo_heap(10 := Some padded_cert, 11 := Some padded_pk_r, 13 := Some padded_ssa)"

definition padded_tags :: "tag \<Rightarrow> emv_data option" where
  "padded_tags t =
     (case t of
        EMV_TAG_CA_PK_INDEX \<Rightarrow> Some \<lparr>d_data = 16, d_len = 1\<rparr>
      | EMV_TAG_ISS_PK_CERT \<Rightarrow> Some \<lparr>d_data = 10, d_len = 40\<rparr>
      | EMV_TAG_ISS_PK_R \<Rightarrow> Some \<lparr>d_data = 11, d_len = 36\<rparr>
      | EMV_TAG_ISS_PK_EXP \<Rightarrow> Some \<lparr>d_data = 12, d_len = 1\<rparr>
      | EMV_TAG_SSA_DATA \<Rightarrow> Some \<lparr>d_data = 13, d_len = 21\<rparr>)"

definition padded_emv :: emv where
  "padded_emv = demo_emv\<lparr>e_tags := padded_tags\<rparr>"

definition padded_req :: sda_req where
  "padded_req = demo_req\<lparr>ssa_data_len := 21\<rparr>"

definition padded_heap1 :: heap where
  "padded_heap1 = padded_heap(10 := Some padded_cert_rec)"

definition padded_heap2 :: heap where
  "padded_heap2 = padded_heap1(13 := Some padded_ssa_rec)"

text \<open>
  The store of the one-byte card with signed static data that recovers to \<open>0x6a\<close>, and
  with the single byte \<open>0xBC\<close> as its certificate block.
\<close>

definition tiny_ssa_heap :: heap where
  "tiny_ssa_heap = tiny_heap(13 := Some [0x11])"

definition bare_trailer_heap :: heap where
  "bare_trailer_heap = tiny_heap(10 := Some [0xbc])"

section \<open>Properties\<close>

subsection \<open>Memory lemmas\<close>

lemma load_u8_Some: "block h p = Some bs \<Longrightarrow> i < length bs \<Longrightarrow> load_u8 h p i = Inr (bs ! i)"
  by (simp add: load_u8_def)

lemma load_u8_out: "block h p = Some bs \<Longrightarrow> length bs \<le> i \<Longrightarrow> load_u8 h p i = Inl MemFault"
  by (simp add: load_u8_def)

lemma load_Some:
  "block h p = Some bs \<Longrightarrow> off + n \<le> length bs \<Longrightarrow> load h p off n = Inr (take n (drop off bs))"
  by (simp add: load_def)

lemma load_out:
  "block h p = Some bs \<Longrightarrow> length bs < off + n \<Longrightarrow> load h p off n = Inl MemFault"
  by (simp add: load_def)

lemma load_cases:
  "load h p off n = Inl MemFault \<or>
   (\<exists>bs. block h p = Some bs \<and> off + n \<le> length bs \<and> load h p off n = Inr (take n (drop off bs)))"
  by (simp add: load_def split: option.splits)

lemma load_length: "load h p off n = Inr bs \<Longrightarrow> length bs = n"
  by (auto simp: load_def split: option.splits if_splits)

lemma poke_fits:
  "off + length src \<le> length dst \<Longrightarrow>
     poke dst off src = Inr (take off dst @ src @ drop (off + length src) dst)"
  by (simp add: poke_def)

lemma poke_length: "poke dst off src = Inr r \<Longrightarrow> length r = length dst"
  by (auto simp: poke_def split: if_splits)

lemma length_fresh [simp]: "length (fresh f n) = unat n"
  by (simp add: fresh_def)

lemma block_upd_other: "q \<noteq> p \<Longrightarrow> block (h(p := v)) q = block h q"
  by (simp add: block_def)

lemma block_upd_same: "p \<noteq> NULL \<Longrightarrow> block (h(p := v)) p = v"
  by (simp add: block_def)

lemma block_SomeD: "block h p = Some bs \<Longrightarrow> p \<noteq> NULL \<and> h p = Some bs"
  by (simp add: block_def split: if_splits)

lemma unat_sub_le: "unat k \<le> unat (x :: size_t) \<Longrightarrow> unat (x - k) = unat x - unat k"
  by (simp add: unat_sub word_le_nat_alt)

lemma unat_sub_wrap: "unat (x :: size_t) < unat k \<Longrightarrow> unat (x - k) = 2 ^ 64 + unat x - unat k"
  by (simp add: unat_sub_if' word_less_nat_alt)

subsection \<open>emsa_pss_decode\<close>

lemma emsa_pss_decode_eq:
  assumes "block h em = Some bs" "21 \<le> unat em_len" "unat em_len \<le> length bs"
  shows "emsa_pss_decode P msg h em em_len =
    (if bs ! (unat em_len - 1) \<noteq> 0xbc then Inl BadTrailer
     else if take 20 (drop (unat em_len - 21) bs) \<noteq> SHA1 P msg then Inl HashMismatch
     else Inr ())"
proof -
  have a: "unat (em_len - 1) = unat em_len - 1"
    using assms(2) unat_sub_le [of 1 em_len] by simp
  have b: "unat (em_len - 21) = unat em_len - 21"
    using assms(2) unat_sub_le [of 21 em_len] by simp
  show ?thesis
    using assms
    by (simp add: emsa_pss_decode_def SHA_DIGEST_LENGTH_def a b load_u8_def load_Some Let_def)
qed

subsection \<open>recover\<close>

lemma memcpy_out_frame: "memcpy_out h p src = (r, h') \<Longrightarrow> q \<noteq> p \<Longrightarrow> h' q = h q"
  by (auto simp: memcpy_out_def split: option.splits if_splits)

lemma memcpy_out_fail: "memcpy_out h p src = (Inl x, h') \<Longrightarrow> h' = h"
  by (auto simp: memcpy_out_def split: option.splits if_splits)

lemma recover_frame: "recover P p len key h = (r, h') \<Longrightarrow> q \<noteq> p \<Longrightarrow> h' q = h q"
  by (auto simp: recover_def Let_def split: option.splits sum.splits prod.splits if_splits
      dest: memcpy_out_frame)

lemma recover_fail: "recover P p len key h = (Inl x, h') \<Longrightarrow> h' = h"
  by (auto simp: recover_def Let_def split: option.splits sum.splits prod.splits if_splits
      dest: memcpy_out_fail)

lemma recover_eval:
  assumes "block h p = Some old" "unat len \<le> length old"
    and "malloc P len = Some f"
    and "RSA_public_encrypt P (ucast len) (take (unat len) old) key = (ret, out)"
    and "length out \<le> unat len"
  shows "recover P p len key h =
    (if sint ret < 0 \<or> (ucast ret :: size_t) \<noteq> len then (Inl RecoveryFailed, h)
     else (Inr (), h(p := Some (out @ drop (length out) (fresh f len) @ drop (unat len) old))))"
  using assms
  by (simp add: recover_def load_Some poke_fits memcpy_out_def Let_def)


subsection \<open>Scratch buffers\<close>

lemma poke_append:
  "length pre = off \<Longrightarrow> length src \<le> length rest \<Longrightarrow>
     poke (pre @ rest) off src = Inr (pre @ src @ drop (length src) rest)"
  by (simp add: poke_def)

lemma poke_fresh:
  "length src \<le> length buf \<Longrightarrow> poke buf 0 src = Inr (src @ drop (length src) buf)"
  by (simp add: poke_def)

lemma memcpy_in_append:
  assumes "block h p = Some bs" "off + n \<le> length bs" "length pre = doff" "n \<le> length rest"
  shows "memcpy_in (pre @ rest) doff h p off n = Inr (pre @ take n (drop off bs) @ drop n rest)"
  using assms by (simp add: memcpy_in_def load_Some poke_append)

lemma unat_add_nowrap:
  "unat (a :: size_t) + unat b < 2 ^ 64 \<Longrightarrow> unat (a + b) = unat a + unat b"
  by (simp add: unat_add_lem [THEN iffD1])

subsection \<open>check_pk_cert\<close>

lemma check_pk_cert_eq:
  assumes cert: "block h (pk_cert req) = Some c" "unat (pk_cert_len req) \<le> length c"
    and big: "22 \<le> unat (pk_cert_len req)"
    and rem: "block h (pk_r req) = Some r" "unat (pk_r_len req) \<le> length r"
    and ex: "block h (pk_exp req) = Some x" "unat (pk_exp_len req) \<le> length x"
    and nowrap: "unat (pk_cert_len req) + unat (pk_r_len req) + unat (pk_exp_len req) < 2 ^ 64"
  shows "check_pk_cert P req h =
    (if c ! 0 \<noteq> 0x6a \<or> c ! 1 \<noteq> 0x02 \<or> c ! 11 \<noteq> 0x01 then Inl BadFormat
     else case malloc P (pk_cert_len req - (SHA_DIGEST_LENGTH + 2) + pk_r_len req + pk_exp_len req) of
       None \<Rightarrow> Inl NoMemory
     | Some f \<Rightarrow>
         emsa_pss_decode P
           (take (unat (pk_cert_len req) - 22) (drop 1 c) @
            take (unat (pk_r_len req)) r @ take (unat (pk_exp_len req)) x)
           h (pk_cert req) (pk_cert_len req))"
proof -
  let ?n = "pk_cert_len req - (SHA_DIGEST_LENGTH + 2)"
  let ?ml = "?n + pk_r_len req + pk_exp_len req"
  let ?c = "take (unat ?n) (drop 1 c)"
  let ?r = "take (unat (pk_r_len req)) r"
  let ?x = "take (unat (pk_exp_len req)) x"
  have n: "unat ?n = unat (pk_cert_len req) - 22"
    using big unat_sub_le [of 22 "pk_cert_len req"] by (simp add: SHA_DIGEST_LENGTH_def)
  have nr: "unat (?n + pk_r_len req) = unat ?n + unat (pk_r_len req)"
    using nowrap n by (intro unat_add_nowrap) simp
  have ml: "unat ?ml = unat ?n + unat (pk_r_len req) + unat (pk_exp_len req)"
    using nowrap n nr unat_add_nowrap [of "?n + pk_r_len req" "pk_exp_len req"] by simp
  have hd: "load_u8 h (pk_cert req) 0 = Inr (c ! 0)" "load_u8 h (pk_cert req) 1 = Inr (c ! 1)"
    "load_u8 h (pk_cert req) 11 = Inr (c ! 11)"
    using cert big by (auto simp: load_u8_def)
  have m1: "memcpy_in (fresh f ?ml) 0 h (pk_cert req) 1 (unat ?n) =
      Inr (?c @ drop (unat ?n) (fresh f ?ml))" for f
    using memcpy_in_append [OF cert(1), of 1 "unat ?n" "[]" 0 "fresh f ?ml"] cert(2) big n ml
    by simp
  have m2: "memcpy_in (?c @ drop (unat ?n) (fresh f ?ml)) (unat ?n)
        h (pk_r req) 0 (unat (pk_r_len req)) =
      Inr (?c @ ?r @ drop (unat (pk_r_len req)) (drop (unat ?n) (fresh f ?ml)))" for f
    using memcpy_in_append [OF rem(1), of 0 "unat (pk_r_len req)" ?c
        "unat ?n" "drop (unat ?n) (fresh f ?ml)"] rem(2) cert(2) big n ml
    by simp
  have m3: "memcpy_in (?c @ ?r @ drop (unat (pk_r_len req)) (drop (unat ?n) (fresh f ?ml)))
        (unat ?n + unat (pk_r_len req)) h (pk_exp req) 0 (unat (pk_exp_len req)) =
      Inr (?c @ ?r @ ?x)" for f
    using memcpy_in_append [OF ex(1), of 0 "unat (pk_exp_len req)" "?c @ ?r"
        "unat ?n + unat (pk_r_len req)"
        "drop (unat (pk_r_len req)) (drop (unat ?n) (fresh f ?ml))"] ex(2) rem(2) cert(2) big n ml
    by simp
  have body: "check_pk_cert P req h =
    (if c ! 0 \<noteq> 0x6a then Inl BadFormat else if c ! 1 \<noteq> 0x02 then Inl BadFormat
     else if c ! 11 \<noteq> 0x01 then Inl BadFormat
     else case malloc P ?ml of None \<Rightarrow> Inl NoMemory
       | Some f \<Rightarrow> emsa_pss_decode P (?c @ ?r @ ?x) h (pk_cert req) (pk_cert_len req))"
    by (simp only: check_pk_cert_def Let_def hd m1 m2 m3 sum.case)
  show ?thesis
    unfolding body n by (simp split: option.splits)
qed


subsection \<open>make_issuer_pk\<close>

lemma make_issuer_pk_eq:
  assumes cert: "block h (pk_cert req) = Some c" "unat (pk_cert_len req) \<le> length c"
    and big: "36 \<le> unat (pk_cert_len req)"
    and rem: "block h (pk_r req) = Some r" "unat (pk_r_len req) \<le> length r"
    and ex: "block h (pk_exp req) = Some x" "unat (pk_exp_len req) \<le> length x"
    and mem: "malloc P (pk_cert_len req) = Some f"
  shows "make_issuer_pk P req h =
    (let kb = take (unat (pk_cert_len req) - 36) (drop 15 c);
         pr = take (unat (pk_r_len req)) r;
         tmp = kb @ pr @ drop (length kb + length pr) (fresh f (pk_cert_len req));
         ex = take (unat (pk_exp_len req)) x
     in if 36 < unat (pk_r_len req) then Inl ScratchOverflow
        else if \<not> RSA_new_ok P then Inl NoMemory
        else if \<not> BN_bin2bn_ok P tmp \<or> \<not> BN_bin2bn_ok P ex then Inl NoMemory
        else Inr \<lparr>rsa_n = tmp, rsa_e = ex\<rparr>)"
proof -
  let ?k = "pk_cert_len req - (15 + 21)"
  let ?kb = "take (unat ?k) (drop 15 c)"
  let ?pr = "take (unat (pk_r_len req)) r"
  let ?buf = "fresh f (pk_cert_len req)"
  have k: "unat ?k = unat (pk_cert_len req) - 36"
    using big unat_sub_le [of 36 "pk_cert_len req"] by simp
  have lkb: "length ?kb = unat (pk_cert_len req) - 36"
    using cert(2) big k by simp
  have lpr: "length ?pr = unat (pk_r_len req)"
    using rem(2) by simp
  have t1: "memcpy_in ?buf 0 h (pk_cert req) 15 (unat ?k) = Inr (?kb @ drop (unat ?k) ?buf)"
    using memcpy_in_append [OF cert(1), of 15 "unat ?k" "[]" 0 ?buf] cert(2) big k
    by simp
  have lx: "load h (pk_exp req) 0 (unat (pk_exp_len req)) = Inr (take (unat (pk_exp_len req)) x)"
    using ex by (simp add: load_Some)
  show ?thesis
  proof (cases "36 < unat (pk_r_len req)")
    case True
    have "memcpy_in (?kb @ drop (unat ?k) ?buf) (unat ?k) h (pk_r req) 0 (unat (pk_r_len req)) =
        Inl ScratchOverflow"
      using True rem big k cert(2) by (simp add: memcpy_in_def load_Some poke_def)
    then show ?thesis
      using True by (simp only: make_issuer_pk_def mem option.case Let_def t1 sum.case if_True)
  next
    case False
    have t2: "memcpy_in (?kb @ drop (unat ?k) ?buf) (unat ?k) h (pk_r req) 0 (unat (pk_r_len req)) =
        Inr (?kb @ ?pr @ drop (unat (pk_r_len req)) (drop (unat ?k) ?buf))"
      using memcpy_in_append [OF rem(1), of 0 "unat (pk_r_len req)" ?kb "unat ?k"
          "drop (unat ?k) ?buf"] rem(2) cert(2) big k False
      by simp
    have d: "drop (unat (pk_r_len req)) (drop (unat ?k) ?buf) = drop (length ?kb + length ?pr) ?buf"
      using lkb lpr k by (simp add: add.commute)
    have "make_issuer_pk P req h =
      (if \<not> RSA_new_ok P then Inl NoMemory
       else if \<not> BN_bin2bn_ok P (?kb @ ?pr @ drop (length ?kb + length ?pr) ?buf) \<or>
               \<not> BN_bin2bn_ok P (take (unat (pk_exp_len req)) x) then Inl NoMemory
       else Inr \<lparr>rsa_n = ?kb @ ?pr @ drop (length ?kb + length ?pr) ?buf,
                 rsa_e = take (unat (pk_exp_len req)) x\<rparr>)"
      by (simp only: make_issuer_pk_def mem option.case Let_def t1 t2 sum.case lx d)
    then show ?thesis
      using False unfolding k Let_def by simp
  qed
qed

lemma make_issuer_pk_modulus:
  assumes "block h (pk_cert req) = Some c" "unat (pk_cert_len req) \<le> length c"
    and "36 \<le> unat (pk_cert_len req)"
    and "block h (pk_r req) = Some r" "unat (pk_r_len req) \<le> length r"
    and "block h (pk_exp req) = Some x" "unat (pk_exp_len req) \<le> length x"
    and "make_issuer_pk P req h = Inr key"
  shows "length (rsa_n key) = unat (pk_cert_len req)"
    and "rsa_e key = take (unat (pk_exp_len req)) x"
    and "unat (pk_r_len req) = 36 \<Longrightarrow>
      rsa_n key = take (unat (pk_cert_len req) - 36) (drop 15 c) @ take (unat (pk_r_len req)) r"
proof -
  obtain f where f: "malloc P (pk_cert_len req) = Some f"
    using assms(8) by (cases "malloc P (pk_cert_len req)") (simp_all add: make_issuer_pk_def)
  note eq = make_issuer_pk_eq [OF assms(1-7) f]
  have fits: "unat (pk_r_len req) \<le> 36"
    using assms(8) unfolding eq Let_def by (simp split: if_splits)
  have key: "key =
      \<lparr>rsa_n = take (unat (pk_cert_len req) - 36) (drop 15 c) @ take (unat (pk_r_len req)) r @
         drop (length (take (unat (pk_cert_len req) - 36) (drop 15 c)) +
               length (take (unat (pk_r_len req)) r)) (fresh f (pk_cert_len req)),
       rsa_e = take (unat (pk_exp_len req)) x\<rparr>"
    using assms(8) unfolding eq Let_def by (simp split: if_splits)
  show "length (rsa_n key) = unat (pk_cert_len req)"
    unfolding key using assms(2,3,5) fits by simp
  show "rsa_e key = take (unat (pk_exp_len req)) x"
    unfolding key by simp
  show "rsa_n key = take (unat (pk_cert_len req) - 36) (drop 15 c) @ take (unat (pk_r_len req)) r"
    if "unat (pk_r_len req) = 36"
    unfolding key using assms(2,3,5) that by simp
qed

subsection \<open>check_ssa\<close>

lemma sda_data_len_sum: "sda_data_len recs a = a + sum_list (map d_len recs)"
  by (induction recs arbitrary: a) (simp_all add: add.assoc)

lemma unat_sum_list:
  "sum_list (map unat ws) < 2 ^ 64 \<Longrightarrow> unat (sum_list ws :: size_t) = sum_list (map unat ws)"
proof (induction ws)
  case Nil
  then show ?case by simp
next
  case (Cons w ws)
  then have "unat (sum_list ws) = sum_list (map unat ws)" by simp
  moreover have "unat w + unat (sum_list ws) < 2 ^ 64"
    using Cons.prems calculation by simp
  ultimately show ?case
    by (simp add: unat_add_nowrap)
qed

lemma copy_records_eq:
  assumes "map (record_bytes h) recs = map Some bss"
    and "length pre = tmp" and "length (concat bss) \<le> length rest"
  shows "copy_records h recs (pre @ rest) tmp =
    Inr (pre @ concat bss @ drop (length (concat bss)) rest, tmp + length (concat bss))"
  using assms
proof (induction recs arbitrary: bss pre rest tmp)
  case Nil
  then show ?case by simp
next
  case (Cons r recs)
  from Cons.prems(1) obtain b bs where bss: "bss = b # bs"
    and b: "record_bytes h r = Some b" and bs: "map (record_bytes h) recs = map Some bs"
    by (cases bss) auto
  from b have ld: "load h (d_data r) 0 (unat (d_len r)) = Inr b"
    by (simp add: record_bytes_def split: sum.splits)
  then have lb: "length b = unat (d_len r)"
    by (rule load_length)
  have fit: "length b \<le> length rest" "length (concat bs) \<le> length (drop (length b) rest)"
    using Cons.prems(3) bss by simp_all
  have step: "memcpy_in (pre @ rest) tmp h (d_data r) 0 (unat (d_len r)) =
      Inr ((pre @ b) @ drop (length b) rest)"
    using ld Cons.prems(2) fit(1) by (simp add: memcpy_in_def poke_append)
  have "copy_records h recs ((pre @ b) @ drop (length b) rest) (tmp + unat (d_len r)) =
      Inr ((pre @ b) @ concat bs @ drop (length (concat bs)) (drop (length b) rest),
           (tmp + unat (d_len r)) + length (concat bs))"
    using Cons.prems(2) lb fit(2) by (intro Cons.IH [OF bs]) simp_all
  then show ?case
    unfolding bss using lb
    by (simp only: copy_records.simps step sum.case)
       (simp add: add.commute add.left_commute)
qed


lemma record_bytes_lengths:
  "map (record_bytes h) recs = map Some bss \<Longrightarrow> map (\<lambda>r. unat (d_len r)) recs = map length bss"
proof (induction recs arbitrary: bss)
  case Nil
  then show ?case by simp
next
  case (Cons r recs)
  then obtain b bs where bss: "bss = b # bs"
    and b: "record_bytes h r = Some b" and bs: "map (record_bytes h) recs = map Some bs"
    by (cases bss) auto
  from b have "length b = unat (d_len r)"
    by (auto simp: record_bytes_def split: sum.splits dest: load_length)
  with Cons.IH [OF bs] bss show ?case by simp
qed

lemma unat_sda_data_len:
  assumes "map (record_bytes h) recs = map Some bss" "2 + length (concat bss) < 2 ^ 64"
  shows "unat (sda_data_len recs 2) = 2 + length (concat bss)"
proof -
  have l: "sum_list (map unat (map d_len recs)) = length (concat bss)"
    using record_bytes_lengths [OF assms(1)] by (simp add: length_concat comp_def)
  have s: "unat (sum_list (map d_len recs)) = length (concat bss)"
    using unat_sum_list [of "map d_len recs"] l assms(2) by simp
  show ?thesis
    using assms(2) s unat_add_nowrap [of 2 "sum_list (map d_len recs)"]
    by (simp add: sda_data_len_sum)
qed

lemma check_ssa_eq:
  assumes blk: "block h p = Some c" "unat len \<le> length c"
    and big: "22 \<le> unat len"
    and recs: "map (record_bytes h) recs = map Some bss"
    and nowrap: "unat len + length (concat bss) < 2 ^ 64"
  shows "check_ssa P h p len recs aip =
    (case malloc P (len - (SHA_DIGEST_LENGTH + 2) + sda_data_len recs 2) of
       None \<Rightarrow> Inl NoMemory
     | Some f \<Rightarrow>
         emsa_pss_decode P
           (take (unat len - 22) (drop 1 c) @ concat bss @ [fst aip, snd aip]) h p len)"
proof -
  let ?n = "len - (SHA_DIGEST_LENGTH + 2)"
  let ?ml = "?n + sda_data_len recs 2"
  let ?c = "take (unat ?n) (drop 1 c)"
  have n: "unat ?n = unat len - 22"
    using big unat_sub_le [of 22 len] by (simp add: SHA_DIGEST_LENGTH_def)
  have dl: "unat (sda_data_len recs 2) = 2 + length (concat bss)"
    using nowrap big by (intro unat_sda_data_len [OF recs]) simp
  have ml: "unat ?ml = unat ?n + (2 + length (concat bss))"
    using nowrap n dl big unat_add_nowrap [of ?n "sda_data_len recs 2"] by simp
  have lc: "length ?c = unat ?n"
    using blk(2) big n by simp
  have m1: "memcpy_in (fresh f ?ml) 0 h p 1 (unat ?n) = Inr (?c @ drop (unat ?n) (fresh f ?ml))" for f
    using memcpy_in_append [OF blk(1), of 1 "unat ?n" "[]" 0 "fresh f ?ml"] blk(2) big n ml
    by simp
  have m2: "copy_records h recs (?c @ drop (unat ?n) (fresh f ?ml)) (unat ?n) =
      Inr (?c @ concat bss @ drop (length (concat bss)) (drop (unat ?n) (fresh f ?ml)),
           unat ?n + length (concat bss))" for f
    using ml by (intro copy_records_eq [OF recs lc]) simp
  have m3: "poke (?c @ concat bss @ drop (length (concat bss)) (drop (unat ?n) (fresh f ?ml)))
        (unat ?n + length (concat bss)) [fst aip, snd aip] =
      Inr (?c @ concat bss @ [fst aip, snd aip])" for f
    using poke_append [of "?c @ concat bss" "unat ?n + length (concat bss)" "[fst aip, snd aip]"
        "drop (length (concat bss)) (drop (unat ?n) (fresh f ?ml))"] lc ml
    by simp
  have "check_ssa P h p len recs aip =
    (case malloc P ?ml of None \<Rightarrow> Inl NoMemory
     | Some f \<Rightarrow> emsa_pss_decode P (?c @ concat bss @ [fst aip, snd aip]) h p len)"
    by (simp only: check_ssa_def Let_def m1 m2 m3 sum.case prod.case)
  then show ?thesis
    unfolding n .
qed

lemma verify_ssa_data_fail:
  "recover P (ssa_data req) (ssa_data_len req) iss h = (Inl x, h') \<Longrightarrow>
     verify_ssa_data P recs req iss aip h = (Inl x, h')"
  by (simp add: verify_ssa_data_def)

lemma verify_ssa_data_eq:
  assumes rec: "recover P (ssa_data req) (ssa_data_len req) iss h = (Inr (), h')"
    and blk: "block h' (ssa_data req) = Some c" "unat (ssa_data_len req) \<le> length c"
    and big: "22 \<le> unat (ssa_data_len req)"
    and recs: "map (record_bytes h') recs = map Some bss"
    and nowrap: "unat (ssa_data_len req) + length (concat bss) < 2 ^ 64"
  shows "verify_ssa_data P recs req iss aip h =
    (if c ! 0 \<noteq> 0x6a \<or> c ! 1 \<noteq> 0x03 \<or> c ! 2 \<noteq> 0x01 then Inl BadFormat
     else case malloc P (ssa_data_len req - (SHA_DIGEST_LENGTH + 2) + sda_data_len recs 2) of
       None \<Rightarrow> Inl NoMemory
     | Some f \<Rightarrow>
         emsa_pss_decode P
           (take (unat (ssa_data_len req) - 22) (drop 1 c) @ concat bss @ [fst aip, snd aip])
           h' (ssa_data req) (ssa_data_len req),
     h')"
proof -
  have hd: "load_u8 h' (ssa_data req) 0 = Inr (c ! 0)" "load_u8 h' (ssa_data req) 1 = Inr (c ! 1)"
    "load_u8 h' (ssa_data req) 2 = Inr (c ! 2)"
    using blk big by (auto simp: load_u8_def)
  have "verify_ssa_data P recs req iss aip h =
    (if c ! 0 \<noteq> 0x6a then (Inl BadFormat, h') else if c ! 1 \<noteq> 0x03 then (Inl BadFormat, h')
     else if c ! 2 \<noteq> 0x01 then (Inl BadFormat, h')
     else (check_ssa P h' (ssa_data req) (ssa_data_len req) recs aip, h'))"
    by (simp only: verify_ssa_data_def rec prod.case sum.case hd)
  then show ?thesis
    by (simp add: check_ssa_eq [OF blk big recs nowrap])
qed

subsection \<open>The orchestrator\<close>

lemma get_issuer_pk_frame:
  "get_issuer_pk P req ca kl h = (r, h') \<Longrightarrow> q \<noteq> pk_cert req \<Longrightarrow> h' q = h q"
  by (auto simp: get_issuer_pk_def split: if_splits prod.splits sum.splits dest: recover_frame)

lemma verify_ssa_data_frame:
  "verify_ssa_data P recs req iss aip h = (r, h') \<Longrightarrow> q \<noteq> ssa_data req \<Longrightarrow> h' q = h q"
  by (auto simp: verify_ssa_data_def split: if_splits prod.splits sum.splits dest: recover_frame)

lemma authenticate_cases:
  "emv_authenticate_static_data P mod_cb exp_cb (e, h) =
     (if fst (e_aip e) AND EMV_AIP_SDA P = 0 then (Inl UnsupportedMethod, e, h)
      else case get_required_data P e h of
        Inl x \<Rightarrow> (Inl x, e, h)
      | Inr req \<Rightarrow>
          (case get_ca_key P (ca_pk_idx req) mod_cb exp_cb of
             Inl x \<Rightarrow> (Inl x, e, h)
           | Inr (ca, kl) \<Rightarrow>
               (case get_issuer_pk P req ca kl h of
                  (Inl x, h1) \<Rightarrow> (Inl x, e\<lparr>e_ca_pk := Some ca, e_iss_pk := None\<rparr>, h1)
                | (Inr iss, h1) \<Rightarrow>
                    (case verify_ssa_data P (db_sda e) req iss (e_aip e) h1 of
                       (Inl x, h2) \<Rightarrow> (Inl x, e\<lparr>e_ca_pk := Some ca, e_iss_pk := Some iss\<rparr>, h2)
                     | (Inr u, h2) \<Rightarrow>
                         (Inr (), e\<lparr>e_ca_pk := Some ca, e_iss_pk := Some iss, e_sda_ok := 1\<rparr>, h2)))))"
  by (simp add: emv_authenticate_static_data_def Let_def split: sum.splits prod.splits)

subsection \<open>Bounds\<close>

lemma load_u8_InlD: "load_u8 h p i = Inl x \<Longrightarrow> x = MemFault"
  by (auto simp: load_u8_def split: option.splits if_splits)

lemma emsa_pss_decode_no_fault:
  assumes "block h em = Some bs" "21 \<le> unat em_len" "unat em_len \<le> length bs"
  shows "emsa_pss_decode P msg h em em_len \<noteq> Inl MemFault"
  by (simp add: emsa_pss_decode_eq [OF assms])

lemma check_pk_cert_no_fault:
  assumes "block h (pk_cert req) = Some c" "unat (pk_cert_len req) \<le> length c"
    and "22 \<le> unat (pk_cert_len req)"
    and "block h (pk_r req) = Some r" "unat (pk_r_len req) \<le> length r"
    and "block h (pk_exp req) = Some x" "unat (pk_exp_len req) \<le> length x"
    and "unat (pk_cert_len req) + unat (pk_r_len req) + unat (pk_exp_len req) < 2 ^ 64"
  shows "check_pk_cert P req h \<noteq> Inl MemFault"
proof -
  have "emsa_pss_decode P m h (pk_cert req) (pk_cert_len req) \<noteq> Inl MemFault" for m
    using assms(1-3) by (intro emsa_pss_decode_no_fault) simp_all
  then show ?thesis
    by (simp add: check_pk_cert_eq [OF assms] split: option.splits)
qed

lemma make_issuer_pk_no_fault:
  assumes "block h (pk_cert req) = Some c" "unat (pk_cert_len req) \<le> length c"
    and "36 \<le> unat (pk_cert_len req)"
    and "block h (pk_r req) = Some r" "unat (pk_r_len req) \<le> length r"
    and "block h (pk_exp req) = Some x" "unat (pk_exp_len req) \<le> length x"
  shows "make_issuer_pk P req h \<noteq> Inl MemFault"
proof (cases "malloc P (pk_cert_len req)")
  case None
  then show ?thesis by (simp add: make_issuer_pk_def)
next
  case (Some f)
  show ?thesis
    by (simp add: make_issuer_pk_eq [OF assms Some] Let_def)
qed

lemma check_ssa_no_fault:
  assumes "block h p = Some c" "unat len \<le> length c" "22 \<le> unat len"
    and "map (record_bytes h) recs = map Some bss"
    and "unat len + length (concat bss) < 2 ^ 64"
  shows "check_ssa P h p len recs aip \<noteq> Inl MemFault"
proof -
  have "emsa_pss_decode P m h p len \<noteq> Inl MemFault" for m
    using assms(1-3) by (intro emsa_pss_decode_no_fault) simp_all
  then show ?thesis
    by (simp add: check_ssa_eq [OF assms] split: option.splits)
qed

lemma emsa_pss_decode_all:
  assumes "block h em = Some bs" "length bs = unat em_len"
  shows "emsa_pss_decode P msg h em em_len =
    (if unat em_len = 0 then Inl MemFault
     else if bs ! (unat em_len - 1) \<noteq> 0xbc then Inl BadTrailer
     else if unat em_len < 21 then Inl MemFault
     else if take 20 (drop (unat em_len - 21) bs) \<noteq> SHA1 P msg then Inl HashMismatch
     else Inr ())"
proof (cases "unat em_len = 0")
  case True
  then have "em_len = 0"
    by (simp add: unat_eq_0)
  then have "load_u8 h em (unat (em_len - 1)) = Inl MemFault"
    using assms True by (simp add: load_u8_def)
  then show ?thesis
    using True by (simp add: emsa_pss_decode_def)
next
  case False
  then have one: "1 \<le> unat em_len" by simp
  have a: "unat (em_len - 1) = unat em_len - 1"
    using one unat_sub_le [of 1 em_len] by simp
  have t: "load_u8 h em (unat (em_len - 1)) = Inr (bs ! (unat em_len - 1))"
    using assms one a by (simp add: load_u8_def)
  show ?thesis
  proof (cases "unat em_len < 21")
    case True
    have "unat (em_len - 21) = 2 ^ 64 + unat em_len - 21"
      using True unat_sub_wrap [of em_len 21] by simp
    then have "load h em (unat (em_len - 21)) 20 = Inl MemFault"
      using assms True by (intro load_out [OF assms(1)]) simp
    then show ?thesis
      using False True by (simp add: emsa_pss_decode_def SHA_DIGEST_LENGTH_def t)
  next
    case big: False
    then show ?thesis
      using False emsa_pss_decode_eq [OF assms(1), of em_len P msg] assms(2) by simp
  qed
qed

lemma memcpy_in_InlD: "memcpy_in dst doff h p off n = Inl x \<Longrightarrow> x = MemFault \<or> x = ScratchOverflow"
  by (auto simp: memcpy_in_def load_def poke_def split: sum.splits option.splits if_splits)

lemma emsa_pss_decode_InlD:
  "emsa_pss_decode P msg h em em_len = Inl x \<Longrightarrow> x = MemFault \<or> x = BadTrailer \<or> x = HashMismatch"
  by (auto simp: emsa_pss_decode_def Let_def load_def split: sum.splits option.splits if_splits
      dest: load_u8_InlD)

lemma copy_records_InlD:
  "copy_records h recs msg tmp = Inl x \<Longrightarrow> x = MemFault \<or> x = ScratchOverflow"
  by (induction recs arbitrary: msg tmp) (auto split: sum.splits dest: memcpy_in_InlD)

lemma check_ssa_InlD:
  "check_ssa P h p len recs aip = Inl x \<Longrightarrow> x \<noteq> BadFormat"
  by (auto simp: check_ssa_def Let_def poke_def
      split: sum.splits option.splits if_splits prod.splits
      dest: memcpy_in_InlD copy_records_InlD emsa_pss_decode_InlD)

lemma check_pk_cert_BadFormat_iff:
  assumes "block h (pk_cert req) = Some c" "12 \<le> length c"
  shows "check_pk_cert P req h = Inl BadFormat \<longleftrightarrow> c ! 0 \<noteq> 0x6a \<or> c ! 1 \<noteq> 0x02 \<or> c ! 11 \<noteq> 0x01"
proof -
  have hd: "load_u8 h (pk_cert req) 0 = Inr (c ! 0)" "load_u8 h (pk_cert req) 1 = Inr (c ! 1)"
    "load_u8 h (pk_cert req) 11 = Inr (c ! 11)"
    using assms by (auto simp: load_u8_def)
  show ?thesis
    unfolding check_pk_cert_def hd sum.case
    by (auto simp: Let_def split: sum.splits option.splits
        dest: memcpy_in_InlD emsa_pss_decode_InlD)
qed

lemma verify_ssa_data_BadFormat_iff:
  assumes "recover P (ssa_data req) (ssa_data_len req) iss h = (Inr (), h')"
    and "block h' (ssa_data req) = Some c" "3 \<le> length c"
  shows "fst (verify_ssa_data P recs req iss aip h) = Inl BadFormat \<longleftrightarrow>
    c ! 0 \<noteq> 0x6a \<or> c ! 1 \<noteq> 0x03 \<or> c ! 2 \<noteq> 0x01"
proof -
  have hd: "load_u8 h' (ssa_data req) 0 = Inr (c ! 0)" "load_u8 h' (ssa_data req) 1 = Inr (c ! 1)"
    "load_u8 h' (ssa_data req) 2 = Inr (c ! 2)"
    using assms by (auto simp: load_u8_def)
  show ?thesis
    unfolding verify_ssa_data_def assms(1) prod.case sum.case hd
    by (auto dest: check_ssa_InlD)
qed

lemma check_pk_cert_short_eq:
  assumes "block h (pk_cert req) = Some c" "length c = unat (pk_cert_len req)"
    and "unat (pk_cert_len req) < 22"
  shows "check_pk_cert P req h =
    (if unat (pk_cert_len req) = 0 then Inl MemFault
     else if c ! 0 \<noteq> 0x6a then Inl BadFormat
     else if unat (pk_cert_len req) = 1 then Inl MemFault
     else if c ! 1 \<noteq> 0x02 then Inl BadFormat
     else if unat (pk_cert_len req) < 12 then Inl MemFault
     else if c ! 11 \<noteq> 0x01 then Inl BadFormat
     else case malloc P (pk_cert_len req - (SHA_DIGEST_LENGTH + 2) + pk_r_len req + pk_exp_len req) of
       None \<Rightarrow> Inl NoMemory
     | Some f \<Rightarrow> Inl MemFault)"
proof -
  let ?n = "pk_cert_len req - (SHA_DIGEST_LENGTH + 2)"
  have "unat ?n = 2 ^ 64 + unat (pk_cert_len req) - 22"
    using assms(3) unat_sub_wrap [of "pk_cert_len req" 22] by (simp add: SHA_DIGEST_LENGTH_def)
  then have "load h (pk_cert req) 1 (unat ?n) = Inl MemFault"
    using assms by (intro load_out [OF assms(1)]) simp
  then have m: "memcpy_in b 0 h (pk_cert req) 1 (unat ?n) = Inl MemFault" for b
    by (simp add: memcpy_in_def)
  have hd: "load_u8 h (pk_cert req) i = (if i < unat (pk_cert_len req) then Inr (c ! i) else Inl MemFault)"
    for i
    using assms(1,2) by (simp add: load_u8_def)
  show ?thesis
    unfolding check_pk_cert_def hd Let_def m
    by (auto split: option.splits)
qed

lemma check_ssa_short_eq:
  assumes "block h p = Some c" "length c = unat len" "unat len < 22"
  shows "check_ssa P h p len recs aip =
    (case malloc P (len - (SHA_DIGEST_LENGTH + 2) + sda_data_len recs 2) of
       None \<Rightarrow> Inl NoMemory
     | Some f \<Rightarrow> Inl MemFault)"
proof -
  let ?n = "len - (SHA_DIGEST_LENGTH + 2)"
  have "unat ?n = 2 ^ 64 + unat len - 22"
    using assms(3) unat_sub_wrap [of len 22] by (simp add: SHA_DIGEST_LENGTH_def)
  then have "load h p 1 (unat ?n) = Inl MemFault"
    using assms by (intro load_out [OF assms(1)]) simp
  then have "memcpy_in b 0 h p 1 (unat ?n) = Inl MemFault" for b
    by (simp add: memcpy_in_def)
  then show ?thesis
    by (simp add: check_ssa_def Let_def split: option.splits)
qed

lemma make_issuer_pk_short_eq:
  assumes "block h (pk_cert req) = Some c" "length c = unat (pk_cert_len req)"
    and "unat (pk_cert_len req) < 36"
  shows "make_issuer_pk P req h =
    (case malloc P (pk_cert_len req) of None \<Rightarrow> Inl NoMemory | Some f \<Rightarrow> Inl MemFault)"
proof -
  let ?k = "pk_cert_len req - (15 + 21)"
  have "unat ?k = 2 ^ 64 + unat (pk_cert_len req) - 36"
    using assms(3) unat_sub_wrap [of "pk_cert_len req" 36] by simp
  then have "load h (pk_cert req) 15 (unat ?k) = Inl MemFault"
    using assms by (intro load_out [OF assms(1)]) simp
  then have "memcpy_in b 0 h (pk_cert req) 15 (unat ?k) = Inl MemFault" for b
    by (simp add: memcpy_in_def)
  then show ?thesis
    by (simp add: make_issuer_pk_def Let_def split: option.splits)
qed

subsection \<open>Running the fixtures\<close>

lemma nat_be_numeral:
  "nat_be (numeral k) v = nat_be (pred_numeral k) (v div 256) @ [of_nat (v mod 256)]"
  unfolding numeral_eq_Suc [of k] by (rule nat_be.simps)

lemma modexp_cert:
  "modexp 1379641841901362510981542553420469796180653903059948043214159930144986503123192000202635607218953
     3 1699946831417491729294765507759405463867305880155260800153858839054384077149804895337953415413811 =
   884499634907531348353447377842979499192511127363232084763888345241293891907055319174257163317180"
proof -
  have e: "(1379641841901362510981542553420469796180653903059948043214159930144986503123192000202635607218953 :: nat) ^ 3 =
      884499634907531348353447377842979499192511127363232084763888345241293891907055319174257163317180 +
      1699946831417491729294765507759405463867305880155260800153858839054384077149804895337953415413811 *
      1544769667874217176889444775219568619118991932113854646334497093489171555234970993703869108449312993442705488163102400428741663148482925861822449828951247341806617232528954050678293491934358127"
    by simp
  have l: "(884499634907531348353447377842979499192511127363232084763888345241293891907055319174257163317180 :: nat) <
      1699946831417491729294765507759405463867305880155260800153858839054384077149804895337953415413811"
    by simp
  show ?thesis
    unfolding modexp_def e using l by (simp only: mod_mult_self2 mod_less)
qed

lemma modexp_ssa:
  "modexp 271122522852097676862921878786514435776778792048664256290850645881851032342533768892747715148764
     3 1541355788798136745408997601826155762909176005310153169261687447759928313240310611634864575393191 =
   884530145895439664616562520927856530946100748858654198480317102826228013034816519273601110467260"
proof -
  have e: "(271122522852097676862921878786514435776778792048664256290850645881851032342533768892747715148764 :: nat) ^ 3 =
      884530145895439664616562520927856530946100748858654198480317102826228013034816519273601110467260 +
      1541355788798136745408997601826155762909176005310153169261687447759928313240310611634864575393191 *
      12929862108186849477061134845907324999745614849729839622646717592472963711151053159631843366506832811889592293088587426310635901314245360807524044320815002923355212754029093658468134341912924"
    by simp
  have l: "(884530145895439664616562520927856530946100748858654198480317102826228013034816519273601110467260 :: nat) <
      1541355788798136745408997601826155762909176005310153169261687447759928313240310611634864575393191"
    by simp
  show ?thesis
    unfolding modexp_def e using l by (simp only: mod_mult_self2 mod_less)
qed

lemma modexp_short:
  "modexp 1165523629026764012842836677025054914335725445477675098764816935049140606758410802140378332303518
     3 1699946831417491729294765507759405463867305880155260800153858839054384077149804895337953415413811 =
   884499634907531348353447377842979499192511127428655894288606161028694865145299807253211312339900"
proof -
  have e: "(1165523629026764012842836677025054914335725445477675098764816935049140606758410802140378332303518 :: nat) ^ 3 =
      884499634907531348353447377842979499192511127428655894288606161028694865145299807253211312339900 +
      1699946831417491729294765507759405463867305880155260800153858839054384077149804895337953415413811 *
      931382147596763591867536763775535175514276695822994928222886778908763290754328550438177911147807481126061565712067505242801802892612541660961819547648519693892660706737321812073869588873040212"
    by simp
  have l: "(884499634907531348353447377842979499192511127428655894288606161028694865145299807253211312339900 :: nat) <
      1699946831417491729294765507759405463867305880155260800153858839054384077149804895337953415413811"
    by simp
  show ?thesis
    unfolding modexp_def e using l by (simp only: mod_mult_self2 mod_less)
qed

lemma modexp_bad:
  "modexp 1535390216405637268699876364898454981547573574523817644846937221742357066351730111276157303057844
     3 1699946831417491729294765507759405463867305880155260800153858839054384077149804895337953415413811 =
   892843334266597403362802931382704312140177941903687759646493976521849437710885946322784358969276"
proof -
  have e: "(1535390216405637268699876364898454981547573574523817644846937221742357066351730111276157303057844 :: nat) ^ 3 =
      892843334266597403362802931382704312140177941903687759646493976521849437710885946322784358969276 +
      1699946831417491729294765507759405463867305880155260800153858839054384077149804895337953415413811 *
      2129222115841354961135666154553831836301669326272556401435521438476059454555627596358570148977769390758621798786818733744781036119929842856065488914333393500997388108536902261274006266148075628"
    by simp
  have l: "(892843334266597403362802931382704312140177941903687759646493976521849437710885946322784358969276 :: nat) <
      1699946831417491729294765507759405463867305880155260800153858839054384077149804895337953415413811"
    by simp
  show ?thesis
    unfolding modexp_def e using l by (simp only: mod_mult_self2 mod_less)
qed

lemma replicate_num: "replicate (numeral k) x = x # replicate (pred_numeral k) x"
  unfolding numeral_eq_Suc [of k] by simp

lemma sha1_sched_numeral:
  "sha1_sched (numeral k) w =
     sha1_sched (pred_numeral k)
       (w @ [rotl32 1 (w ! (length w - 3) XOR w ! (length w - 8) XOR w ! (length w - 14) XOR
                        w ! (length w - 16))])"
  unfolding numeral_eq_Suc [of k] by (rule sha1_sched.simps)

lemma sha1_rounds_append:
  "sha1_rounds (xs @ ys) t s = sha1_rounds ys (t + length xs) (sha1_rounds xs t s)"
proof (induction xs arbitrary: t s)
  case Nil
  then show ?case by simp
next
  case (Cons w ws)
  obtain a b c d e where s: "s = (a, b, c, d, e)"
    by (cases s) auto
  show ?case
    unfolding s by (simp add: Cons.IH)
qed

lemma sha1_rounds_4:
  assumes "sha1_rounds c1 0 h = s1" and "sha1_rounds c2 20 s1 = s2"
    and "sha1_rounds c3 40 s2 = s3" and "sha1_rounds c4 60 s3 = s4"
    and "length c1 = 20" and "length c2 = 20" and "length c3 = 20"
  shows "sha1_rounds (c1 @ c2 @ c3 @ c4) 0 h = s4"
  using assms by (simp add: sha1_rounds_append)

lemma sha1_demo_cert_msg:
  "sha1 demo_cert_msg =
     [0x91, 0x31, 0xbb, 0xcc, 0x21, 0x96, 0x6f, 0x9b, 0x71, 0x83,
      0x09, 0xd1, 0x70, 0x9d, 0x88, 0xe9, 0xb5, 0x96, 0x07, 0x2f]"
proof -
  have pad: "sha1_pad demo_cert_msg =
     [0x02, 0x12, 0x34, 0x56, 0xff, 0x12, 0x30, 0x00, 0x00, 0x01,
      0x01, 0x01, 0x28, 0x01, 0xb8, 0xbb, 0x9f, 0x68, 0xa5, 0xd5,
      0x39, 0x6d, 0x59, 0xf2, 0x1d, 0x0e, 0x50, 0x80, 0xc9, 0x23,
      0x07, 0x06, 0x08, 0xa8, 0x49, 0x17, 0x31, 0x21, 0xb2, 0x22,
      0x9a, 0xb0, 0x4a, 0xf8, 0x5e, 0xf0, 0xc6, 0xaa, 0x11, 0x75,
      0x35, 0x5a, 0xad, 0xa7, 0x03, 0x80, 0x00, 0x00, 0x00, 0x00,
      0x00, 0x00, 0x01, 0xb8]"
    by (simp add: sha1_pad_def demo_cert_msg_def upt_conv_Cons replicate_num)
  have sched: "sha1_sched 64
     [0x02123456, 0xff123000, 0x00010101, 0x2801b8bb, 0x9f68a5d5, 0x396d59f2,
      0x1d0e5080, 0xc9230706, 0x08a84917, 0x3121b222, 0x9ab04af8, 0x5ef0c6aa,
      0x1175355a, 0xada70380, 0x00000000, 0x000001b8] =
     [0x02123456, 0xff123000, 0x00010101, 0x2801b8bb, 0x9f68a5d5, 0x396d59f2,
      0x1d0e5080, 0xc9230706, 0x08a84917, 0x3121b222, 0x9ab04af8, 0x5ef0c6aa,
      0x1175355a, 0xada70380, 0x00000000, 0x000001b8, 0x4e38ff81, 0xcc647533,
      0x0bb3df28, 0x0349b0c4] @
     [0xbeef6a78, 0xacb504b8, 0x2ddf52a6, 0x8ddbbdc8, 0xe12bf1ac, 0x1cd4a63b,
      0x1b5a3a84, 0x226b0884, 0x669df233, 0x34907808, 0x83194b46, 0x4e4476e0,
      0x2061521b, 0xa1c05114, 0xc085f269, 0x5bedddc7, 0xa8db37f2, 0xaaf66623,
      0x28006b16, 0xef20b5c2] @
     [0xe1cdfe20, 0x6eff297b, 0xa4c51e38, 0x59b6a6d7, 0x47414ff8, 0xe9ceede6,
      0xa59da939, 0x8fcbbb9c, 0xd1cf6769, 0x629e1922, 0x86a0c07e, 0xf2c4f4b4,
      0x4a08147d, 0x5571fcf2, 0x3d299177, 0x883866b0, 0x836cf707, 0xd1fc0ff2,
      0xda39ee1d, 0x83a09105] @
     [0xf251fa9c, 0xd29a892b, 0x95b79c45, 0x2e787d25, 0x0d33b276, 0xa822fc43,
      0x71d28e76, 0x524c566a, 0x5aa507aa, 0xfc033a3e, 0xf37d58be, 0x5a32279a,
      0x50cb22a5, 0x12067414, 0x07117ada, 0xa77ad9c2, 0x5e8a2ace, 0x0fe169d4,
      0x99075e9f, 0x05c51865]"
    by (simp add: sha1_sched_numeral rotl32_def)
  have r1: "sha1_rounds
     [0x02123456, 0xff123000, 0x00010101, 0x2801b8bb, 0x9f68a5d5, 0x396d59f2,
      0x1d0e5080, 0xc9230706, 0x08a84917, 0x3121b222, 0x9ab04af8, 0x5ef0c6aa,
      0x1175355a, 0xada70380, 0x00000000, 0x000001b8, 0x4e38ff81, 0xcc647533,
      0x0bb3df28, 0x0349b0c4]
     0 (0x67452301, 0xefcdab89, 0x98badcfe, 0x10325476, 0xc3d2e1f0) =
     (0xe38a8faf, 0x935ac48c, 0x4d9a3f52, 0x840e0307, 0x7196dcaa)"
    by (simp add: rotl32_def sha1_f_def sha1_k_def)
  have r2: "sha1_rounds
     [0xbeef6a78, 0xacb504b8, 0x2ddf52a6, 0x8ddbbdc8, 0xe12bf1ac, 0x1cd4a63b,
      0x1b5a3a84, 0x226b0884, 0x669df233, 0x34907808, 0x83194b46, 0x4e4476e0,
      0x2061521b, 0xa1c05114, 0xc085f269, 0x5bedddc7, 0xa8db37f2, 0xaaf66623,
      0x28006b16, 0xef20b5c2]
     20 (0xe38a8faf, 0x935ac48c, 0x4d9a3f52, 0x840e0307, 0x7196dcaa) =
     (0xcb4518cf, 0x75ebcd09, 0x81671ff6, 0x39159c8b, 0xaa90c9f6)"
    by (simp add: rotl32_def sha1_f_def sha1_k_def)
  have r3: "sha1_rounds
     [0xe1cdfe20, 0x6eff297b, 0xa4c51e38, 0x59b6a6d7, 0x47414ff8, 0xe9ceede6,
      0xa59da939, 0x8fcbbb9c, 0xd1cf6769, 0x629e1922, 0x86a0c07e, 0xf2c4f4b4,
      0x4a08147d, 0x5571fcf2, 0x3d299177, 0x883866b0, 0x836cf707, 0xd1fc0ff2,
      0xda39ee1d, 0x83a09105]
     40 (0xcb4518cf, 0x75ebcd09, 0x81671ff6, 0x39159c8b, 0xaa90c9f6) =
     (0x36603afe, 0x31156e37, 0x72736e29, 0x35e640e0, 0x154b769b)"
    by (simp add: rotl32_def sha1_f_def sha1_k_def)
  have r4: "sha1_rounds
     [0xf251fa9c, 0xd29a892b, 0x95b79c45, 0x2e787d25, 0x0d33b276, 0xa822fc43,
      0x71d28e76, 0x524c566a, 0x5aa507aa, 0xfc033a3e, 0xf37d58be, 0x5a32279a,
      0x50cb22a5, 0x12067414, 0x07117ada, 0xa77ad9c2, 0x5e8a2ace, 0x0fe169d4,
      0x99075e9f, 0x05c51865]
     60 (0x36603afe, 0x31156e37, 0x72736e29, 0x35e640e0, 0x154b769b) =
     (0x29ec98cb, 0x31c8c412, 0xd8c82cd3, 0x606b3473, 0xf1c3253f)"
    by (simp add: rotl32_def sha1_f_def sha1_k_def)
  show ?thesis
    unfolding sha1_def pad
    by (simp add: sha1_block_def sched sha1_rounds_4 [OF r1 r2 r3 r4] bytes32_def
        del: sha1_rounds.simps append.simps)
qed

lemma sha1_demo_ssa_msg:
  "sha1 demo_ssa_msg =
     [0x9e, 0xcd, 0xaf, 0x1e, 0xff, 0xe6, 0xc0, 0xf2, 0x1e, 0x14,
      0x3c, 0x44, 0x0e, 0x60, 0x24, 0x0e, 0x72, 0x34, 0x6d, 0x62]"
proof -
  have pad: "sha1_pad demo_ssa_msg =
     [0x03, 0x01, 0xda, 0xc1, 0xbb, 0xbb, 0xbb, 0xbb, 0xbb, 0xbb,
      0xbb, 0xbb, 0xbb, 0xbb, 0xbb, 0xbb, 0xbb, 0xbb, 0x9f, 0x10,
      0x02, 0xaa, 0x55, 0x5a, 0x02, 0x47, 0x61, 0x5c, 0x00, 0x80,
      0x00, 0x00, 0x00, 0x00, 0x00, 0x00, 0x00, 0x00, 0x00, 0x00,
      0x00, 0x00, 0x00, 0x00, 0x00, 0x00, 0x00, 0x00, 0x00, 0x00,
      0x00, 0x00, 0x00, 0x00, 0x00, 0x00, 0x00, 0x00, 0x00, 0x00,
      0x00, 0x00, 0x00, 0xe8]"
    by (simp add: sha1_pad_def demo_ssa_msg_def upt_conv_Cons replicate_num)
  have sched: "sha1_sched 64
     [0x0301dac1, 0xbbbbbbbb, 0xbbbbbbbb, 0xbbbbbbbb, 0xbbbb9f10, 0x02aa555a,
      0x0247615c, 0x00800000, 0x00000000, 0x00000000, 0x00000000, 0x00000000,
      0x00000000, 0x00000000, 0x00000000, 0x000000e8] =
     [0x0301dac1, 0xbbbbbbbb, 0xbbbbbbbb, 0xbbbbbbbb, 0xbbbb9f10, 0x02aa555a,
      0x0247615c, 0x00800000, 0x00000000, 0x00000000, 0x00000000, 0x00000000,
      0x00000000, 0x00000000, 0x00000000, 0x000000e8, 0x7174c2f5, 0x00000000,
      0x00004886, 0x90ca5829] @
     [0x73f9fc99, 0x04543bb8, 0x251a72eb, 0xe6f3f8e2, 0xea41f29a, 0x4a34e5d6,
      0xcde760c9, 0xf5175566, 0x739a329e, 0x9366b733, 0x42f3caf1, 0x2ad39529,
      0x10a79fb4, 0x301aee1d, 0x299a83ff, 0xe25d5286, 0x2ac6a5e2, 0xb0b7ef2c,
      0xdfea300c, 0x59a45bff] @
     [0x0f6dc597, 0xa1a6dd42, 0x9c8714af, 0x1682ea89, 0x7413019f, 0x2b0bb333,
      0x36791f81, 0x6efc42a8, 0x3ab6d5de, 0x8b30fcb0, 0xe24ee035, 0xfdbd05fa,
      0x141ed182, 0x40adcfaa, 0x3687dfc0, 0x05c02b2f, 0xd3e39699, 0x15262976,
      0x1e35bc54, 0x27af95b2] @
     [0x86a5cdd4, 0x36df04ca, 0x3bcf005a, 0xcd52b1c6, 0x7b894f70, 0xb0c9a0cc,
      0x4a6e784a, 0xc26c2125, 0x29eac6b4, 0x73b9300a, 0x398ed04c, 0xe8bcea57,
      0x8bccab6f, 0x779d9889, 0x7485c73a, 0xb1a03664, 0xc63b2767, 0xf9628479,
      0x90d15205, 0xa639b874]"
    by (simp add: sha1_sched_numeral rotl32_def)
  have r1: "sha1_rounds
     [0x0301dac1, 0xbbbbbbbb, 0xbbbbbbbb, 0xbbbbbbbb, 0xbbbb9f10, 0x02aa555a,
      0x0247615c, 0x00800000, 0x00000000, 0x00000000, 0x00000000, 0x00000000,
      0x00000000, 0x00000000, 0x00000000, 0x000000e8, 0x7174c2f5, 0x00000000,
      0x00004886, 0x90ca5829]
     0 (0x67452301, 0xefcdab89, 0x98badcfe, 0x10325476, 0xc3d2e1f0) =
     (0x0091379f, 0xa529c6e4, 0xbe89df2a, 0x2482b743, 0x01283b35)"
    by (simp add: rotl32_def sha1_f_def sha1_k_def)
  have r2: "sha1_rounds
     [0x73f9fc99, 0x04543bb8, 0x251a72eb, 0xe6f3f8e2, 0xea41f29a, 0x4a34e5d6,
      0xcde760c9, 0xf5175566, 0x739a329e, 0x9366b733, 0x42f3caf1, 0x2ad39529,
      0x10a79fb4, 0x301aee1d, 0x299a83ff, 0xe25d5286, 0x2ac6a5e2, 0xb0b7ef2c,
      0xdfea300c, 0x59a45bff]
     20 (0x0091379f, 0xa529c6e4, 0xbe89df2a, 0x2482b743, 0x01283b35) =
     (0xeeca11e3, 0x3373a7d4, 0xdd275ed9, 0x70072c89, 0xf643320f)"
    by (simp add: rotl32_def sha1_f_def sha1_k_def)
  have r3: "sha1_rounds
     [0x0f6dc597, 0xa1a6dd42, 0x9c8714af, 0x1682ea89, 0x7413019f, 0x2b0bb333,
      0x36791f81, 0x6efc42a8, 0x3ab6d5de, 0x8b30fcb0, 0xe24ee035, 0xfdbd05fa,
      0x141ed182, 0x40adcfaa, 0x3687dfc0, 0x05c02b2f, 0xd3e39699, 0x15262976,
      0x1e35bc54, 0x27af95b2]
     40 (0xeeca11e3, 0x3373a7d4, 0xdd275ed9, 0x70072c89, 0xf643320f) =
     (0x45a4515e, 0xa5f3fb52, 0x67c9c800, 0xafe9c272, 0x4bec4810)"
    by (simp add: rotl32_def sha1_f_def sha1_k_def)
  have r4: "sha1_rounds
     [0x86a5cdd4, 0x36df04ca, 0x3bcf005a, 0xcd52b1c6, 0x7b894f70, 0xb0c9a0cc,
      0x4a6e784a, 0xc26c2125, 0x29eac6b4, 0x73b9300a, 0x398ed04c, 0xe8bcea57,
      0x8bccab6f, 0x779d9889, 0x7485c73a, 0xb1a03664, 0xc63b2767, 0xf9628479,
      0x90d15205, 0xa639b874]
     60 (0x45a4515e, 0xa5f3fb52, 0x67c9c800, 0xafe9c272, 0x4bec4810) =
     (0x37888c1d, 0x10191569, 0x85595f46, 0xfe2dcf98, 0xae618b72)"
    by (simp add: rotl32_def sha1_f_def sha1_k_def)
  show ?thesis
    unfolding sha1_def pad
    by (simp add: sha1_block_def sched sha1_rounds_4 [OF r1 r2 r3 r4] bytes32_def
        del: sha1_rounds.simps append.simps)
qed

lemma sha1_swapped_ssa_msg:
  "sha1 swapped_ssa_msg =
     [0x00, 0x77, 0x40, 0xf9, 0x87, 0x61, 0x37, 0x8e, 0x9d, 0x76,
      0xbc, 0x83, 0x2d, 0xbe, 0x17, 0x27, 0x26, 0x5a, 0x58, 0xb8]"
proof -
  have pad: "sha1_pad swapped_ssa_msg =
     [0x03, 0x01, 0xda, 0xc1, 0xbb, 0xbb, 0xbb, 0xbb, 0xbb, 0xbb,
      0xbb, 0xbb, 0xbb, 0xbb, 0xbb, 0xbb, 0xbb, 0xbb, 0x5a, 0x02,
      0x47, 0x61, 0x9f, 0x10, 0x02, 0xaa, 0x55, 0x5c, 0x00, 0x80,
      0x00, 0x00, 0x00, 0x00, 0x00, 0x00, 0x00, 0x00, 0x00, 0x00,
      0x00, 0x00, 0x00, 0x00, 0x00, 0x00, 0x00, 0x00, 0x00, 0x00,
      0x00, 0x00, 0x00, 0x00, 0x00, 0x00, 0x00, 0x00, 0x00, 0x00,
      0x00, 0x00, 0x00, 0xe8]"
    by (simp add: sha1_pad_def swapped_ssa_msg_def upt_conv_Cons replicate_num)
  have sched: "sha1_sched 64
     [0x0301dac1, 0xbbbbbbbb, 0xbbbbbbbb, 0xbbbbbbbb, 0xbbbb5a02, 0x47619f10,
      0x02aa555c, 0x00800000, 0x00000000, 0x00000000, 0x00000000, 0x00000000,
      0x00000000, 0x00000000, 0x00000000, 0x000000e8] =
     [0x0301dac1, 0xbbbbbbbb, 0xbbbbbbbb, 0xbbbbbbbb, 0xbbbb5a02, 0x47619f10,
      0x02aa555c, 0x00800000, 0x00000000, 0x00000000, 0x00000000, 0x00000000,
      0x00000000, 0x00000000, 0x00000000, 0x000000e8, 0x7174c2f5, 0x00000000,
      0x0001c2a2, 0x1b5dccbd] @
     [0x72221ebd, 0x8fc0bb64, 0x33ef33c2, 0xe5443caa, 0xfd68f323, 0x67de6784,
      0xca8bfc11, 0xcc6a7f3d, 0x2bf8f272, 0x8a968f3a, 0x1de31c15, 0x9d799c61,
      0x0d16f89c, 0xc2c16e58, 0x4ba378de, 0xabc3e0f0, 0x51e962ab, 0x5762e055,
      0xf14e7808, 0x9c154bc8] @
     [0xdb2e2ff6, 0x30761dd3, 0x6d8a7aea, 0x6c227e02, 0xaf09223e, 0x5a0f13c8,
      0x1b33c507, 0xd949379e, 0x8f2978f9, 0x848eacf8, 0x5d12ae03, 0x3f540cbc,
      0x164128cb, 0x98d42cad, 0x1c0f3c8a, 0xc6d6929c, 0x42b20291, 0x89abe747,
      0xb28ec896, 0x9796c7ce] @
     [0x57a0516a, 0x523980db, 0x3f068d74, 0x9962b121, 0x8560a961, 0x1aef94ee,
      0xc17ffefe, 0x6aec9d7d, 0x8e03a38a, 0x9a898029, 0x16ae5c24, 0xb038cee0,
      0xdfabc69f, 0x24f9d086, 0x28d353c5, 0xe1d039ee, 0x84b95e25, 0xf203c42c,
      0x9a3083be, 0x6e196a15]"
    by (simp add: sha1_sched_numeral rotl32_def)
  have r1: "sha1_rounds
     [0x0301dac1, 0xbbbbbbbb, 0xbbbbbbbb, 0xbbbbbbbb, 0xbbbb5a02, 0x47619f10,
      0x02aa555c, 0x00800000, 0x00000000, 0x00000000, 0x00000000, 0x00000000,
      0x00000000, 0x00000000, 0x00000000, 0x000000e8, 0x7174c2f5, 0x00000000,
      0x0001c2a2, 0x1b5dccbd]
     0 (0x67452301, 0xefcdab89, 0x98badcfe, 0x10325476, 0xc3d2e1f0) =
     (0xfe807f06, 0x9158a953, 0xaedee070, 0xf7974006, 0x139ec691)"
    by (simp add: rotl32_def sha1_f_def sha1_k_def)
  have r2: "sha1_rounds
     [0x72221ebd, 0x8fc0bb64, 0x33ef33c2, 0xe5443caa, 0xfd68f323, 0x67de6784,
      0xca8bfc11, 0xcc6a7f3d, 0x2bf8f272, 0x8a968f3a, 0x1de31c15, 0x9d799c61,
      0x0d16f89c, 0xc2c16e58, 0x4ba378de, 0xabc3e0f0, 0x51e962ab, 0x5762e055,
      0xf14e7808, 0x9c154bc8]
     20 (0xfe807f06, 0x9158a953, 0xaedee070, 0xf7974006, 0x139ec691) =
     (0xf3682e77, 0x3d16e833, 0x2e625d69, 0x830d8777, 0x3b3e2007)"
    by (simp add: rotl32_def sha1_f_def sha1_k_def)
  have r3: "sha1_rounds
     [0xdb2e2ff6, 0x30761dd3, 0x6d8a7aea, 0x6c227e02, 0xaf09223e, 0x5a0f13c8,
      0x1b33c507, 0xd949379e, 0x8f2978f9, 0x848eacf8, 0x5d12ae03, 0x3f540cbc,
      0x164128cb, 0x98d42cad, 0x1c0f3c8a, 0xc6d6929c, 0x42b20291, 0x89abe747,
      0xb28ec896, 0x9796c7ce]
     40 (0xf3682e77, 0x3d16e833, 0x2e625d69, 0x830d8777, 0x3b3e2007) =
     (0xde23e734, 0xec2d538b, 0x2c303b08, 0x060d190d, 0xa3346805)"
    by (simp add: rotl32_def sha1_f_def sha1_k_def)
  have r4: "sha1_rounds
     [0x57a0516a, 0x523980db, 0x3f068d74, 0x9962b121, 0x8560a961, 0x1aef94ee,
      0xc17ffefe, 0x6aec9d7d, 0x8e03a38a, 0x9a898029, 0x16ae5c24, 0xb038cee0,
      0xdfabc69f, 0x24f9d086, 0x28d353c5, 0xe1d039ee, 0x84b95e25, 0xf203c42c,
      0x9a3083be, 0x6e196a15]
     60 (0xde23e734, 0xec2d538b, 0x2c303b08, 0x060d190d, 0xa3346805) =
     (0x99321df8, 0x97938c05, 0x04bbdf85, 0x1d8bc2b1, 0x628776c8)"
    by (simp add: rotl32_def sha1_f_def sha1_k_def)
  show ?thesis
    unfolding sha1_def pad
    by (simp add: sha1_block_def sched sha1_rounds_4 [OF r1 r2 r3 r4] bytes32_def
        del: sha1_rounds.simps append.simps)
qed

lemma sha1_short_cert_msg:
  "sha1 short_cert_msg =
     [0xbd, 0xf5, 0x84, 0xe1, 0x29, 0x89, 0x19, 0x08, 0xab, 0xce,
      0x30, 0x35, 0xcd, 0x7f, 0x50, 0x8c, 0x3f, 0x53, 0x7c, 0xbb]"
proof -
  have pad: "sha1_pad short_cert_msg =
     [0x02, 0x12, 0x34, 0x56, 0xff, 0x12, 0x30, 0x00, 0x00, 0x01,
      0x01, 0x01, 0x28, 0x01, 0xb8, 0xbb, 0x9f, 0x68, 0xa5, 0x03,
      0x80, 0x00, 0x00, 0x00, 0x00, 0x00, 0x00, 0x00, 0x00, 0x00,
      0x00, 0x00, 0x00, 0x00, 0x00, 0x00, 0x00, 0x00, 0x00, 0x00,
      0x00, 0x00, 0x00, 0x00, 0x00, 0x00, 0x00, 0x00, 0x00, 0x00,
      0x00, 0x00, 0x00, 0x00, 0x00, 0x00, 0x00, 0x00, 0x00, 0x00,
      0x00, 0x00, 0x00, 0xa0]"
    by (simp add: sha1_pad_def short_cert_msg_def upt_conv_Cons replicate_num)
  have sched: "sha1_sched 64
     [0x02123456, 0xff123000, 0x00010101, 0x2801b8bb, 0x9f68a503, 0x80000000,
      0x00000000, 0x00000000, 0x00000000, 0x00000000, 0x00000000, 0x00000000,
      0x00000000, 0x00000000, 0x00000000, 0x000000a0] =
     [0x02123456, 0xff123000, 0x00010101, 0x2801b8bb, 0x9f68a503, 0x80000000,
      0x00000000, 0x00000000, 0x00000000, 0x00000000, 0x00000000, 0x00000000,
      0x00000000, 0x00000000, 0x00000000, 0x000000a0, 0x04266aae, 0xae271177,
      0x3ed34945, 0x584fa42b] @
     [0x629f68e8, 0x7da6928b, 0xb09f4856, 0xc53ed090, 0xf301f04a, 0x3d70b242,
      0xf7db33ab, 0x569ca8c3, 0xbfdfb554, 0x14fb4301, 0xc44b1477, 0xa98ce827,
      0xba1f2141, 0x1ea626d2, 0x0437f442, 0x92d57e45, 0xe6f36670, 0x50a9eab1,
      0x2a01a45c, 0x6e63d90b] @
     [0xdcd81023, 0xbe97301e, 0x44a1576c, 0x18d50b48, 0x47e1ee9a, 0x52fe2df7,
      0x99013444, 0x3d51f2c9, 0x601dd1ae, 0x57cab99b, 0x36686f2f, 0x75689c25,
      0xb9b32a5b, 0xb4b8e2c4, 0x3560383c, 0xa82c630e, 0x99b8e84a, 0x89d175e3,
      0x3a096baf, 0x4df6a5a1] @
     [0xdd050acd, 0xc23cacab, 0x0314f0ef, 0x3f644522, 0x1be3f4c0, 0x50cf4165,
      0x156cd7f3, 0x2f8a5f01, 0x0232b39e, 0x9789f525, 0x008cff31, 0x3957c0a2,
      0x5fb70400, 0x28c8dc2d, 0x966eec67, 0xffeea417, 0xe9d72b23, 0xf97fe197,
      0xcf2abe13, 0x7e57df8d]"
    by (simp add: sha1_sched_numeral rotl32_def)
  have r1: "sha1_rounds
     [0x02123456, 0xff123000, 0x00010101, 0x2801b8bb, 0x9f68a503, 0x80000000,
      0x00000000, 0x00000000, 0x00000000, 0x00000000, 0x00000000, 0x00000000,
      0x00000000, 0x00000000, 0x00000000, 0x000000a0, 0x04266aae, 0xae271177,
      0x3ed34945, 0x584fa42b]
     0 (0x67452301, 0xefcdab89, 0x98badcfe, 0x10325476, 0xc3d2e1f0) =
     (0xb7046cb1, 0x56c16fc5, 0x84f9b2e2, 0x86fd8507, 0x1fe0994a)"
    by (simp add: rotl32_def sha1_f_def sha1_k_def)
  have r2: "sha1_rounds
     [0x629f68e8, 0x7da6928b, 0xb09f4856, 0xc53ed090, 0xf301f04a, 0x3d70b242,
      0xf7db33ab, 0x569ca8c3, 0xbfdfb554, 0x14fb4301, 0xc44b1477, 0xa98ce827,
      0xba1f2141, 0x1ea626d2, 0x0437f442, 0x92d57e45, 0xe6f36670, 0x50a9eab1,
      0x2a01a45c, 0x6e63d90b]
     20 (0xb7046cb1, 0x56c16fc5, 0x84f9b2e2, 0x86fd8507, 0x1fe0994a) =
     (0x0b5babe5, 0xf8f61574, 0xb416ae5b, 0x665ac76a, 0xa466b8cb)"
    by (simp add: rotl32_def sha1_f_def sha1_k_def)
  have r3: "sha1_rounds
     [0xdcd81023, 0xbe97301e, 0x44a1576c, 0x18d50b48, 0x47e1ee9a, 0x52fe2df7,
      0x99013444, 0x3d51f2c9, 0x601dd1ae, 0x57cab99b, 0x36686f2f, 0x75689c25,
      0xb9b32a5b, 0xb4b8e2c4, 0x3560383c, 0xa82c630e, 0x99b8e84a, 0x89d175e3,
      0x3a096baf, 0x4df6a5a1]
     40 (0x0b5babe5, 0xf8f61574, 0xb416ae5b, 0x665ac76a, 0xa466b8cb) =
     (0xd6dd410f, 0x946282e1, 0xb4df758c, 0x956d612a, 0x329c2aa9)"
    by (simp add: rotl32_def sha1_f_def sha1_k_def)
  have r4: "sha1_rounds
     [0xdd050acd, 0xc23cacab, 0x0314f0ef, 0x3f644522, 0x1be3f4c0, 0x50cf4165,
      0x156cd7f3, 0x2f8a5f01, 0x0232b39e, 0x9789f525, 0x008cff31, 0x3957c0a2,
      0x5fb70400, 0x28c8dc2d, 0x966eec67, 0xffeea417, 0xe9d72b23, 0xf97fe197,
      0xcf2abe13, 0x7e57df8d]
     60 (0xd6dd410f, 0x946282e1, 0xb4df758c, 0x956d612a, 0x329c2aa9) =
     (0x56b061e0, 0x39bb6d7f, 0x13135337, 0xbd4cfc16, 0x7b809acb)"
    by (simp add: rotl32_def sha1_f_def sha1_k_def)
  show ?thesis
    unfolding sha1_def pad
    by (simp add: sha1_block_def sched sha1_rounds_4 [OF r1 r2 r3 r4] bytes32_def
        del: sha1_rounds.simps append.simps)
qed

lemma rsa_cert: "textbook_rsa 40 demo_cert demo_ca_key = (40, demo_cert_rec)"
  by (simp add: textbook_rsa_def demo_cert_def demo_ca_key_def demo_ca_mod_def demo_cert_rec_def
      be_nat_def nat_be_numeral modexp_cert)

lemma rsa_ssa: "textbook_rsa 40 demo_ssa demo_iss_key = (40, demo_ssa_rec)"
  by (simp add: textbook_rsa_def demo_ssa_def demo_iss_key_def demo_iss_mod_def demo_ssa_rec_def
      be_nat_def nat_be_numeral modexp_ssa)

lemma rsa_short: "textbook_rsa 40 short_cert demo_ca_key = (40, short_cert_rec)"
  by (simp add: textbook_rsa_def short_cert_def demo_ca_key_def demo_ca_mod_def short_cert_rec_def
      be_nat_def nat_be_numeral modexp_short)

lemma demo_lengths [simp]:
  "length demo_cert = 40" "length demo_cert_rec = 40" "length demo_ssa = 40"
  "length demo_ssa_rec = 40" "length demo_pk_r = 36" "length demo_ca_mod = 40"
  "length short_cert = 40" "length short_cert_rec = 40" "length demo_R1 = 5" "length demo_R2 = 4"
  by (simp_all add: demo_cert_def demo_cert_rec_def demo_ssa_def demo_ssa_rec_def demo_pk_r_def
      demo_ca_mod_def short_cert_def short_cert_rec_def demo_R1_def demo_R2_def)

lemma demo_prims_simps [simp]:
  "SHA1 demo_prims = sha1" "RSA_public_encrypt demo_prims = textbook_rsa"
  "malloc demo_prims n = Some (\<lambda>i. 0xaa)" "RSA_new_ok demo_prims" "BN_bin2bn_ok demo_prims bs"
  "emv_data_int demo_prims = first_byte_int" "EMV_AIP_SDA demo_prims = 0x40"
  by (simp_all add: demo_prims_def)

lemma demo_heap_blocks [simp]:
  "block demo_heap 10 = Some demo_cert" "block demo_heap 11 = Some demo_pk_r"
  "block demo_heap 12 = Some [0x03]" "block demo_heap 13 = Some demo_ssa"
  "block demo_heap 14 = Some demo_R1" "block demo_heap 15 = Some demo_R2"
  "block demo_heap 16 = Some [0x01]"
  by (simp_all add: block_def NULL_def demo_heap_def)

lemma demo_heap1_blocks [simp]:
  "block demo_heap1 10 = Some demo_cert_rec" "block demo_heap1 11 = Some demo_pk_r"
  "block demo_heap1 12 = Some [0x03]" "block demo_heap1 13 = Some demo_ssa"
  "block demo_heap1 14 = Some demo_R1" "block demo_heap1 15 = Some demo_R2"
  by (simp_all add: block_def NULL_def demo_heap1_def demo_heap_def)

lemma demo_heap2_blocks [simp]:
  "block demo_heap2 10 = Some demo_cert_rec" "block demo_heap2 11 = Some demo_pk_r"
  "block demo_heap2 12 = Some [0x03]" "block demo_heap2 13 = Some demo_ssa_rec"
  "block demo_heap2 14 = Some demo_R1" "block demo_heap2 15 = Some demo_R2"
  by (simp_all add: block_def NULL_def demo_heap2_def demo_heap1_def demo_heap_def)

lemma demo_req_simps [simp]:
  "ca_pk_idx demo_req = 1" "pk_cert demo_req = 10" "pk_cert_len demo_req = 40"
  "pk_r demo_req = 11" "pk_r_len demo_req = 36" "pk_exp demo_req = 12" "pk_exp_len demo_req = 1"
  "ssa_data demo_req = 13" "ssa_data_len demo_req = 40"
  by (simp_all add: demo_req_def)

lemma demo_get_required_data: "get_required_data demo_prims demo_emv demo_heap = Inr demo_req"
  by (simp add: get_required_data_def demo_emv_def demo_tags_def required_element_def NULL_def
      first_byte_int_def load_u8_def demo_req_def)

lemma demo_get_ca_key: "get_ca_key demo_prims 1 demo_mod demo_exp = Inr (demo_ca_key, 40)"
  by (simp add: get_ca_key_def demo_mod_def demo_exp_def demo_ca_key_def)

lemma demo_recover_cert: "recover demo_prims 10 40 demo_ca_key demo_heap = (Inr (), demo_heap1)"
  using recover_eval [of demo_heap 10 demo_cert 40 demo_prims "\<lambda>i. 0xaa" demo_ca_key 40 demo_cert_rec]
  by (simp add: rsa_cert demo_heap1_def)

lemma demo_cert_msg_eq: "take 18 (drop (Suc 0) demo_cert_rec) @ demo_pk_r @ [0x03] = demo_cert_msg"
  by (simp add: demo_cert_rec_def demo_pk_r_def demo_cert_msg_def)

lemma demo_cert_digest: "take 20 (drop 19 demo_cert_rec) = sha1 demo_cert_msg"
  by (simp add: sha1_demo_cert_msg demo_cert_rec_def)

lemma demo_decode_cert: "emsa_pss_decode demo_prims demo_cert_msg demo_heap1 10 40 = Inr ()"
proof -
  have "demo_cert_rec ! 39 = 0xbc"
    by (simp add: demo_cert_rec_def)
  then show ?thesis
    using emsa_pss_decode_eq [of demo_heap1 10 demo_cert_rec 40 demo_prims demo_cert_msg]
    by (simp add: demo_cert_digest)
qed

lemma demo_check_pk_cert: "check_pk_cert demo_prims demo_req demo_heap1 = Inr ()"
proof -
  have "demo_cert_rec ! 0 = 0x6a" "demo_cert_rec ! 1 = 0x02" "demo_cert_rec ! 11 = 0x01"
    by (simp_all add: demo_cert_rec_def)
  then show ?thesis
    using check_pk_cert_eq [of demo_heap1 demo_req demo_cert_rec demo_pk_r "[0x03]" demo_prims]
    by (simp add: demo_cert_msg_eq demo_decode_cert)
qed

lemma demo_make_issuer_pk: "make_issuer_pk demo_prims demo_req demo_heap1 = Inr demo_iss_key"
proof -
  have "take 4 (drop 15 demo_cert_rec) @ demo_pk_r = demo_iss_mod"
    by (simp add: demo_cert_rec_def demo_pk_r_def demo_iss_mod_def)
  then show ?thesis
    using make_issuer_pk_eq [of demo_heap1 demo_req demo_cert_rec demo_pk_r "[0x03]" demo_prims
        "\<lambda>i. 0xaa"]
    by (simp add: demo_iss_key_def Let_def)
qed

lemma demo_get_issuer_pk:
  "get_issuer_pk demo_prims demo_req demo_ca_key 40 demo_heap = (Inr demo_iss_key, demo_heap1)"
  by (simp add: get_issuer_pk_def demo_recover_cert demo_check_pk_cert demo_make_issuer_pk)

lemma demo_recover_ssa: "recover demo_prims 13 40 demo_iss_key demo_heap1 = (Inr (), demo_heap2)"
  using recover_eval [of demo_heap1 13 demo_ssa 40 demo_prims "\<lambda>i. 0xaa" demo_iss_key 40 demo_ssa_rec]
  by (simp add: rsa_ssa demo_heap2_def)

lemma demo_records: "map (record_bytes demo_heap2) demo_recs = map Some [demo_R1, demo_R2]"
  by (simp add: demo_recs_def record_bytes_def load_def)

lemma demo_ssa_msg_eq:
  "take 18 (drop (Suc 0) demo_ssa_rec) @ demo_R1 @ demo_R2 @ [0x5c, 0x00] = demo_ssa_msg"
  by (simp add: demo_ssa_rec_def demo_R1_def demo_R2_def demo_ssa_msg_def)

lemma demo_ssa_digest: "take 20 (drop 19 demo_ssa_rec) = sha1 demo_ssa_msg"
  by (simp add: sha1_demo_ssa_msg demo_ssa_rec_def)

lemma demo_decode_ssa: "emsa_pss_decode demo_prims demo_ssa_msg demo_heap2 13 40 = Inr ()"
proof -
  have "demo_ssa_rec ! 39 = 0xbc"
    by (simp add: demo_ssa_rec_def)
  then show ?thesis
    using emsa_pss_decode_eq [of demo_heap2 13 demo_ssa_rec 40 demo_prims demo_ssa_msg]
    by (simp add: demo_ssa_digest)
qed

lemma demo_verify_ssa_data:
  "verify_ssa_data demo_prims demo_recs demo_req demo_iss_key (0x5c, 0x00) demo_heap1 =
     (Inr (), demo_heap2)"
proof -
  have "demo_ssa_rec ! 0 = 0x6a" "demo_ssa_rec ! 1 = 0x03" "demo_ssa_rec ! 2 = 0x01"
    by (simp_all add: demo_ssa_rec_def)
  then show ?thesis
    using verify_ssa_data_eq [of demo_prims demo_req demo_iss_key demo_heap1 demo_heap2
        demo_ssa_rec demo_recs "[demo_R1, demo_R2]" "(0x5c, 0x00)"]
    by (simp add: demo_recover_ssa demo_records demo_ssa_msg_eq demo_decode_ssa)
qed

lemma demo_authenticate:
  "emv_authenticate_static_data demo_prims demo_mod demo_exp (demo_emv, demo_heap) =
     (Inr (),
      demo_emv\<lparr>e_ca_pk := Some demo_ca_key, e_iss_pk := Some demo_iss_key, e_sda_ok := 1\<rparr>,
      demo_heap2)"
proof -
  have "e_aip demo_emv = (0x5c, 0x00)" "db_sda demo_emv = demo_recs"
    by (simp_all add: demo_emv_def)
  then show ?thesis
    by (simp add: authenticate_cases demo_get_required_data demo_get_ca_key demo_get_issuer_pk
        demo_verify_ssa_data)
qed

text \<open>The same card with its two records in the other order.\<close>

lemma swapped_verify_ssa_data:
  "verify_ssa_data demo_prims (rev demo_recs) demo_req demo_iss_key (0x5c, 0x00) demo_heap1 =
     (Inl HashMismatch, demo_heap2)"
proof -
  have hd: "demo_ssa_rec ! 0 = 0x6a" "demo_ssa_rec ! 1 = 0x03" "demo_ssa_rec ! 2 = 0x01"
    "demo_ssa_rec ! 39 = 0xbc"
    by (simp_all add: demo_ssa_rec_def)
  have recs: "map (record_bytes demo_heap2) (rev demo_recs) = map Some [demo_R2, demo_R1]"
    by (simp add: demo_recs_def record_bytes_def load_def)
  have msg: "take 18 (drop (Suc 0) demo_ssa_rec) @ demo_R2 @ demo_R1 @ [0x5c, 0x00] = swapped_ssa_msg"
    by (simp add: demo_ssa_rec_def demo_R1_def demo_R2_def swapped_ssa_msg_def)
  have dig: "take 20 (drop 19 demo_ssa_rec) \<noteq> sha1 swapped_ssa_msg"
    by (simp add: sha1_swapped_ssa_msg demo_ssa_rec_def)
  have "emsa_pss_decode demo_prims swapped_ssa_msg demo_heap2 13 40 = Inl HashMismatch"
    using emsa_pss_decode_eq [of demo_heap2 13 demo_ssa_rec 40 demo_prims swapped_ssa_msg] hd(4) dig
    by simp
  then show ?thesis
    using verify_ssa_data_eq [of demo_prims demo_req demo_iss_key demo_heap1 demo_heap2
        demo_ssa_rec "rev demo_recs" "[demo_R2, demo_R1]" "(0x5c, 0x00)"] hd(1-3)
    by (simp add: demo_recover_ssa recs msg)
qed

lemma swapped_authenticate:
  "emv_authenticate_static_data demo_prims demo_mod demo_exp
       (demo_emv\<lparr>db_sda := rev demo_recs\<rparr>, demo_heap) =
     (Inl HashMismatch,
      demo_emv\<lparr>db_sda := rev demo_recs, e_ca_pk := Some demo_ca_key, e_iss_pk := Some demo_iss_key\<rparr>,
      demo_heap2)"
proof -
  have "e_aip demo_emv = (0x5c, 0x00)"
    by (simp add: demo_emv_def)
  moreover have "get_required_data demo_prims (demo_emv\<lparr>db_sda := rev demo_recs\<rparr>) demo_heap =
      Inr demo_req"
    by (simp add: get_required_data_def demo_emv_def demo_tags_def required_element_def NULL_def
        first_byte_int_def load_u8_def demo_req_def)
  ultimately show ?thesis
    by (simp add: authenticate_cases demo_get_ca_key demo_get_issuer_pk swapped_verify_ssa_data)
qed

subsection \<open>The card with a one-byte remainder\<close>

lemma short_blocks [simp]:
  "block short_heap 10 = Some short_cert"
  "block short_heap1 10 = Some short_cert_rec" "block short_heap1 11 = Some [0xa5]"
  "block short_heap1 12 = Some [0x03]"
  by (simp_all add: block_def NULL_def short_heap1_def short_heap_def demo_heap_def)

lemma short_req_simps [simp]:
  "pk_cert short_req = 10" "pk_cert_len short_req = 40" "pk_r short_req = 11"
  "pk_r_len short_req = 1" "pk_exp short_req = 12" "pk_exp_len short_req = 1"
  by (simp_all add: short_req_def)

lemma short_recover: "recover demo_prims 10 40 demo_ca_key short_heap = (Inr (), short_heap1)"
  using recover_eval [of short_heap 10 short_cert 40 demo_prims "\<lambda>i. 0xaa" demo_ca_key 40
      short_cert_rec]
  by (simp add: rsa_short short_heap1_def)

lemma short_check_pk_cert: "check_pk_cert demo_prims short_req short_heap1 = Inr ()"
proof -
  have hd: "short_cert_rec ! 0 = 0x6a" "short_cert_rec ! 1 = 0x02" "short_cert_rec ! 11 = 0x01"
    "short_cert_rec ! 39 = 0xbc"
    by (simp_all add: short_cert_rec_def)
  have msg: "take 18 (drop (Suc 0) short_cert_rec) @ [0xa5, 0x03] = short_cert_msg"
    by (simp add: short_cert_rec_def short_cert_msg_def)
  have dig: "take 20 (drop 19 short_cert_rec) = sha1 short_cert_msg"
    by (simp add: sha1_short_cert_msg short_cert_rec_def)
  have "emsa_pss_decode demo_prims short_cert_msg short_heap1 10 40 = Inr ()"
    using emsa_pss_decode_eq [of short_heap1 10 short_cert_rec 40 demo_prims short_cert_msg]
      hd(4) dig
    by simp
  then show ?thesis
    using check_pk_cert_eq [of short_heap1 short_req short_cert_rec "[0xa5]" "[0x03]" demo_prims]
      hd(1-3)
    by (simp add: msg)
qed

lemma short_make_issuer_pk:
  "make_issuer_pk demo_prims short_req short_heap1 =
     Inr \<lparr>rsa_n = [0xb8, 0xbb, 0x9f, 0x68, 0xa5] @ replicate 35 0xaa, rsa_e = [0x03]\<rparr>"
proof -
  have "take 4 (drop 15 short_cert_rec) = [0xb8, 0xbb, 0x9f, 0x68]"
    by (simp add: short_cert_rec_def)
  moreover have "fresh (\<lambda>i. 0xaa) 40 = replicate 40 0xaa"
    by (simp add: fresh_def map_replicate_const)
  ultimately show ?thesis
    using make_issuer_pk_eq [of short_heap1 short_req short_cert_rec "[0xa5]" "[0x03]" demo_prims
        "\<lambda>i. 0xaa"]
    by (simp add: Let_def)
qed

subsection \<open>The card with a one-byte certificate\<close>

lemma modexp_tiny: "modexp 17 3 253 = 106"
  by (simp add: modexp_def)

lemma rsa_tiny: "textbook_rsa 1 [0x11] \<lparr>rsa_n = [0xfd], rsa_e = [0x03]\<rparr> = (1, [0x6a])"
  by (simp add: textbook_rsa_def be_nat_def modexp_tiny)

lemma tiny_get_required_data: "get_required_data demo_prims tiny_emv tiny_heap = Inr tiny_req"
  by (simp add: get_required_data_def tiny_emv_def demo_emv_def tiny_tags_def required_element_def NULL_def
      first_byte_int_def load_u8_def tiny_req_def tiny_heap_def block_def)

lemma tiny_get_ca_key:
  "get_ca_key demo_prims 2 tiny_mod tiny_exp = Inr (\<lparr>rsa_n = [0xfd], rsa_e = [0x03]\<rparr>, 1)"
  by (simp add: get_ca_key_def tiny_mod_def tiny_exp_def)

lemma tiny_recover:
  "recover demo_prims 10 1 \<lparr>rsa_n = [0xfd], rsa_e = [0x03]\<rparr> tiny_heap = (Inr (), tiny_heap1)"
proof -
  have "block tiny_heap 10 = Some [0x11]"
    by (simp add: block_def NULL_def tiny_heap_def)
  then show ?thesis
    using recover_eval [of tiny_heap 10 "[0x11]" 1 demo_prims "\<lambda>i. 0xaa"
        "\<lparr>rsa_n = [0xfd], rsa_e = [0x03]\<rparr>" 1 "[0x6a]"]
    by (simp add: rsa_tiny tiny_heap1_def)
qed

lemma tiny_check_pk_cert: "check_pk_cert demo_prims tiny_req tiny_heap1 = Inl MemFault"
  by (simp add: check_pk_cert_def load_u8_def block_def NULL_def tiny_req_def tiny_heap1_def)

lemma tiny_authenticate:
  "emv_authenticate_static_data demo_prims tiny_mod tiny_exp (tiny_emv, tiny_heap) =
     (Inl MemFault,
      tiny_emv\<lparr>e_ca_pk := Some \<lparr>rsa_n = [0xfd], rsa_e = [0x03]\<rparr>, e_iss_pk := None\<rparr>,
      tiny_heap1)"
proof -
  have "e_aip tiny_emv = (0x5c, 0x00)"
    by (simp add: tiny_emv_def demo_emv_def)
  moreover have "ca_pk_idx tiny_req = 2" "pk_cert tiny_req = 10" "pk_cert_len tiny_req = 1"
    by (simp_all add: tiny_req_def)
  ultimately show ?thesis
    by (simp add: authenticate_cases tiny_get_required_data tiny_get_ca_key get_issuer_pk_def
        tiny_recover tiny_check_pk_cert)
qed

subsection \<open>A recovered certificate with a wrong first byte\<close>

lemma bad_header_block: "block bad_header_heap 10 = Some (0x6b # tl demo_cert_rec)"
  by (simp add: block_def NULL_def bad_header_heap_def)

lemma rsa_bad: "textbook_rsa 40 bad_cert demo_ca_key = (40, 0x6b # tl demo_cert_rec)"
  by (simp add: textbook_rsa_def bad_cert_def demo_ca_key_def demo_ca_mod_def demo_cert_rec_def
      be_nat_def nat_be_numeral modexp_bad)

lemma bad_recover: "recover demo_prims 10 40 demo_ca_key bad_cert_heap = (Inr (), bad_header_heap)"
proof -
  have "block bad_cert_heap 10 = Some bad_cert" "length bad_cert = 40"
    by (simp_all add: block_def NULL_def bad_cert_heap_def bad_cert_def)
  then show ?thesis
    using recover_eval [of bad_cert_heap 10 bad_cert 40 demo_prims "\<lambda>i. 0xaa" demo_ca_key 40
        "0x6b # tl demo_cert_rec"]
    by (simp add: rsa_bad bad_header_heap_def bad_cert_heap_def)
qed

lemma bad_header_check_pk_cert: "check_pk_cert demo_prims demo_req bad_header_heap = Inl BadFormat"
  by (simp add: check_pk_cert_def load_u8_def bad_header_block)

lemma bad_header_decode:
  "emsa_pss_decode demo_prims demo_cert_msg bad_header_heap 10 40 = Inr ()"
proof -
  have "(0x6b # tl demo_cert_rec) ! 39 = 0xbc"
    "take 20 (drop 19 (0x6b # tl demo_cert_rec)) = take 20 (drop 19 demo_cert_rec)"
    by (simp_all add: demo_cert_rec_def)
  then show ?thesis
    using emsa_pss_decode_eq [of bad_header_heap 10 "0x6b # tl demo_cert_rec" 40 demo_prims
        demo_cert_msg]
    by (simp add: bad_header_block demo_cert_digest)
qed

lemma bad_get_issuer_pk:
  "get_issuer_pk demo_prims demo_req demo_ca_key 40 bad_cert_heap = (Inl BadFormat, bad_header_heap)"
  by (simp add: get_issuer_pk_def bad_recover bad_header_check_pk_cert)

lemma bad_header_msg:
  "take 18 (drop 1 (0x6b # tl demo_cert_rec)) @ demo_pk_r @ [0x03] = demo_cert_msg"
  by (simp add: demo_cert_rec_def demo_pk_r_def demo_cert_msg_def)

subsection \<open>A CA key of another size\<close>

lemma small_get_ca_key:
  "get_ca_key demo_prims 1 small_mod demo_exp = Inr (\<lparr>rsa_n = [0xfd], rsa_e = [0x03]\<rparr>, 1)"
  by (simp add: get_ca_key_def small_mod_def demo_exp_def)

subsection \<open>The card with a 21-byte certificate\<close>

lemma modexp_card21:
  "modexp 172304627942115231205298856551969529770317429539133
     3 259760722455593001894219314012022623566522991385169 =
   154930997511473130140413409044339605330295546758588"
proof -
  have e: "(172304627942115231205298856551969529770317429539133 :: nat) ^ 3 =
      154930997511473130140413409044339605330295546758588 +
      259760722455593001894219314012022623566522991385169 *
      19693247704623770156860190708131717844406862627133214663323000116039738387195101956380683825340586521"
    by simp
  have l: "(154930997511473130140413409044339605330295546758588 :: nat) <
      259760722455593001894219314012022623566522991385169"
    by simp
  show ?thesis
    unfolding modexp_def e using l by (simp only: mod_mult_self2 mod_less)
qed

lemma rsa_card21: "textbook_rsa 21 card21_cert card21_ca_key = (21, card21_cert_rec)"
  by (simp add: textbook_rsa_def card21_cert_def card21_ca_key_def card21_ca_mod_def
      card21_cert_rec_def be_nat_def nat_be_numeral modexp_card21)

lemma card21_blocks [simp]:
  "block card21_heap 10 = Some card21_cert" "block card21_heap1 10 = Some card21_cert_rec"
  "block card21_heap1 11 = Some [0xa5]" "block card21_heap1 12 = Some [0x03]"
  by (simp_all add: block_def NULL_def card21_heap1_def card21_heap_def)

lemma card21_lengths [simp]: "length card21_cert = 21" "length card21_cert_rec = 21"
  by (simp_all add: card21_cert_def card21_cert_rec_def)

lemma card21_req_simps [simp]:
  "ca_pk_idx card21_req = 3" "pk_cert card21_req = 10" "pk_cert_len card21_req = 21"
  "pk_r card21_req = 11" "pk_r_len card21_req = 1" "pk_exp card21_req = 12"
  "pk_exp_len card21_req = 1"
  by (simp_all add: card21_req_def)

lemma card21_get_required_data: "get_required_data demo_prims card21_emv card21_heap = Inr card21_req"
  by (simp add: get_required_data_def card21_emv_def demo_emv_def card21_tags_def
      required_element_def NULL_def first_byte_int_def load_u8_def card21_req_def card21_heap_def
      block_def)

lemma card21_get_ca_key: "get_ca_key demo_prims 3 card21_mod card21_exp = Inr (card21_ca_key, 21)"
  by (simp add: get_ca_key_def card21_mod_def card21_exp_def card21_ca_key_def card21_ca_mod_def)

lemma card21_recover:
  "recover demo_prims 10 21 card21_ca_key card21_heap = (Inr (), card21_heap1)"
  using recover_eval [of card21_heap 10 card21_cert 21 demo_prims "\<lambda>i. 0xaa" card21_ca_key 21
      card21_cert_rec]
  by (simp add: rsa_card21 card21_heap1_def)

lemma card21_header:
  "card21_cert_rec ! 0 = 0x6a" "card21_cert_rec ! 1 = 0x02" "card21_cert_rec ! 11 = 0x01"
  "card21_cert_rec ! 20 = 0xbc"
  by (simp_all add: card21_cert_rec_def)

lemma card21_check_pk_cert: "check_pk_cert demo_prims card21_req card21_heap1 = Inl MemFault"
  using check_pk_cert_short_eq [of card21_heap1 card21_req card21_cert_rec demo_prims]
    card21_header
  by simp

lemma card21_get_issuer_pk:
  "get_issuer_pk demo_prims card21_req card21_ca_key 21 card21_heap = (Inl MemFault, card21_heap1)"
  by (simp add: get_issuer_pk_def card21_recover card21_check_pk_cert)

lemma card21_authenticate:
  "emv_authenticate_static_data demo_prims card21_mod card21_exp (card21_emv, card21_heap) =
     (Inl MemFault, card21_emv\<lparr>e_ca_pk := Some card21_ca_key, e_iss_pk := None\<rparr>, card21_heap1)"
proof -
  have "e_aip card21_emv = (0x5c, 0x00)"
    by (simp add: card21_emv_def demo_emv_def)
  then show ?thesis
    by (simp add: authenticate_cases card21_get_required_data card21_get_ca_key
        card21_get_issuer_pk)
qed

subsection \<open>The card with a 35-byte certificate\<close>

lemma modexp_card35:
  "modexp 507884511757969651417935288231371630828886521782548525749385590410077940185302258440
     3 1259555890952853333971502024564767898028949141898558646222108275958160519296643281291 =
   804447731668489130564419045042975725550252501952451506526340211215299641644411942844"
proof -
  have e: "(507884511757969651417935288231371630828886521782548525749385590410077940185302258440 :: nat) ^ 3 =
      804447731668489130564419045042975725550252501952451506526340211215299641644411942844 +
      1259555890952853333971502024564767898028949141898558646222108275958160519296643281291 *
      104010566893288700831440027226479191057363135898779342229258017617517557409284593598433223813434113235540735895286999591152901421830470072648836729421051667020012445516"
    by simp
  have l: "(804447731668489130564419045042975725550252501952451506526340211215299641644411942844 :: nat) <
      1259555890952853333971502024564767898028949141898558646222108275958160519296643281291"
    by simp
  show ?thesis
    unfolding modexp_def e using l by (simp only: mod_mult_self2 mod_less)
qed

lemma sha1_card35_cert_msg:
  "sha1 card35_cert_msg =
     [0xa4, 0x7e, 0x17, 0x39, 0x83, 0xf5, 0xfa, 0x5c, 0xa8, 0x39,
      0x80, 0xd0, 0x61, 0x39, 0x84, 0x7d, 0xd4, 0x05, 0xf2, 0x77]"
proof -
  have pad: "sha1_pad card35_cert_msg =
     [0x02, 0x12, 0x34, 0x56, 0xff, 0x12, 0x30, 0x00, 0x00, 0x01,
      0x01, 0x01, 0x23, 0xde, 0xad, 0xbe, 0xef, 0x03, 0x80, 0x00,
      0x00, 0x00, 0x00, 0x00, 0x00, 0x00, 0x00, 0x00, 0x00, 0x00,
      0x00, 0x00, 0x00, 0x00, 0x00, 0x00, 0x00, 0x00, 0x00, 0x00,
      0x00, 0x00, 0x00, 0x00, 0x00, 0x00, 0x00, 0x00, 0x00, 0x00,
      0x00, 0x00, 0x00, 0x00, 0x00, 0x00, 0x00, 0x00, 0x00, 0x00,
      0x00, 0x00, 0x00, 0x90]"
    by (simp add: sha1_pad_def card35_cert_msg_def upt_conv_Cons replicate_num)
  have sched: "sha1_sched 64
     [0x02123456, 0xff123000, 0x00010101, 0x23deadbe, 0xef038000, 0x00000000,
      0x00000000, 0x00000000, 0x00000000, 0x00000000, 0x00000000, 0x00000000,
      0x00000000, 0x00000000, 0x00000000, 0x00000090] =
     [0x02123456, 0xff123000, 0x00010101, 0x23deadbe, 0xef038000, 0x00000000,
      0x00000000, 0x00000000, 0x00000000, 0x00000000, 0x00000000, 0x00000000,
      0x00000000, 0x00000000, 0x00000000, 0x00000090, 0x04266aae, 0xb9993b7d,
      0xde050323, 0x4ff18e20] @
     [0xad3576fa, 0xbc0a0647, 0x9fe31c40, 0x5a6aecd5, 0x7058d9d3, 0x4cf44e7a,
      0x08dfdfed, 0x7f52afe6, 0xc3827101, 0x69abb275, 0xc92fb211, 0x40e34c72,
      0x87a00457, 0xe766926c, 0x7619cc8c, 0x161247ac, 0x2c6513ae, 0xf3a528d7,
      0x610c605c, 0xf431fae6] @
     [0x1904557c, 0x6b982759, 0x92eb310c, 0x33de1e86, 0x9aa1efce, 0x900dcfb8,
      0x38bb9138, 0x922b966d, 0xf160a43e, 0x44aec743, 0xb578f086, 0x4e13ab86,
      0x26ccb6ff, 0x45c3da1e, 0x1d401f3c, 0x569dfa5a, 0x7e9834a0, 0x0351c340,
      0xd75fa83d, 0x26b09c31] @
     [0x0f0e1693, 0x217457ed, 0xe4576c17, 0x1e2d7bcf, 0x37e86fea, 0xdb778725,
      0xb58d2b16, 0x35110486, 0xdfea70eb, 0x0f4eb97f, 0x653c861b, 0x2816647d,
      0x22c29411, 0x3754bc9f, 0x8b95e38a, 0x202eb696, 0x07cf6de0, 0x7704edaf,
      0x2d5a66e1, 0xd507eaef]"
    by (simp add: sha1_sched_numeral rotl32_def)
  have r1: "sha1_rounds
     [0x02123456, 0xff123000, 0x00010101, 0x23deadbe, 0xef038000, 0x00000000,
      0x00000000, 0x00000000, 0x00000000, 0x00000000, 0x00000000, 0x00000000,
      0x00000000, 0x00000000, 0x00000000, 0x00000090, 0x04266aae, 0xb9993b7d,
      0xde050323, 0x4ff18e20]
     0 (0x67452301, 0xefcdab89, 0x98badcfe, 0x10325476, 0xc3d2e1f0) =
     (0x984661fe, 0x94ba60a1, 0xab9ead9e, 0x86be3963, 0xe7e79958)"
    by (simp add: rotl32_def sha1_f_def sha1_k_def)
  have r2: "sha1_rounds
     [0xad3576fa, 0xbc0a0647, 0x9fe31c40, 0x5a6aecd5, 0x7058d9d3, 0x4cf44e7a,
      0x08dfdfed, 0x7f52afe6, 0xc3827101, 0x69abb275, 0xc92fb211, 0x40e34c72,
      0x87a00457, 0xe766926c, 0x7619cc8c, 0x161247ac, 0x2c6513ae, 0xf3a528d7,
      0x610c605c, 0xf431fae6]
     20 (0x984661fe, 0x94ba60a1, 0xab9ead9e, 0x86be3963, 0xe7e79958) =
     (0xc28f005b, 0x560539e6, 0xcd0b7503, 0xa8630f04, 0xe676cfbd)"
    by (simp add: rotl32_def sha1_f_def sha1_k_def)
  have r3: "sha1_rounds
     [0x1904557c, 0x6b982759, 0x92eb310c, 0x33de1e86, 0x9aa1efce, 0x900dcfb8,
      0x38bb9138, 0x922b966d, 0xf160a43e, 0x44aec743, 0xb578f086, 0x4e13ab86,
      0x26ccb6ff, 0x45c3da1e, 0x1d401f3c, 0x569dfa5a, 0x7e9834a0, 0x0351c340,
      0xd75fa83d, 0x26b09c31]
     40 (0xc28f005b, 0x560539e6, 0xcd0b7503, 0xa8630f04, 0xe676cfbd) =
     (0x9d7c5bad, 0xf82a2c90, 0x1eb80495, 0xef6105bc, 0xc1bc5894)"
    by (simp add: rotl32_def sha1_f_def sha1_k_def)
  have r4: "sha1_rounds
     [0x0f0e1693, 0x217457ed, 0xe4576c17, 0x1e2d7bcf, 0x37e86fea, 0xdb778725,
      0xb58d2b16, 0x35110486, 0xdfea70eb, 0x0f4eb97f, 0x653c861b, 0x2816647d,
      0x22c29411, 0x3754bc9f, 0x8b95e38a, 0x202eb696, 0x07cf6de0, 0x7704edaf,
      0x2d5a66e1, 0xd507eaef]
     60 (0x9d7c5bad, 0xf82a2c90, 0x1eb80495, 0xef6105bc, 0xc1bc5894) =
     (0x3d38f438, 0x94284ed3, 0x0f7ea3d2, 0x51073007, 0x10331087)"
    by (simp add: rotl32_def sha1_f_def sha1_k_def)
  show ?thesis
    unfolding sha1_def pad
    by (simp add: sha1_block_def sched sha1_rounds_4 [OF r1 r2 r3 r4] bytes32_def
        del: sha1_rounds.simps append.simps)
qed

lemma rsa_card35: "textbook_rsa 35 card35_cert card35_ca_key = (35, card35_cert_rec)"
  by (simp add: textbook_rsa_def card35_cert_def card35_ca_key_def card35_ca_mod_def
      card35_cert_rec_def be_nat_def nat_be_numeral modexp_card35)

lemma card35_blocks [simp]:
  "block card35_heap 10 = Some card35_cert" "block card35_heap1 10 = Some card35_cert_rec"
  "block card35_heap1 11 = Some [0xde, 0xad, 0xbe, 0xef]" "block card35_heap1 12 = Some [0x03]"
  by (simp_all add: block_def NULL_def card35_heap1_def card35_heap_def)

lemma card35_lengths [simp]: "length card35_cert = 35" "length card35_cert_rec = 35"
  by (simp_all add: card35_cert_def card35_cert_rec_def)

lemma card35_req_simps [simp]:
  "ca_pk_idx card35_req = 4" "pk_cert card35_req = 10" "pk_cert_len card35_req = 35"
  "pk_r card35_req = 11" "pk_r_len card35_req = 4" "pk_exp card35_req = 12"
  "pk_exp_len card35_req = 1"
  by (simp_all add: card35_req_def)

lemma card35_get_required_data: "get_required_data demo_prims card35_emv card35_heap = Inr card35_req"
  by (simp add: get_required_data_def card35_emv_def demo_emv_def card35_tags_def
      required_element_def NULL_def first_byte_int_def load_u8_def card35_req_def card35_heap_def
      block_def)

lemma card35_get_ca_key: "get_ca_key demo_prims 4 card35_mod card35_exp = Inr (card35_ca_key, 35)"
  by (simp add: get_ca_key_def card35_mod_def card35_exp_def card35_ca_key_def card35_ca_mod_def)

lemma card35_recover:
  "recover demo_prims 10 35 card35_ca_key card35_heap = (Inr (), card35_heap1)"
  using recover_eval [of card35_heap 10 card35_cert 35 demo_prims "\<lambda>i. 0xaa" card35_ca_key 35
      card35_cert_rec]
  by (simp add: rsa_card35 card35_heap1_def)

lemma card35_check_pk_cert: "check_pk_cert demo_prims card35_req card35_heap1 = Inr ()"
proof -
  have hd: "card35_cert_rec ! 0 = 0x6a" "card35_cert_rec ! 1 = 0x02" "card35_cert_rec ! 11 = 0x01"
    "card35_cert_rec ! 34 = 0xbc"
    by (simp_all add: card35_cert_rec_def)
  have msg: "take 13 (drop (Suc 0) card35_cert_rec) @ [0xde, 0xad, 0xbe, 0xef, 0x03] = card35_cert_msg"
    by (simp add: card35_cert_rec_def card35_cert_msg_def)
  have dig: "take 20 (drop 14 card35_cert_rec) = sha1 card35_cert_msg"
    by (simp add: sha1_card35_cert_msg card35_cert_rec_def)
  have "emsa_pss_decode demo_prims card35_cert_msg card35_heap1 10 35 = Inr ()"
    using emsa_pss_decode_eq [of card35_heap1 10 card35_cert_rec 35 demo_prims card35_cert_msg]
      hd(4) dig
    by simp
  then show ?thesis
    using check_pk_cert_eq [of card35_heap1 card35_req card35_cert_rec "[0xde, 0xad, 0xbe, 0xef]"
        "[0x03]" demo_prims] hd(1-3)
    by (simp add: msg)
qed

lemma card35_make_issuer_pk: "make_issuer_pk demo_prims card35_req card35_heap1 = Inl MemFault"
  using make_issuer_pk_short_eq [of card35_heap1 card35_req card35_cert_rec demo_prims]
  by simp

lemma card35_get_issuer_pk:
  "get_issuer_pk demo_prims card35_req card35_ca_key 35 card35_heap = (Inl MemFault, card35_heap1)"
  by (simp add: get_issuer_pk_def card35_recover card35_check_pk_cert card35_make_issuer_pk)

lemma card35_authenticate:
  "emv_authenticate_static_data demo_prims card35_mod card35_exp (card35_emv, card35_heap) =
     (Inl MemFault, card35_emv\<lparr>e_ca_pk := Some card35_ca_key, e_iss_pk := None\<rparr>, card35_heap1)"
proof -
  have "e_aip card35_emv = (0x5c, 0x00)"
    by (simp add: card35_emv_def demo_emv_def)
  then show ?thesis
    by (simp add: authenticate_cases card35_get_required_data card35_get_ca_key
        card35_get_issuer_pk)
qed

subsection \<open>The card with 21 bytes of signed static data\<close>

lemma modexp_padded_cert:
  "modexp 706947525222633596323478277860111757304732290078265082304714624777410848503083489638948397206789
     3 1699946831417491729294765507759405463867305880155260800153858839054384077149804895337953415413811 =
   884499634907531348353447377842971681886276637590420695683362600876484732021437109887931684480188"
proof -
  have e: "(706947525222633596323478277860111757304732290078265082304714624777410848503083489638948397206789 :: nat) ^ 3 =
      884499634907531348353447377842971681886276637590420695683362600876484732021437109887931684480188 +
      1699946831417491729294765507759405463867305880155260800153858839054384077149804895337953415413811 *
      207838594663964255024075061330562856123280715090797811301163611018374479579521638820139667569835462892738495466959141524721149615425836895743562909567656295521081670609366767357767593533613371"
    by simp
  have l: "(884499634907531348353447377842971681886276637590420695683362600876484732021437109887931684480188 :: nat) <
      1699946831417491729294765507759405463867305880155260800153858839054384077149804895337953415413811"
    by simp
  show ?thesis
    unfolding modexp_def e using l by (simp only: mod_mult_self2 mod_less)
qed

lemma modexp_padded_ssa:
  "modexp 170889303470440962508859915222558030766167103907999
     3 216814526802945570402719373240253259196201116042461 =
   154936341886535749720670013854258865505428521597884"
proof -
  have e: "(170889303470440962508859915222558030766167103907999 :: nat) ^ 3 =
      154936341886535749720670013854258865505428521597884 +
      216814526802945570402719373240253259196201116042461 *
      23017399833526553451139320477718506906621187401213819073052655359604862456285300174679561020809577215"
    by simp
  have l: "(154936341886535749720670013854258865505428521597884 :: nat) <
      216814526802945570402719373240253259196201116042461"
    by simp
  show ?thesis
    unfolding modexp_def e using l by (simp only: mod_mult_self2 mod_less)
qed

lemma sha1_padded_cert_msg:
  "sha1 padded_cert_msg =
     [0x98, 0x8f, 0x7e, 0xb3, 0x7c, 0xe0, 0xd0, 0x05, 0x83, 0x48,
      0x42, 0x23, 0x5c, 0xab, 0x34, 0xa0, 0x27, 0xd9, 0xfb, 0xe4]"
proof -
  have pad: "sha1_pad padded_cert_msg =
     [0x02, 0x12, 0x34, 0x56, 0xff, 0x12, 0x30, 0x00, 0x00, 0x01,
      0x01, 0x01, 0x15, 0x01, 0x00, 0x00, 0x00, 0x00, 0x00, 0x00,
      0x00, 0x00, 0x00, 0x00, 0x00, 0x00, 0x00, 0x00, 0x00, 0x00,
      0x00, 0x00, 0x00, 0x94, 0x59, 0xbb, 0xa1, 0x66, 0xac, 0xc5,
      0xf7, 0xdd, 0x6c, 0xad, 0xfe, 0x1f, 0xaf, 0x0d, 0xc1, 0x17,
      0x27, 0x7b, 0x04, 0xdd, 0x03, 0x80, 0x00, 0x00, 0x00, 0x00,
      0x00, 0x00, 0x01, 0xb8]"
    by (simp add: sha1_pad_def padded_cert_msg_def upt_conv_Cons replicate_num)
  have sched: "sha1_sched 64
     [0x02123456, 0xff123000, 0x00010101, 0x15010000, 0x00000000, 0x00000000,
      0x00000000, 0x00000000, 0x009459bb, 0xa166acc5, 0xf7dd6cad, 0xfe1faf0d,
      0xc117277b, 0x04dd0380, 0x00000000, 0x000001b8] =
     [0x02123456, 0xff123000, 0x00010101, 0x15010000, 0x00000000, 0x00000000,
      0x00000000, 0x00000000, 0x009459bb, 0xa166acc5, 0xf7dd6cad, 0xfe1faf0d,
      0xc117277b, 0x04dd0380, 0x00000000, 0x000001b8, 0x0cb4ded8, 0x96eb398a,
      0xefb8d829, 0xcf54e3ab] @
     [0xaff83de2, 0xd6cbb753, 0x9f817421, 0x1d3d213e, 0x5a6cb93a, 0xac269cc6,
      0x889f6583, 0xdff5ec38, 0x85930cbf, 0xb513a1d0, 0x99808d82, 0x1c8a2b66,
      0x18e63c36, 0xd83396ca, 0xa8ab565d, 0xbd1909ed, 0xdbb3a76c, 0xac9cc3c1,
      0xc2e892e9, 0xec4463e4] @
     [0xcd12469c, 0xd210e9ba, 0x93c6b90a, 0x35da0532, 0x2b619fd6, 0x2d87e0fb,
      0xeca84cde, 0x0738833c, 0xa1b19818, 0xb7247486, 0xcfcd960f, 0x0bdcae0d,
      0x0a3dbdab, 0x4525ada3, 0xd11c6d4d, 0x66a36992, 0x7481945b, 0x03e5ea87,
      0x2393b282, 0xce01bf3e] @
     [0x9c230849, 0x9812f9cc, 0xa4080d6a, 0x95392cc2, 0x05dec701, 0x362a7acc,
      0xe6b56bc8, 0x0a4cf723, 0xe25144c6, 0xba42ac6a, 0x17b206be, 0x245dd622,
      0xd11c9b65, 0xd8f85397, 0xfab00e42, 0x1a865569, 0x050424e4, 0x9bb2ee4c,
      0x59c53379, 0x04954991]"
    by (simp add: sha1_sched_numeral rotl32_def)
  have r1: "sha1_rounds
     [0x02123456, 0xff123000, 0x00010101, 0x15010000, 0x00000000, 0x00000000,
      0x00000000, 0x00000000, 0x009459bb, 0xa166acc5, 0xf7dd6cad, 0xfe1faf0d,
      0xc117277b, 0x04dd0380, 0x00000000, 0x000001b8, 0x0cb4ded8, 0x96eb398a,
      0xefb8d829, 0xcf54e3ab]
     0 (0x67452301, 0xefcdab89, 0x98badcfe, 0x10325476, 0xc3d2e1f0) =
     (0x27b5bd74, 0x96a5a91a, 0x642c8e72, 0xe2b0646b, 0x6b769825)"
    by (simp add: rotl32_def sha1_f_def sha1_k_def)
  have r2: "sha1_rounds
     [0xaff83de2, 0xd6cbb753, 0x9f817421, 0x1d3d213e, 0x5a6cb93a, 0xac269cc6,
      0x889f6583, 0xdff5ec38, 0x85930cbf, 0xb513a1d0, 0x99808d82, 0x1c8a2b66,
      0x18e63c36, 0xd83396ca, 0xa8ab565d, 0xbd1909ed, 0xdbb3a76c, 0xac9cc3c1,
      0xc2e892e9, 0xec4463e4]
     20 (0x27b5bd74, 0x96a5a91a, 0x642c8e72, 0xe2b0646b, 0x6b769825) =
     (0xce855101, 0x75871476, 0xcf20706c, 0x6dd7bba2, 0xc15e036e)"
    by (simp add: rotl32_def sha1_f_def sha1_k_def)
  have r3: "sha1_rounds
     [0xcd12469c, 0xd210e9ba, 0x93c6b90a, 0x35da0532, 0x2b619fd6, 0x2d87e0fb,
      0xeca84cde, 0x0738833c, 0xa1b19818, 0xb7247486, 0xcfcd960f, 0x0bdcae0d,
      0x0a3dbdab, 0x4525ada3, 0xd11c6d4d, 0x66a36992, 0x7481945b, 0x03e5ea87,
      0x2393b282, 0xce01bf3e]
     40 (0xce855101, 0x75871476, 0xcf20706c, 0x6dd7bba2, 0xc15e036e) =
     (0x89fd9dcb, 0x1ba8d3f1, 0xad8a779b, 0x8691c254, 0x9bb68dcc)"
    by (simp add: rotl32_def sha1_f_def sha1_k_def)
  have r4: "sha1_rounds
     [0x9c230849, 0x9812f9cc, 0xa4080d6a, 0x95392cc2, 0x05dec701, 0x362a7acc,
      0xe6b56bc8, 0x0a4cf723, 0xe25144c6, 0xba42ac6a, 0x17b206be, 0x245dd622,
      0xd11c9b65, 0xd8f85397, 0xfab00e42, 0x1a865569, 0x050424e4, 0x9bb2ee4c,
      0x59c53379, 0x04954991]
     60 (0x89fd9dcb, 0x1ba8d3f1, 0xad8a779b, 0x8691c254, 0x9bb68dcc) =
     (0x314a5bb2, 0x8d13247c, 0xea8d6525, 0x4c78e02a, 0x640719f4)"
    by (simp add: rotl32_def sha1_f_def sha1_k_def)
  show ?thesis
    unfolding sha1_def pad
    by (simp add: sha1_block_def sched sha1_rounds_4 [OF r1 r2 r3 r4] bytes32_def
        del: sha1_rounds.simps append.simps)
qed

lemma rsa_padded_cert: "textbook_rsa 40 padded_cert demo_ca_key = (40, padded_cert_rec)"
  by (simp add: textbook_rsa_def padded_cert_def demo_ca_key_def demo_ca_mod_def
      padded_cert_rec_def be_nat_def nat_be_numeral modexp_padded_cert)

lemma rsa_padded_ssa: "textbook_rsa 21 padded_ssa padded_iss_key = (21, padded_ssa_rec)"
  by (simp add: textbook_rsa_def padded_ssa_def padded_iss_key_def padded_iss_mod_def
      padded_ssa_rec_def be_nat_def nat_be_numeral modexp_padded_ssa)

lemma padded_lengths [simp]:
  "length padded_cert = 40" "length padded_cert_rec = 40" "length padded_pk_r = 36"
  "length padded_ssa = 21" "length padded_ssa_rec = 21"
  by (simp_all add: padded_cert_def padded_cert_rec_def padded_pk_r_def padded_ssa_def
      padded_ssa_rec_def)

lemma padded_blocks [simp]:
  "block padded_heap 10 = Some padded_cert"
  "block padded_heap1 10 = Some padded_cert_rec" "block padded_heap1 11 = Some padded_pk_r"
  "block padded_heap1 12 = Some [0x03]" "block padded_heap1 13 = Some padded_ssa"
  "block padded_heap2 13 = Some padded_ssa_rec"
  by (simp_all add: block_def NULL_def padded_heap2_def padded_heap1_def padded_heap_def
      demo_heap_def)

lemma padded_req_simps [simp]:
  "ca_pk_idx padded_req = 1" "pk_cert padded_req = 10" "pk_cert_len padded_req = 40"
  "pk_r padded_req = 11" "pk_r_len padded_req = 36" "pk_exp padded_req = 12"
  "pk_exp_len padded_req = 1" "ssa_data padded_req = 13" "ssa_data_len padded_req = 21"
  by (simp_all add: padded_req_def)

lemma padded_get_required_data: "get_required_data demo_prims padded_emv padded_heap = Inr padded_req"
  by (simp add: get_required_data_def padded_emv_def demo_emv_def padded_tags_def
      required_element_def NULL_def first_byte_int_def load_u8_def padded_req_def demo_req_def
      padded_heap_def demo_heap_def block_def)

lemma padded_recover_cert:
  "recover demo_prims 10 40 demo_ca_key padded_heap = (Inr (), padded_heap1)"
  using recover_eval [of padded_heap 10 padded_cert 40 demo_prims "\<lambda>i. 0xaa" demo_ca_key 40
      padded_cert_rec]
  by (simp add: rsa_padded_cert padded_heap1_def)

lemma padded_check_pk_cert: "check_pk_cert demo_prims padded_req padded_heap1 = Inr ()"
proof -
  have hd: "padded_cert_rec ! 0 = 0x6a" "padded_cert_rec ! 1 = 0x02" "padded_cert_rec ! 11 = 0x01"
    "padded_cert_rec ! 39 = 0xbc"
    by (simp_all add: padded_cert_rec_def)
  have msg: "take 18 (drop (Suc 0) padded_cert_rec) @ padded_pk_r @ [0x03] = padded_cert_msg"
    by (simp add: padded_cert_rec_def padded_pk_r_def padded_cert_msg_def)
  have dig: "take 20 (drop 19 padded_cert_rec) = sha1 padded_cert_msg"
    by (simp add: sha1_padded_cert_msg padded_cert_rec_def)
  have "emsa_pss_decode demo_prims padded_cert_msg padded_heap1 10 40 = Inr ()"
    using emsa_pss_decode_eq [of padded_heap1 10 padded_cert_rec 40 demo_prims padded_cert_msg]
      hd(4) dig
    by simp
  then show ?thesis
    using check_pk_cert_eq [of padded_heap1 padded_req padded_cert_rec padded_pk_r "[0x03]"
        demo_prims] hd(1-3)
    by (simp add: msg)
qed

lemma padded_make_issuer_pk: "make_issuer_pk demo_prims padded_req padded_heap1 = Inr padded_iss_key"
proof -
  have "take 4 (drop 15 padded_cert_rec) @ padded_pk_r = padded_iss_mod"
    by (simp add: padded_cert_rec_def padded_pk_r_def padded_iss_mod_def)
  then show ?thesis
    using make_issuer_pk_eq [of padded_heap1 padded_req padded_cert_rec padded_pk_r "[0x03]"
        demo_prims "\<lambda>i. 0xaa"]
    by (simp add: padded_iss_key_def Let_def)
qed

lemma padded_get_issuer_pk:
  "get_issuer_pk demo_prims padded_req demo_ca_key 40 padded_heap = (Inr padded_iss_key, padded_heap1)"
  by (simp add: get_issuer_pk_def padded_recover_cert padded_check_pk_cert padded_make_issuer_pk)

lemma padded_recover_ssa:
  "recover demo_prims 13 21 padded_iss_key padded_heap1 = (Inr (), padded_heap2)"
  using recover_eval [of padded_heap1 13 padded_ssa 21 demo_prims "\<lambda>i. 0xaa" padded_iss_key 21
      padded_ssa_rec]
  by (simp add: rsa_padded_ssa padded_heap2_def)

lemma padded_header:
  "padded_ssa_rec ! 0 = 0x6a" "padded_ssa_rec ! 1 = 0x03" "padded_ssa_rec ! 2 = 0x01"
  "padded_ssa_rec ! 20 = 0xbc"
  by (simp_all add: padded_ssa_rec_def)

lemma padded_check_ssa: "check_ssa demo_prims padded_heap2 13 21 recs aip = Inl MemFault"
  using check_ssa_short_eq [of padded_heap2 13 padded_ssa_rec 21 demo_prims recs aip]
  by simp

lemma padded_verify_ssa_data:
  "verify_ssa_data demo_prims recs padded_req padded_iss_key aip padded_heap1 =
     (Inl MemFault, padded_heap2)"
  using padded_header
  by (simp add: verify_ssa_data_def padded_recover_ssa load_u8_def padded_check_ssa)

lemma padded_authenticate:
  "emv_authenticate_static_data demo_prims demo_mod demo_exp (padded_emv, padded_heap) =
     (Inl MemFault,
      padded_emv\<lparr>e_ca_pk := Some demo_ca_key, e_iss_pk := Some padded_iss_key\<rparr>, padded_heap2)"
proof -
  have "e_aip padded_emv = (0x5c, 0x00)"
    by (simp add: padded_emv_def demo_emv_def)
  then show ?thesis
    by (simp add: authenticate_cases padded_get_required_data demo_get_ca_key
        padded_get_issuer_pk padded_verify_ssa_data)
qed

subsection \<open>One byte of signed static data\<close>

lemma tiny_ssa_recover:
  "recover demo_prims 13 1 \<lparr>rsa_n = [0xfd], rsa_e = [0x03]\<rparr> tiny_ssa_heap =
     (Inr (), tiny_ssa_heap(13 := Some [0x6a]))"
proof -
  have "block tiny_ssa_heap 13 = Some [0x11]"
    by (simp add: block_def NULL_def tiny_ssa_heap_def)
  then show ?thesis
    using recover_eval [of tiny_ssa_heap 13 "[0x11]" 1 demo_prims "\<lambda>i. 0xaa"
        "\<lparr>rsa_n = [0xfd], rsa_e = [0x03]\<rparr>" 1 "[0x6a]"]
    by (simp add: rsa_tiny)
qed

lemma tiny_verify_ssa_data:
  "verify_ssa_data demo_prims [] tiny_req \<lparr>rsa_n = [0xfd], rsa_e = [0x03]\<rparr> (0x5c, 0x00)
       tiny_ssa_heap =
     (Inl MemFault, tiny_ssa_heap(13 := Some [0x6a]))"
proof -
  have "ssa_data tiny_req = 13" "ssa_data_len tiny_req = 1"
    by (simp_all add: tiny_req_def)
  then show ?thesis
    by (simp add: verify_ssa_data_def tiny_ssa_recover load_u8_def block_def NULL_def)
qed

subsection \<open>What a passing stage has checked\<close>

lemma get_issuer_pk_heap:
  "get_issuer_pk P req ca kl h = (Inr iss, h1) \<Longrightarrow> h1 = snd (recover P (pk_cert req) kl ca h)"
  by (auto simp: get_issuer_pk_def split: if_splits prod.splits sum.splits)

lemma verify_ssa_data_heap:
  "verify_ssa_data P recs req iss aip h = (r, h2) \<Longrightarrow>
     h2 = snd (recover P (ssa_data req) (ssa_data_len req) iss h)"
  by (auto simp: verify_ssa_data_def split: if_splits prod.splits sum.splits)

lemma check_pk_cert_gate:
  "check_pk_cert P req g = Inr () \<Longrightarrow>
     (\<exists>m. emsa_pss_decode P m g (pk_cert req) (pk_cert_len req) = Inr ()) \<and>
     load_u8 g (pk_cert req) 0 = Inr 0x6a \<and> load_u8 g (pk_cert req) 1 = Inr 0x02 \<and>
     load_u8 g (pk_cert req) 11 = Inr 0x01"
  by (auto simp: check_pk_cert_def Let_def split: sum.splits if_splits option.splits)

lemma check_ssa_gate:
  "check_ssa P g p len recs aip = Inr () \<Longrightarrow> \<exists>m. emsa_pss_decode P m g p len = Inr ()"
  by (auto simp: check_ssa_def Let_def split: sum.splits if_splits option.splits prod.splits)

lemma verify_ssa_data_gate:
  "verify_ssa_data P recs req k aip g = (Inr (), g') \<Longrightarrow>
     (\<exists>m. emsa_pss_decode P m g' (ssa_data req) (ssa_data_len req) = Inr ()) \<and>
     load_u8 g' (ssa_data req) 0 = Inr 0x6a \<and> load_u8 g' (ssa_data req) 1 = Inr 0x03 \<and>
     load_u8 g' (ssa_data req) 2 = Inr 0x01"
  by (auto simp: verify_ssa_data_def split: sum.splits if_splits prod.splits dest: check_ssa_gate)

lemma get_ca_key_len:
  "get_ca_key P idx mod_cb exp_cb = Inr (ca, kl) \<Longrightarrow> kl = of_nat (length (rsa_n ca))"
  by (auto simp: get_ca_key_def split: option.splits if_splits)

lemma get_issuer_pk_length_mismatch:
  "pk_cert_len req \<noteq> kl \<Longrightarrow> get_issuer_pk P req ca kl h = (Inl LengthMismatch, h)"
  by (simp add: get_issuer_pk_def)

lemma prims_update_irrelevant:
  "get_required_data (P\<lparr>SHA1 := sha, RSA_public_encrypt := rsa\<rparr>) e h = get_required_data P e h"
  "get_ca_key (P\<lparr>SHA1 := sha, RSA_public_encrypt := rsa\<rparr>) idx mod_cb exp_cb =
     get_ca_key P idx mod_cb exp_cb"
  by (simp_all add: get_required_data_def get_ca_key_def split: option.splits)

lemma rsa_wrong_length: "textbook_rsa 39 (take 39 demo_cert) demo_ca_key = (- 1, [])"
  by (simp add: textbook_rsa_def demo_ca_key_def demo_ca_mod_def Let_def)

section \<open>The claims\<close>

text \<open>
  C1 (as amended). For every message and every recovered block of at least 21 bytes that
  lies inside its buffer, \<open>emsa_pss_decode\<close> computes the digest of the message, fails with
  \<open>BadTrailer\<close> if the last byte of the block is not \<open>0xBC\<close>, otherwise fails with
  \<open>HashMismatch\<close> unless the 20 bytes of the block at offset \<open>em_len - 21\<close> equal the digest,
  and succeeds exactly when both comparisons pass. Both stages pass only if it succeeds on
  their block, but it is not the only comparison that decides them: each stage also
  compares three header bytes of the block.
\<close>

theorem emsa_pss_decode_gate:
  assumes "block h em = Some bs" and "21 \<le> unat em_len" and "unat em_len \<le> length bs"
  shows "emsa_pss_decode P msg h em em_len =
      (if bs ! (unat em_len - 1) \<noteq> 0xbc then Inl BadTrailer
       else if take 20 (drop (unat em_len - 21) bs) \<noteq> SHA1 P msg then Inl HashMismatch
       else Inr ()) \<and>
    (check_pk_cert P req g = Inr () \<longrightarrow>
       (\<exists>m. emsa_pss_decode P m g (pk_cert req) (pk_cert_len req) = Inr ()) \<and>
       load_u8 g (pk_cert req) 0 = Inr 0x6a \<and> load_u8 g (pk_cert req) 1 = Inr 0x02 \<and>
       load_u8 g (pk_cert req) 11 = Inr 0x01) \<and>
    (verify_ssa_data P recs req k aip g = (Inr (), g') \<longrightarrow>
       (\<exists>m. emsa_pss_decode P m g' (ssa_data req) (ssa_data_len req) = Inr ()) \<and>
       load_u8 g' (ssa_data req) 0 = Inr 0x6a \<and> load_u8 g' (ssa_data req) 1 = Inr 0x03 \<and>
       load_u8 g' (ssa_data req) 2 = Inr 0x01)"
  using emsa_pss_decode_eq [OF assms] check_pk_cert_gate verify_ssa_data_gate
  by blast

theorem emsa_pss_decode_gate_witness:
  "block demo_heap1 10 = Some demo_cert_rec \<and> 21 \<le> unat (40 :: size_t) \<and>
   unat (40 :: size_t) \<le> length demo_cert_rec \<and>
   emsa_pss_decode demo_prims demo_cert_msg demo_heap1 10 40 = Inr ()"
proof -
  have "demo_cert_rec ! 39 = 0xbc"
    by (simp add: demo_cert_rec_def)
  then show ?thesis
    using emsa_pss_decode_gate [of demo_heap1 10 demo_cert_rec 40 demo_prims demo_cert_msg]
    by (simp add: demo_cert_digest)
qed

text \<open>
  C1 as stated fails twice. The certificate of the third card recovers to a block whose
  first byte is \<open>0x6b\<close>; the block passes the trailer and the digest comparison on the
  very message the stage builds from it, and the stage rejects it. And on a block of one byte \<open>0xBC\<close> the digest bytes compared lie
  before the block.
\<close>

theorem decoder_not_sole_gate_counterexample:
  "get_issuer_pk demo_prims demo_req demo_ca_key 40 bad_cert_heap = (Inl BadFormat, bad_header_heap) \<and>
   block bad_header_heap 10 = Some (0x6b # tl demo_cert_rec) \<and>
   take 18 (drop 1 (0x6b # tl demo_cert_rec)) @ demo_pk_r @ [0x03] = demo_cert_msg \<and>
   emsa_pss_decode demo_prims demo_cert_msg bad_header_heap 10 40 = Inr () \<and>
   check_pk_cert demo_prims demo_req bad_header_heap = Inl BadFormat \<and>
   emsa_pss_decode demo_prims [] trailer_only_heap 10 1 = Inl MemFault"
proof -
  have "emsa_pss_decode demo_prims [] trailer_only_heap 10 1 = Inl MemFault"
    by (simp add: emsa_pss_decode_def load_u8_def load_def block_def NULL_def trailer_only_heap_def
        SHA_DIGEST_LENGTH_def)
  then show ?thesis
    using bad_header_msg
    by (simp add: bad_header_decode bad_header_check_pk_cert bad_get_issuer_pk bad_header_block)
qed

text \<open>
  C2 (as amended). After every authentication attempt, successful or failed, every block
  of the store other than the issuer-certificate block and the signed-static-data block
  holds the bytes it held before, and an attempt that does not get its required data
  leaves the whole store as it was. The two blocks themselves are not copied: after a
  successful attempt the store is the one that the two calls of \<open>recover\<close>, on the tag
  store's certificate buffer and then on its signed-data buffer, have written.
\<close>

theorem authenticate_store_frame:
  assumes "emv_authenticate_static_data P mod_cb exp_cb (e, h) = (r, e', h')"
  shows "(case get_required_data P e h of
            Inl x \<Rightarrow> h' = h
          | Inr req \<Rightarrow> \<forall>q. q \<noteq> pk_cert req \<and> q \<noteq> ssa_data req \<longrightarrow> h' q = h q) \<and>
    (r = Inr () \<longrightarrow>
       (\<exists>req ca kl iss.
          get_required_data P e h = Inr req \<and>
          get_ca_key P (ca_pk_idx req) mod_cb exp_cb = Inr (ca, kl) \<and> e_iss_pk e' = Some iss \<and>
          h' = snd (recover P (ssa_data req) (ssa_data_len req) iss
                     (snd (recover P (pk_cert req) kl ca h)))))"
proof -
  have "case get_required_data P e h of
            Inl x \<Rightarrow> h' = h
          | Inr req \<Rightarrow> \<forall>q. q \<noteq> pk_cert req \<and> q \<noteq> ssa_data req \<longrightarrow> h' q = h q"
    using assms unfolding authenticate_cases
    by (auto split: if_splits sum.splits prod.splits
        dest!: get_issuer_pk_frame verify_ssa_data_frame)
  moreover have "\<exists>req ca kl iss.
          get_required_data P e h = Inr req \<and>
          get_ca_key P (ca_pk_idx req) mod_cb exp_cb = Inr (ca, kl) \<and> e_iss_pk e' = Some iss \<and>
          h' = snd (recover P (ssa_data req) (ssa_data_len req) iss
                     (snd (recover P (pk_cert req) kl ca h)))" if "r = Inr ()"
    using assms that unfolding authenticate_cases
    by (auto split: if_splits sum.splits prod.splits
        dest!: get_issuer_pk_heap verify_ssa_data_heap)
  ultimately show ?thesis
    by blast
qed

theorem authenticate_store_frame_witness:
  "emv_authenticate_static_data demo_prims demo_mod demo_exp (demo_emv, demo_heap) =
     (Inr (),
      demo_emv\<lparr>e_ca_pk := Some demo_ca_key, e_iss_pk := Some demo_iss_key, e_sda_ok := 1\<rparr>,
      demo_heap2) \<and>
   demo_heap2 11 = demo_heap 11 \<and> demo_heap2 12 = demo_heap 12 \<and>
   demo_heap2 = snd (recover demo_prims 13 40 demo_iss_key (snd (recover demo_prims 10 40 demo_ca_key demo_heap)))"
  using authenticate_store_frame [OF demo_authenticate]
  by (simp add: demo_authenticate demo_get_required_data demo_get_ca_key)

text \<open>
  C2 as stated fails: after the successful attempt on the first card the certificate
  block holds the recovered certificate instead of the certificate, and after the failed
  attempt on the card with its records exchanged the signed-data block holds the recovered
  block.
\<close>

theorem tag_store_mutated_counterexample:
  "block demo_heap 10 = Some demo_cert \<and>
   fst (emv_authenticate_static_data demo_prims demo_mod demo_exp (demo_emv, demo_heap)) = Inr () \<and>
   block (snd (snd (emv_authenticate_static_data demo_prims demo_mod demo_exp
      (demo_emv, demo_heap)))) 10 = Some demo_cert_rec \<and>
   demo_cert_rec \<noteq> demo_cert \<and>
   block demo_heap 13 = Some demo_ssa \<and>
   fst (emv_authenticate_static_data demo_prims demo_mod demo_exp
      (demo_emv\<lparr>db_sda := rev demo_recs\<rparr>, demo_heap)) = Inl HashMismatch \<and>
   block (snd (snd (emv_authenticate_static_data demo_prims demo_mod demo_exp
      (demo_emv\<lparr>db_sda := rev demo_recs\<rparr>, demo_heap)))) 13 = Some demo_ssa_rec \<and>
   demo_ssa_rec \<noteq> demo_ssa"
proof -
  have "demo_cert_rec \<noteq> demo_cert" "demo_ssa_rec \<noteq> demo_ssa"
    by (simp_all add: demo_cert_rec_def demo_cert_def demo_ssa_rec_def demo_ssa_def)
  then show ?thesis
    by (simp add: demo_authenticate swapped_authenticate)
qed

text \<open>
  C3. The claim is what \<open>make_issuer_pk\<close> sets out to build, and the function misses it:
  it hands \<^verbatim>\<open>BN_bin2bn\<close> all \<^verbatim>\<open>pk_cert_len\<close> bytes of its buffer, of which it has written
  \<open>pk_cert_len - 36 + pk_r_len\<close>. On the card with a one-byte remainder the certificate
  passes recovery and validation, and the modulus of the key is the four key bytes of the
  certificate, the remainder byte, and 35 bytes that \<^verbatim>\<open>malloc\<close> left in the buffer.
\<close>

theorem short_remainder_modulus:
  "get_issuer_pk demo_prims short_req demo_ca_key 40 short_heap =
     (Inr \<lparr>rsa_n = [0xb8, 0xbb, 0x9f, 0x68, 0xa5] @ replicate 35 0xaa, rsa_e = [0x03]\<rparr>,
      short_heap1)"
  by (simp add: get_issuer_pk_def short_recover short_check_pk_cert short_make_issuer_pk)

text \<open>
  C4 (as amended). \<open>check_pk_cert\<close> compares no length, so the claim is stated with its
  domain. For a recovered issuer certificate of \<open>len \<ge> 12\<close> bytes (with the remainder and
  the exponent inside their buffers), the result is \<open>BadFormat\<close> exactly when byte 0 is not
  \<open>0x6a\<close>, byte 1 is not \<open>0x02\<close> or byte 11 is not \<open>0x01\<close>. For \<open>len \<ge> 22\<close> and a header
  that matches, the message given to the decoder is the \<open>len - 22\<close> certificate bytes from
  offset 1 (offsets 1 up to and including \<open>len - 22\<close>), then the remainder, then the
  exponent, and the block is the whole recovered certificate.
\<close>

theorem check_pk_cert_validates:
  assumes "block h (pk_cert req) = Some c" and "unat (pk_cert_len req) \<le> length c"
    and "block h (pk_r req) = Some r" and "unat (pk_r_len req) \<le> length r"
    and "block h (pk_exp req) = Some x" and "unat (pk_exp_len req) \<le> length x"
    and "unat (pk_cert_len req) + unat (pk_r_len req) + unat (pk_exp_len req) < 2 ^ 64"
  shows "(12 \<le> unat (pk_cert_len req) \<longrightarrow>
       (check_pk_cert P req h = Inl BadFormat \<longleftrightarrow>
          c ! 0 \<noteq> 0x6a \<or> c ! 1 \<noteq> 0x02 \<or> c ! 11 \<noteq> 0x01)) \<and>
    (22 \<le> unat (pk_cert_len req) \<longrightarrow>
       check_pk_cert P req h =
         (if c ! 0 \<noteq> 0x6a \<or> c ! 1 \<noteq> 0x02 \<or> c ! 11 \<noteq> 0x01 then Inl BadFormat
          else case malloc P (pk_cert_len req - (SHA_DIGEST_LENGTH + 2) + pk_r_len req + pk_exp_len req) of
            None \<Rightarrow> Inl NoMemory
          | Some f \<Rightarrow>
              emsa_pss_decode P
                (take (unat (pk_cert_len req) - 22) (drop 1 c) @
                 take (unat (pk_r_len req)) r @ take (unat (pk_exp_len req)) x)
                h (pk_cert req) (pk_cert_len req)))"
proof (intro conjI impI)
  assume "12 \<le> unat (pk_cert_len req)"
  then have "12 \<le> length c"
    using assms(2) by simp
  then show "check_pk_cert P req h = Inl BadFormat \<longleftrightarrow>
      c ! 0 \<noteq> 0x6a \<or> c ! 1 \<noteq> 0x02 \<or> c ! 11 \<noteq> 0x01"
    by (rule check_pk_cert_BadFormat_iff [OF assms(1)])
next
  assume "22 \<le> unat (pk_cert_len req)"
  then show "check_pk_cert P req h =
      (if c ! 0 \<noteq> 0x6a \<or> c ! 1 \<noteq> 0x02 \<or> c ! 11 \<noteq> 0x01 then Inl BadFormat
       else case malloc P (pk_cert_len req - (SHA_DIGEST_LENGTH + 2) + pk_r_len req + pk_exp_len req) of
         None \<Rightarrow> Inl NoMemory
       | Some f \<Rightarrow>
           emsa_pss_decode P
             (take (unat (pk_cert_len req) - 22) (drop 1 c) @
              take (unat (pk_r_len req)) r @ take (unat (pk_exp_len req)) x)
             h (pk_cert req) (pk_cert_len req))"
    by (rule check_pk_cert_eq [OF assms(1,2) _ assms(3-7)])
qed

theorem check_pk_cert_validates_witness:
  "block demo_heap1 (pk_cert demo_req) = Some demo_cert_rec \<and>
   unat (pk_cert_len demo_req) \<le> length demo_cert_rec \<and> 22 \<le> unat (pk_cert_len demo_req) \<and>
   block demo_heap1 (pk_r demo_req) = Some demo_pk_r \<and>
   unat (pk_r_len demo_req) \<le> length demo_pk_r \<and>
   block demo_heap1 (pk_exp demo_req) = Some [0x03] \<and>
   unat (pk_exp_len demo_req) \<le> length [0x03 :: u8] \<and>
   check_pk_cert demo_prims demo_req demo_heap1 =
     emsa_pss_decode demo_prims demo_cert_msg demo_heap1 10 40 \<and>
   check_pk_cert demo_prims demo_req demo_heap1 = Inr () \<and>
   block card21_heap1 (pk_cert card21_req) = Some card21_cert_rec \<and>
   unat (pk_cert_len card21_req) \<le> length card21_cert_rec \<and>
   12 \<le> unat (pk_cert_len card21_req) \<and>
   check_pk_cert demo_prims card21_req card21_heap1 \<noteq> Inl BadFormat"
proof -
  have "demo_cert_rec ! 0 = 0x6a" "demo_cert_rec ! 1 = 0x02" "demo_cert_rec ! 11 = 0x01"
    by (simp_all add: demo_cert_rec_def)
  then show ?thesis
    using check_pk_cert_validates [of demo_heap1 demo_req demo_cert_rec demo_pk_r "[0x03]"
        demo_prims]
      check_pk_cert_validates [of card21_heap1 card21_req card21_cert_rec "[0xa5]" "[0x03]"
        demo_prims]
      card21_header
    by (simp add: demo_cert_msg_eq demo_decode_cert)
qed

text \<open>
  C4 as stated, for every length, fails below these bounds. The certificate of the card
  under the 21-byte CA key recovers to 21 bytes whose bytes 0, 1 and 11 are \<open>0x6a\<close>,
  \<open>0x02\<close> and \<open>0x01\<close>: \<open>len - 22\<close> wraps to \<open>2\<^sup>6\<^sup>4 - 1\<close>, the copy of the certificate bytes
  leaves the block, and no message is hashed. On the card with a one-byte certificate,
  recovered to \<open>0x6a\<close>, byte 1 is not \<open>0x02\<close> (there is no byte 1) and the result is not
  \<open>BadFormat\<close>.
\<close>

theorem check_pk_cert_short_block_counterexample:
  "get_issuer_pk demo_prims card21_req card21_ca_key 21 card21_heap =
     (Inl MemFault, card21_heap1) \<and>
   block card21_heap1 (pk_cert card21_req) = Some card21_cert_rec \<and>
   length card21_cert_rec = 21 \<and> pk_cert_len card21_req = 21 \<and>
   card21_cert_rec ! 0 = 0x6a \<and> card21_cert_rec ! 1 = 0x02 \<and> card21_cert_rec ! 11 = 0x01 \<and>
   check_pk_cert demo_prims card21_req card21_heap1 = Inl MemFault \<and>
   block tiny_heap1 (pk_cert tiny_req) = Some [0x6a] \<and> pk_cert_len tiny_req = 1 \<and>
   check_pk_cert demo_prims tiny_req tiny_heap1 = Inl MemFault"
proof -
  have "block tiny_heap1 (pk_cert tiny_req) = Some [0x6a]" "pk_cert_len tiny_req = 1"
    by (simp_all add: block_def NULL_def tiny_heap1_def tiny_req_def)
  then show ?thesis
    using card21_header
    by (simp add: card21_get_issuer_pk card21_check_pk_cert tiny_check_pk_cert)
qed

text \<open>
  C5 (as amended). Nothing bounds \<open>ssa_data_len\<close>, so the claim is stated with its
  domain. After the signed static data has been recovered to a block of \<open>len \<ge> 3\<close> bytes,
  \<open>verify_ssa_data\<close> fails with \<open>BadFormat\<close> exactly when byte 0 is not \<open>0x6a\<close>, byte 1 is
  not \<open>0x03\<close> or byte 2 is not \<open>0x01\<close>. For \<open>len \<ge> 22\<close> and a header that matches, the
  message given to the decoder is the \<open>len - 22\<close> bytes of the block from offset 1, then
  the bytes of every SDA record in the order of the record array, then the two AIP bytes.
\<close>

theorem verify_ssa_data_validates:
  assumes "recover P (ssa_data req) (ssa_data_len req) iss h = (Inr (), h')"
    and "block h' (ssa_data req) = Some c" and "unat (ssa_data_len req) \<le> length c"
    and "map (record_bytes h') recs = map Some bss"
    and "unat (ssa_data_len req) + length (concat bss) < 2 ^ 64"
  shows "(3 \<le> unat (ssa_data_len req) \<longrightarrow>
       (fst (verify_ssa_data P recs req iss aip h) = Inl BadFormat \<longleftrightarrow>
          c ! 0 \<noteq> 0x6a \<or> c ! 1 \<noteq> 0x03 \<or> c ! 2 \<noteq> 0x01)) \<and>
    (22 \<le> unat (ssa_data_len req) \<longrightarrow>
       verify_ssa_data P recs req iss aip h =
         (if c ! 0 \<noteq> 0x6a \<or> c ! 1 \<noteq> 0x03 \<or> c ! 2 \<noteq> 0x01 then Inl BadFormat
          else case malloc P (ssa_data_len req - (SHA_DIGEST_LENGTH + 2) + sda_data_len recs 2) of
            None \<Rightarrow> Inl NoMemory
          | Some f \<Rightarrow>
              emsa_pss_decode P
                (take (unat (ssa_data_len req) - 22) (drop 1 c) @ concat bss @ [fst aip, snd aip])
                h' (ssa_data req) (ssa_data_len req),
          h'))"
proof (intro conjI impI)
  assume "3 \<le> unat (ssa_data_len req)"
  then have "3 \<le> length c"
    using assms(3) by simp
  then show "fst (verify_ssa_data P recs req iss aip h) = Inl BadFormat \<longleftrightarrow>
      c ! 0 \<noteq> 0x6a \<or> c ! 1 \<noteq> 0x03 \<or> c ! 2 \<noteq> 0x01"
    by (rule verify_ssa_data_BadFormat_iff [OF assms(1,2)])
next
  assume "22 \<le> unat (ssa_data_len req)"
  then show "verify_ssa_data P recs req iss aip h =
      (if c ! 0 \<noteq> 0x6a \<or> c ! 1 \<noteq> 0x03 \<or> c ! 2 \<noteq> 0x01 then Inl BadFormat
       else case malloc P (ssa_data_len req - (SHA_DIGEST_LENGTH + 2) + sda_data_len recs 2) of
         None \<Rightarrow> Inl NoMemory
       | Some f \<Rightarrow>
           emsa_pss_decode P
             (take (unat (ssa_data_len req) - 22) (drop 1 c) @ concat bss @ [fst aip, snd aip])
             h' (ssa_data req) (ssa_data_len req),
       h')"
    by (rule verify_ssa_data_eq [OF assms(1-3) _ assms(4,5)])
qed

theorem verify_ssa_data_validates_witness:
  "recover demo_prims (ssa_data demo_req) (ssa_data_len demo_req) demo_iss_key demo_heap1 =
     (Inr (), demo_heap2) \<and>
   block demo_heap2 (ssa_data demo_req) = Some demo_ssa_rec \<and>
   unat (ssa_data_len demo_req) \<le> length demo_ssa_rec \<and> 22 \<le> unat (ssa_data_len demo_req) \<and>
   map (record_bytes demo_heap2) demo_recs = map Some [demo_R1, demo_R2] \<and>
   verify_ssa_data demo_prims demo_recs demo_req demo_iss_key (0x5c, 0x00) demo_heap1 =
     (emsa_pss_decode demo_prims demo_ssa_msg demo_heap2 13 40, demo_heap2) \<and>
   verify_ssa_data demo_prims demo_recs demo_req demo_iss_key (0x5c, 0x00) demo_heap1 =
     (Inr (), demo_heap2) \<and>
   verify_ssa_data demo_prims (rev demo_recs) demo_req demo_iss_key (0x5c, 0x00) demo_heap1 =
     (Inl HashMismatch, demo_heap2) \<and>
   recover demo_prims (ssa_data padded_req) (ssa_data_len padded_req) padded_iss_key padded_heap1 =
     (Inr (), padded_heap2) \<and>
   block padded_heap2 (ssa_data padded_req) = Some padded_ssa_rec \<and>
   unat (ssa_data_len padded_req) \<le> length padded_ssa_rec \<and>
   3 \<le> unat (ssa_data_len padded_req) \<and>
   fst (verify_ssa_data demo_prims [] padded_req padded_iss_key (0x5c, 0x00) padded_heap1) \<noteq>
     Inl BadFormat"
proof -
  have "demo_ssa_rec ! 0 = 0x6a" "demo_ssa_rec ! 1 = 0x03" "demo_ssa_rec ! 2 = 0x01"
    by (simp_all add: demo_ssa_rec_def)
  then show ?thesis
    using verify_ssa_data_validates [of demo_prims demo_req demo_iss_key demo_heap1 demo_heap2
        demo_ssa_rec demo_recs "[demo_R1, demo_R2]" "(0x5c, 0x00)"]
      verify_ssa_data_validates [of demo_prims padded_req padded_iss_key padded_heap1
        padded_heap2 padded_ssa_rec "[]" "[]" "(0x5c, 0x00)"]
      padded_header
    by (simp add: demo_recover_ssa demo_records demo_ssa_msg_eq demo_decode_ssa
        swapped_verify_ssa_data padded_recover_ssa)
qed

text \<open>
  C5 as stated, for every length, fails below these bounds. On the card whose issuer key
  has 21 significant bytes the whole run reaches \<open>verify_ssa_data\<close> with 21 bytes of signed
  data, which recover to a block that begins \<open>6a 03 01\<close>: \<open>len - 22\<close> wraps to
  \<open>2\<^sup>6\<^sup>4 - 1\<close>, the copy of the block's bytes leaves the block, and no message is hashed.
  On one byte of signed data, recovered to \<open>0x6a\<close>, byte 1 is not \<open>0x03\<close> (there is no
  byte 1) and the result is not \<open>BadFormat\<close>.
\<close>

theorem verify_ssa_data_short_block_counterexample:
  "emv_authenticate_static_data demo_prims demo_mod demo_exp (padded_emv, padded_heap) =
     (Inl MemFault,
      padded_emv\<lparr>e_ca_pk := Some demo_ca_key, e_iss_pk := Some padded_iss_key\<rparr>, padded_heap2) \<and>
   get_issuer_pk demo_prims padded_req demo_ca_key 40 padded_heap =
     (Inr padded_iss_key, padded_heap1) \<and>
   recover demo_prims (ssa_data padded_req) (ssa_data_len padded_req) padded_iss_key padded_heap1 =
     (Inr (), padded_heap2) \<and>
   block padded_heap2 (ssa_data padded_req) = Some padded_ssa_rec \<and>
   length padded_ssa_rec = 21 \<and> ssa_data_len padded_req = 21 \<and>
   padded_ssa_rec ! 0 = 0x6a \<and> padded_ssa_rec ! 1 = 0x03 \<and> padded_ssa_rec ! 2 = 0x01 \<and>
   verify_ssa_data demo_prims demo_recs padded_req padded_iss_key (0x5c, 0x00) padded_heap1 =
     (Inl MemFault, padded_heap2) \<and>
   recover demo_prims (ssa_data tiny_req) (ssa_data_len tiny_req)
       \<lparr>rsa_n = [0xfd], rsa_e = [0x03]\<rparr> tiny_ssa_heap =
     (Inr (), tiny_ssa_heap(13 := Some [0x6a])) \<and>
   verify_ssa_data demo_prims [] tiny_req \<lparr>rsa_n = [0xfd], rsa_e = [0x03]\<rparr> (0x5c, 0x00)
       tiny_ssa_heap =
     (Inl MemFault, tiny_ssa_heap(13 := Some [0x6a]))"
proof -
  have "ssa_data tiny_req = 13" "ssa_data_len tiny_req = 1"
    by (simp_all add: tiny_req_def)
  then show ?thesis
    using padded_header
    by (simp add: padded_authenticate padded_get_issuer_pk padded_recover_ssa
        padded_verify_ssa_data tiny_ssa_recover tiny_verify_ssa_data)
qed

text \<open>
  C6. In every run of \<open>emv_authenticate_static_data\<close> the first stage that fails gives the
  result, and context and store are as that stage left them (no later stage has run); the
  run succeeds exactly when the AIP bit is set and all four stages pass; \<open>e_sda_ok\<close> is
  set to 1 exactly on success and is otherwise what it was, so on a context whose flag was
  0 the flag is set afterwards exactly when the run succeeded; and \<open>emv_sda_ok\<close> is a
  function of the stored flag alone.
\<close>

theorem authenticate_fail_fast:
  assumes run: "emv_authenticate_static_data P mod_cb exp_cb (e, h) = (r, e', h')"
  shows "(r = Inr () \<longleftrightarrow>
            fst (e_aip e) AND EMV_AIP_SDA P \<noteq> 0 \<and>
            (\<exists>req ca kl iss h1.
               get_required_data P e h = Inr req \<and>
               get_ca_key P (ca_pk_idx req) mod_cb exp_cb = Inr (ca, kl) \<and>
               get_issuer_pk P req ca kl h = (Inr iss, h1) \<and>
               fst (verify_ssa_data P (db_sda e) req iss (e_aip e) h1) = Inr ())) \<and>
    e_sda_ok e' = (if r = Inr () then 1 else e_sda_ok e) \<and>
    (e_sda_ok e = 0 \<longrightarrow> (emv_sda_ok e' = 1 \<longleftrightarrow> r = Inr ())) \<and>
    emv_sda_ok e' = (if e_sda_ok e' \<noteq> 0 then 1 else 0) \<and>
    (fst (e_aip e) AND EMV_AIP_SDA P = 0 \<longrightarrow> r = Inl UnsupportedMethod \<and> e' = e \<and> h' = h) \<and>
    (fst (e_aip e) AND EMV_AIP_SDA P \<noteq> 0 \<longrightarrow>
       (case get_required_data P e h of
          Inl x \<Rightarrow> r = Inl x \<and> e' = e \<and> h' = h
        | Inr req \<Rightarrow>
            (case get_ca_key P (ca_pk_idx req) mod_cb exp_cb of
               Inl x \<Rightarrow> r = Inl x \<and> e' = e \<and> h' = h
             | Inr (ca, kl) \<Rightarrow>
                 (case get_issuer_pk P req ca kl h of
                    (Inl x, h1) \<Rightarrow>
                      r = Inl x \<and> e' = e\<lparr>e_ca_pk := Some ca, e_iss_pk := None\<rparr> \<and> h' = h1
                  | (Inr iss, h1) \<Rightarrow>
                      (case verify_ssa_data P (db_sda e) req iss (e_aip e) h1 of
                         (Inl x, h2) \<Rightarrow>
                           r = Inl x \<and> e' = e\<lparr>e_ca_pk := Some ca, e_iss_pk := Some iss\<rparr> \<and>
                           h' = h2
                       | (Inr u, h2) \<Rightarrow> r = Inr ())))))"
proof -
  have a: "r = Inr () \<longleftrightarrow>
            fst (e_aip e) AND EMV_AIP_SDA P \<noteq> 0 \<and>
            (\<exists>req ca kl iss h1.
               get_required_data P e h = Inr req \<and>
               get_ca_key P (ca_pk_idx req) mod_cb exp_cb = Inr (ca, kl) \<and>
               get_issuer_pk P req ca kl h = (Inr iss, h1) \<and>
               fst (verify_ssa_data P (db_sda e) req iss (e_aip e) h1) = Inr ())"
    using run unfolding authenticate_cases
    by (auto split: if_splits sum.splits prod.splits)
  have b: "e_sda_ok e' = (if r = Inr () then 1 else e_sda_ok e)"
    using run unfolding authenticate_cases
    by (auto split: if_splits sum.splits prod.splits)
  have c: "emv_sda_ok e' = (if e_sda_ok e' \<noteq> 0 then 1 else 0)"
    by (simp add: emv_sda_ok_def)
  have d: "e_sda_ok e = 0 \<longrightarrow> (emv_sda_ok e' = 1 \<longleftrightarrow> r = Inr ())"
    unfolding c b by simp
  have f: "fst (e_aip e) AND EMV_AIP_SDA P = 0 \<longrightarrow> r = Inl UnsupportedMethod \<and> e' = e \<and> h' = h"
    using run unfolding authenticate_cases by (auto split: if_splits)
  have g: "fst (e_aip e) AND EMV_AIP_SDA P \<noteq> 0 \<longrightarrow>
       (case get_required_data P e h of
          Inl x \<Rightarrow> r = Inl x \<and> e' = e \<and> h' = h
        | Inr req \<Rightarrow>
            (case get_ca_key P (ca_pk_idx req) mod_cb exp_cb of
               Inl x \<Rightarrow> r = Inl x \<and> e' = e \<and> h' = h
             | Inr (ca, kl) \<Rightarrow>
                 (case get_issuer_pk P req ca kl h of
                    (Inl x, h1) \<Rightarrow>
                      r = Inl x \<and> e' = e\<lparr>e_ca_pk := Some ca, e_iss_pk := None\<rparr> \<and> h' = h1
                  | (Inr iss, h1) \<Rightarrow>
                      (case verify_ssa_data P (db_sda e) req iss (e_aip e) h1 of
                         (Inl x, h2) \<Rightarrow>
                           r = Inl x \<and> e' = e\<lparr>e_ca_pk := Some ca, e_iss_pk := Some iss\<rparr> \<and>
                           h' = h2
                       | (Inr u, h2) \<Rightarrow> r = Inr ()))))"
    using run unfolding authenticate_cases
    by (auto split: if_splits sum.splits prod.splits)
  from a b c d f g show ?thesis
    by blast
qed

theorem authenticate_fail_fast_witness:
  "emv_authenticate_static_data demo_prims demo_mod demo_exp (demo_emv, demo_heap) =
     (Inr (),
      demo_emv\<lparr>e_ca_pk := Some demo_ca_key, e_iss_pk := Some demo_iss_key, e_sda_ok := 1\<rparr>,
      demo_heap2) \<and>
   e_sda_ok demo_emv = 0 \<and>
   e_sda_ok (demo_emv\<lparr>e_ca_pk := Some demo_ca_key, e_iss_pk := Some demo_iss_key,
      e_sda_ok := 1\<rparr>) = 1 \<and>
   emv_sda_ok (demo_emv\<lparr>e_ca_pk := Some demo_ca_key, e_iss_pk := Some demo_iss_key,
      e_sda_ok := 1\<rparr>) = 1"
proof -
  have "e_sda_ok demo_emv = 0"
    by (simp add: demo_emv_def)
  then show ?thesis
    using authenticate_fail_fast [OF demo_authenticate]
    by (simp add: demo_authenticate)
qed

text \<open>
  C7. When the AIP bit is set, the required data are there and the CA key has been
  obtained, and the length of the issuer certificate differs from the byte length of the CA
  modulus, \<open>emv_authenticate_static_data\<close> fails with \<open>LengthMismatch\<close>, the store is
  unchanged, and the outcome is the same whatever the RSA transform and the hash function
  are: neither is consulted.
\<close>

theorem length_mismatch_before_recovery:
  assumes "fst (e_aip e) AND EMV_AIP_SDA P \<noteq> 0"
    and "get_required_data P e h = Inr req"
    and "get_ca_key P (ca_pk_idx req) mod_cb exp_cb = Inr (ca, kl)"
    and "pk_cert_len req \<noteq> of_nat (length (rsa_n ca))"
  shows "emv_authenticate_static_data (P\<lparr>SHA1 := sha, RSA_public_encrypt := rsa\<rparr>)
           mod_cb exp_cb (e, h) =
         (Inl LengthMismatch, e\<lparr>e_ca_pk := Some ca, e_iss_pk := None\<rparr>, h)"
proof -
  have "pk_cert_len req \<noteq> kl"
    using assms(3,4) get_ca_key_len by blast
  then show ?thesis
    using assms(1-3)
    by (simp add: authenticate_cases prims_update_irrelevant get_issuer_pk_length_mismatch)
qed

theorem length_mismatch_before_recovery_witness:
  "fst (e_aip demo_emv) AND EMV_AIP_SDA demo_prims \<noteq> 0 \<and>
   get_required_data demo_prims demo_emv demo_heap = Inr demo_req \<and>
   get_ca_key demo_prims (ca_pk_idx demo_req) small_mod demo_exp =
     Inr (\<lparr>rsa_n = [0xfd], rsa_e = [0x03]\<rparr>, 1) \<and>
   pk_cert_len demo_req \<noteq> of_nat (length [0xfd :: u8]) \<and>
   emv_authenticate_static_data
       (demo_prims\<lparr>SHA1 := sha1, RSA_public_encrypt := textbook_rsa\<rparr>)
       small_mod demo_exp (demo_emv, demo_heap) =
     (Inl LengthMismatch,
      demo_emv\<lparr>e_ca_pk := Some \<lparr>rsa_n = [0xfd], rsa_e = [0x03]\<rparr>, e_iss_pk := None\<rparr>,
      demo_heap)"
proof -
  have aip: "fst (e_aip demo_emv) AND EMV_AIP_SDA demo_prims \<noteq> 0"
    by (simp add: demo_emv_def)
  have key: "get_ca_key demo_prims (ca_pk_idx demo_req) small_mod demo_exp =
      Inr (\<lparr>rsa_n = [0xfd], rsa_e = [0x03]\<rparr>, 1)"
    by (simp add: small_get_ca_key)
  have len: "pk_cert_len demo_req \<noteq> of_nat (length (rsa_n \<lparr>rsa_n = [0xfd], rsa_e = [0x03]\<rparr>))"
    by simp
  show ?thesis
    using length_mismatch_before_recovery [OF aip demo_get_required_data key len,
        where sha = sha1 and rsa = textbook_rsa] aip key
    by (simp add: demo_get_required_data)
qed

text \<open>
  C8. On a buffer that holds \<open>len\<close> bytes, with a transform that stays inside the scratch
  buffer it is given: if \<^verbatim>\<open>malloc\<close> fails, or the transform returns a negative value or a
  length other than \<open>len\<close>, \<open>recover\<close> reports failure (\<open>NoMemory\<close>, \<open>RecoveryFailed\<close>: a
  failure of the verification, no fault) and the store is unchanged; the buffer is
  overwritten, with the scratch buffer, exactly when the transform returned \<open>len\<close>; and no
  other block of the store is ever written.
\<close>

theorem recover_overwrites_only_on_equal_length:
  assumes "block h p = Some old" and "unat len \<le> length old"
    and "RSA_public_encrypt P (ucast len) (take (unat len) old) key = (ret, out)"
    and "length out \<le> unat len"
  shows "recover P p len key h =
      (case malloc P len of
         None \<Rightarrow> (Inl NoMemory, h)
       | Some f \<Rightarrow>
           if sint ret < 0 \<or> (ucast ret :: size_t) \<noteq> len then (Inl RecoveryFailed, h)
           else (Inr (),
                 h(p := Some (out @ drop (length out) (fresh f len) @ drop (unat len) old)))) \<and>
    (snd (recover P p len key h) \<noteq> h \<longrightarrow> 0 \<le> sint ret \<and> (ucast ret :: size_t) = len) \<and>
    (\<forall>q. q \<noteq> p \<longrightarrow> snd (recover P p len key h) q = h q)"
proof -
  have eq: "recover P p len key h =
      (case malloc P len of
         None \<Rightarrow> (Inl NoMemory, h)
       | Some f \<Rightarrow>
           if sint ret < 0 \<or> (ucast ret :: size_t) \<noteq> len then (Inl RecoveryFailed, h)
           else (Inr (),
                 h(p := Some (out @ drop (length out) (fresh f len) @ drop (unat len) old))))"
  proof (cases "malloc P len")
    case None
    then show ?thesis by (simp add: recover_def)
  next
    case (Some f)
    then show ?thesis
      using recover_eval [OF assms(1,2) Some assms(3,4)] by simp
  qed
  have "snd (recover P p len key h) \<noteq> h \<longrightarrow> 0 \<le> sint ret \<and> (ucast ret :: size_t) = len"
    unfolding eq by (auto split: option.splits if_splits)
  moreover have "\<forall>q. q \<noteq> p \<longrightarrow> snd (recover P p len key h) q = h q"
    using recover_frame [of P p len key h] by (metis prod.collapse)
  ultimately show ?thesis
    using eq by blast
qed

theorem recover_overwrites_only_on_equal_length_witness:
  "block demo_heap 10 = Some demo_cert \<and> unat (40 :: size_t) \<le> length demo_cert \<and>
   RSA_public_encrypt demo_prims 40 (take 40 demo_cert) demo_ca_key = (40, demo_cert_rec) \<and>
   length demo_cert_rec \<le> unat (40 :: size_t) \<and>
   recover demo_prims 10 40 demo_ca_key demo_heap = (Inr (), demo_heap(10 := Some demo_cert_rec)) \<and>
   RSA_public_encrypt demo_prims 39 (take 39 demo_cert) demo_ca_key = (- 1, []) \<and>
   recover demo_prims 10 39 demo_ca_key demo_heap = (Inl RecoveryFailed, demo_heap)"
  using recover_overwrites_only_on_equal_length [of demo_heap 10 demo_cert 40 demo_prims
      demo_ca_key 40 demo_cert_rec]
    recover_overwrites_only_on_equal_length [of demo_heap 10 demo_cert 39 demo_prims
      demo_ca_key "- 1" "[]"]
  by (simp add: rsa_cert rsa_wrong_length)

text \<open>
  C9. None of the functions compares a length with the offsets it uses; what each does on
  a block of exactly \<open>len\<close> bytes is determined as follows (remainder, exponent and records
  inside their buffers). \<open>emsa_pss_decode\<close> reads the trailer outside the block when
  \<open>len = 0\<close> and, when the trailer is \<open>0xBC\<close> and \<open>len < 21\<close>, the digest before the block;
  from 21 bytes on all its reads are inside. \<open>check_pk_cert\<close> on \<open>len < 22\<close> bytes reads
  outside the block at the first header byte that is not there or, with the header
  matching and \<^verbatim>\<open>malloc\<close> successful, in the copy of \<open>len - 22\<close> bytes; from 22 bytes on it
  stays inside. \<open>check_ssa\<close> on \<open>len < 22\<close> bytes reads outside the block whenever \<^verbatim>\<open>malloc\<close>
  succeeds, and stays inside from 22 bytes on. \<open>make_issuer_pk\<close> on \<open>len < 36\<close> bytes reads
  outside the block whenever \<^verbatim>\<open>malloc\<close> succeeds, and stays inside from 36 bytes on.
  And there are cards, each with a certificate of the length of its CA modulus, on which
  authentication reads outside a recovered block: under a 21-byte CA key in the message copy
  of \<open>check_pk_cert\<close>; under a 35-byte CA key, after \<open>check_pk_cert\<close> has accepted the
  certificate, in \<open>make_issuer_pk\<close>; under a one-byte CA key at header byte 1; and, with
  21 bytes of signed data under an issuer key of 21 significant bytes, in the message copy
  of \<open>check_ssa\<close>.
\<close>

theorem unchecked_length_preconditions:
  assumes "block h (pk_cert req) = Some c" and "length c = unat (pk_cert_len req)"
    and "block h (pk_r req) = Some r" and "unat (pk_r_len req) \<le> length r"
    and "block h (pk_exp req) = Some x" and "unat (pk_exp_len req) \<le> length x"
    and "unat (pk_cert_len req) + unat (pk_r_len req) + unat (pk_exp_len req) < 2 ^ 64"
  shows "emsa_pss_decode P msg h (pk_cert req) (pk_cert_len req) =
      (if unat (pk_cert_len req) = 0 then Inl MemFault
       else if c ! (unat (pk_cert_len req) - 1) \<noteq> 0xbc then Inl BadTrailer
       else if unat (pk_cert_len req) < 21 then Inl MemFault
       else if take 20 (drop (unat (pk_cert_len req) - 21) c) \<noteq> SHA1 P msg then Inl HashMismatch
       else Inr ()) \<and>
    (unat (pk_cert_len req) < 22 \<longrightarrow>
       check_pk_cert P req h =
         (if unat (pk_cert_len req) = 0 then Inl MemFault
          else if c ! 0 \<noteq> 0x6a then Inl BadFormat
          else if unat (pk_cert_len req) = 1 then Inl MemFault
          else if c ! 1 \<noteq> 0x02 then Inl BadFormat
          else if unat (pk_cert_len req) < 12 then Inl MemFault
          else if c ! 11 \<noteq> 0x01 then Inl BadFormat
          else case malloc P
                 (pk_cert_len req - (SHA_DIGEST_LENGTH + 2) + pk_r_len req + pk_exp_len req) of
            None \<Rightarrow> Inl NoMemory
          | Some f \<Rightarrow> Inl MemFault)) \<and>
    (22 \<le> unat (pk_cert_len req) \<longrightarrow> check_pk_cert P req h \<noteq> Inl MemFault) \<and>
    (unat (pk_cert_len req) < 36 \<longrightarrow>
       make_issuer_pk P req h =
         (case malloc P (pk_cert_len req) of None \<Rightarrow> Inl NoMemory | Some f \<Rightarrow> Inl MemFault)) \<and>
    (36 \<le> unat (pk_cert_len req) \<longrightarrow> make_issuer_pk P req h \<noteq> Inl MemFault) \<and>
    (block h p = Some s \<and> length s = unat len \<longrightarrow>
       (unat len < 22 \<longrightarrow>
          check_ssa P h p len recs aip =
            (case malloc P (len - (SHA_DIGEST_LENGTH + 2) + sda_data_len recs 2) of
               None \<Rightarrow> Inl NoMemory
             | Some f \<Rightarrow> Inl MemFault)) \<and>
       (22 \<le> unat len \<and> map (record_bytes h) recs = map Some bss \<and>
        unat len + length (concat bss) < 2 ^ 64 \<longrightarrow>
          check_ssa P h p len recs aip \<noteq> Inl MemFault)) \<and>
    (get_required_data demo_prims card21_emv card21_heap = Inr card21_req \<and>
     get_ca_key demo_prims (ca_pk_idx card21_req) card21_mod card21_exp =
       Inr (card21_ca_key, pk_cert_len card21_req) \<and>
     pk_cert_len card21_req = 21 \<and>
     recover demo_prims (pk_cert card21_req) 21 card21_ca_key card21_heap =
       (Inr (), card21_heap1) \<and>
     check_pk_cert demo_prims card21_req card21_heap1 = Inl MemFault \<and>
     fst (emv_authenticate_static_data demo_prims card21_mod card21_exp (card21_emv, card21_heap)) =
       Inl MemFault) \<and>
    (get_required_data demo_prims card35_emv card35_heap = Inr card35_req \<and>
     get_ca_key demo_prims (ca_pk_idx card35_req) card35_mod card35_exp =
       Inr (card35_ca_key, pk_cert_len card35_req) \<and>
     pk_cert_len card35_req = 35 \<and>
     recover demo_prims (pk_cert card35_req) 35 card35_ca_key card35_heap =
       (Inr (), card35_heap1) \<and>
     check_pk_cert demo_prims card35_req card35_heap1 = Inr () \<and>
     make_issuer_pk demo_prims card35_req card35_heap1 = Inl MemFault \<and>
     fst (emv_authenticate_static_data demo_prims card35_mod card35_exp (card35_emv, card35_heap)) =
       Inl MemFault) \<and>
    (get_required_data demo_prims tiny_emv tiny_heap = Inr tiny_req \<and>
     get_ca_key demo_prims (ca_pk_idx tiny_req) tiny_mod tiny_exp =
       Inr (\<lparr>rsa_n = [0xfd], rsa_e = [0x03]\<rparr>, pk_cert_len tiny_req) \<and>
     pk_cert_len tiny_req = 1 \<and>
     fst (emv_authenticate_static_data demo_prims tiny_mod tiny_exp (tiny_emv, tiny_heap)) =
       Inl MemFault) \<and>
    (get_required_data demo_prims padded_emv padded_heap = Inr padded_req \<and>
     get_issuer_pk demo_prims padded_req demo_ca_key 40 padded_heap =
       (Inr padded_iss_key, padded_heap1) \<and>
     ssa_data_len padded_req = 21 \<and>
     recover demo_prims (ssa_data padded_req) 21 padded_iss_key padded_heap1 =
       (Inr (), padded_heap2) \<and>
     check_ssa demo_prims padded_heap2 (ssa_data padded_req) 21 demo_recs (0x5c, 0x00) =
       Inl MemFault \<and>
     fst (emv_authenticate_static_data demo_prims demo_mod demo_exp (padded_emv, padded_heap)) =
       Inl MemFault)"
proof -
  have le: "unat (pk_cert_len req) \<le> length c"
    using assms(2) by simp
  note a = emsa_pss_decode_all [OF assms(1,2), of P msg]
  have b: "unat (pk_cert_len req) < 22 \<longrightarrow>
       check_pk_cert P req h =
         (if unat (pk_cert_len req) = 0 then Inl MemFault
          else if c ! 0 \<noteq> 0x6a then Inl BadFormat
          else if unat (pk_cert_len req) = 1 then Inl MemFault
          else if c ! 1 \<noteq> 0x02 then Inl BadFormat
          else if unat (pk_cert_len req) < 12 then Inl MemFault
          else if c ! 11 \<noteq> 0x01 then Inl BadFormat
          else case malloc P
                 (pk_cert_len req - (SHA_DIGEST_LENGTH + 2) + pk_r_len req + pk_exp_len req) of
            None \<Rightarrow> Inl NoMemory
          | Some f \<Rightarrow> Inl MemFault)"
    using check_pk_cert_short_eq [OF assms(1,2)] by blast
  have c: "22 \<le> unat (pk_cert_len req) \<longrightarrow> check_pk_cert P req h \<noteq> Inl MemFault"
    using check_pk_cert_no_fault [OF assms(1) le _ assms(3-7)] by blast
  have d: "unat (pk_cert_len req) < 36 \<longrightarrow>
       make_issuer_pk P req h =
         (case malloc P (pk_cert_len req) of None \<Rightarrow> Inl NoMemory | Some f \<Rightarrow> Inl MemFault)"
    using make_issuer_pk_short_eq [OF assms(1,2)] by blast
  have e: "36 \<le> unat (pk_cert_len req) \<longrightarrow> make_issuer_pk P req h \<noteq> Inl MemFault"
    using make_issuer_pk_no_fault [OF assms(1) le _ assms(3-6)] by blast
  have f: "block h p = Some s \<and> length s = unat len \<longrightarrow>
       (unat len < 22 \<longrightarrow>
          check_ssa P h p len recs aip =
            (case malloc P (len - (SHA_DIGEST_LENGTH + 2) + sda_data_len recs 2) of
               None \<Rightarrow> Inl NoMemory
             | Some f \<Rightarrow> Inl MemFault)) \<and>
       (22 \<le> unat len \<and> map (record_bytes h) recs = map Some bss \<and>
        unat len + length (concat bss) < 2 ^ 64 \<longrightarrow>
          check_ssa P h p len recs aip \<noteq> Inl MemFault)"
  proof (intro impI conjI)
    assume "block h p = Some s \<and> length s = unat len" and "unat len < 22"
    then show "check_ssa P h p len recs aip =
        (case malloc P (len - (SHA_DIGEST_LENGTH + 2) + sda_data_len recs 2) of
           None \<Rightarrow> Inl NoMemory
         | Some f \<Rightarrow> Inl MemFault)"
      using check_ssa_short_eq [of h p s len P recs aip] by blast
  next
    assume "block h p = Some s \<and> length s = unat len"
      and "22 \<le> unat len \<and> map (record_bytes h) recs = map Some bss \<and>
        unat len + length (concat bss) < 2 ^ 64"
    then show "check_ssa P h p len recs aip \<noteq> Inl MemFault"
      using check_ssa_no_fault [of h p s len recs bss P aip] by simp
  qed
  have i: "get_required_data demo_prims card21_emv card21_heap = Inr card21_req \<and>
     get_ca_key demo_prims (ca_pk_idx card21_req) card21_mod card21_exp =
       Inr (card21_ca_key, pk_cert_len card21_req) \<and>
     pk_cert_len card21_req = 21 \<and>
     recover demo_prims (pk_cert card21_req) 21 card21_ca_key card21_heap =
       (Inr (), card21_heap1) \<and>
     check_pk_cert demo_prims card21_req card21_heap1 = Inl MemFault \<and>
     fst (emv_authenticate_static_data demo_prims card21_mod card21_exp (card21_emv, card21_heap)) =
       Inl MemFault"
    by (simp add: card21_get_required_data card21_get_ca_key card21_recover card21_check_pk_cert
        card21_authenticate)
  have j: "get_required_data demo_prims card35_emv card35_heap = Inr card35_req \<and>
     get_ca_key demo_prims (ca_pk_idx card35_req) card35_mod card35_exp =
       Inr (card35_ca_key, pk_cert_len card35_req) \<and>
     pk_cert_len card35_req = 35 \<and>
     recover demo_prims (pk_cert card35_req) 35 card35_ca_key card35_heap =
       (Inr (), card35_heap1) \<and>
     check_pk_cert demo_prims card35_req card35_heap1 = Inr () \<and>
     make_issuer_pk demo_prims card35_req card35_heap1 = Inl MemFault \<and>
     fst (emv_authenticate_static_data demo_prims card35_mod card35_exp (card35_emv, card35_heap)) =
       Inl MemFault"
    by (simp add: card35_get_required_data card35_get_ca_key card35_recover card35_check_pk_cert
        card35_make_issuer_pk card35_authenticate)
  have k: "get_required_data demo_prims tiny_emv tiny_heap = Inr tiny_req \<and>
     get_ca_key demo_prims (ca_pk_idx tiny_req) tiny_mod tiny_exp =
       Inr (\<lparr>rsa_n = [0xfd], rsa_e = [0x03]\<rparr>, pk_cert_len tiny_req) \<and>
     pk_cert_len tiny_req = 1 \<and>
     fst (emv_authenticate_static_data demo_prims tiny_mod tiny_exp (tiny_emv, tiny_heap)) =
       Inl MemFault"
    by (simp add: tiny_get_required_data tiny_get_ca_key tiny_authenticate tiny_req_def)
  have l: "get_required_data demo_prims padded_emv padded_heap = Inr padded_req \<and>
     get_issuer_pk demo_prims padded_req demo_ca_key 40 padded_heap =
       (Inr padded_iss_key, padded_heap1) \<and>
     ssa_data_len padded_req = 21 \<and>
     recover demo_prims (ssa_data padded_req) 21 padded_iss_key padded_heap1 =
       (Inr (), padded_heap2) \<and>
     check_ssa demo_prims padded_heap2 (ssa_data padded_req) 21 demo_recs (0x5c, 0x00) =
       Inl MemFault \<and>
     fst (emv_authenticate_static_data demo_prims demo_mod demo_exp (padded_emv, padded_heap)) =
       Inl MemFault"
    by (simp add: padded_get_required_data padded_get_issuer_pk padded_recover_ssa
        padded_check_ssa padded_authenticate)
  from a b c d e f i j k l show ?thesis
    by blast
qed

theorem unchecked_length_preconditions_witness:
  "block card21_heap1 (pk_cert card21_req) = Some card21_cert_rec \<and>
   length card21_cert_rec = unat (pk_cert_len card21_req) \<and>
   block card21_heap1 (pk_r card21_req) = Some [0xa5] \<and>
   unat (pk_r_len card21_req) \<le> length [0xa5 :: u8] \<and>
   block card21_heap1 (pk_exp card21_req) = Some [0x03] \<and>
   unat (pk_exp_len card21_req) \<le> length [0x03 :: u8] \<and>
   block card21_heap1 13 = Some [0x00] \<and> length [0x00 :: u8] = unat (1 :: size_t) \<and>
   unat (pk_cert_len card21_req) < 22 \<and>
   check_pk_cert demo_prims card21_req card21_heap1 = Inl MemFault \<and>
   make_issuer_pk demo_prims card21_req card21_heap1 = Inl MemFault \<and>
   check_ssa demo_prims card21_heap1 13 1 [] (0x5c, 0x00) = Inl MemFault \<and>
   block bare_trailer_heap (pk_cert tiny_req) = Some [0xbc] \<and>
   length [0xbc :: u8] = unat (pk_cert_len tiny_req) \<and>
   emsa_pss_decode demo_prims [] bare_trailer_heap (pk_cert tiny_req) (pk_cert_len tiny_req) =
     Inl MemFault \<and>
   block demo_heap2 (pk_cert demo_req) = Some demo_cert_rec \<and>
   length demo_cert_rec = unat (pk_cert_len demo_req) \<and>
   block demo_heap2 13 = Some demo_ssa_rec \<and> length demo_ssa_rec = unat (40 :: size_t) \<and>
   map (record_bytes demo_heap2) demo_recs = map Some [demo_R1, demo_R2] \<and>
   36 \<le> unat (pk_cert_len demo_req) \<and>
   check_pk_cert demo_prims demo_req demo_heap2 \<noteq> Inl MemFault \<and>
   make_issuer_pk demo_prims demo_req demo_heap2 \<noteq> Inl MemFault \<and>
   check_ssa demo_prims demo_heap2 13 40 demo_recs (0x5c, 0x00) \<noteq> Inl MemFault"
proof -
  have t: "block bare_trailer_heap (pk_cert tiny_req) = Some [0xbc]"
    "block bare_trailer_heap (pk_r tiny_req) = Some [0x00]"
    "block bare_trailer_heap (pk_exp tiny_req) = Some [0x03]"
    "block bare_trailer_heap 13 = Some [0x00]"
    "pk_cert_len tiny_req = 1" "pk_r_len tiny_req = 1" "pk_exp_len tiny_req = 1"
    by (simp_all add: block_def NULL_def bare_trailer_heap_def tiny_heap_def tiny_req_def)
  have u: "block card21_heap1 13 = Some [0x00]"
    by (simp add: block_def NULL_def card21_heap1_def card21_heap_def)
  show ?thesis
    using unchecked_length_preconditions [where h = card21_heap1 and req = card21_req and
        c = card21_cert_rec and r = "[0xa5]" and x = "[0x03]" and P = demo_prims and msg = "[]" and
        p = 13 and s = "[0x00]" and len = 1 and recs = "[]" and bss = "[]" and
        aip = "(0x5c, 0x00)"]
      unchecked_length_preconditions [where h = bare_trailer_heap and req = tiny_req and
        c = "[0xbc]" and r = "[0x00]" and x = "[0x03]" and P = demo_prims and msg = "[]" and
        p = 13 and s = "[0x00]" and len = 1 and recs = "[]" and bss = "[]" and
        aip = "(0x5c, 0x00)"]
      unchecked_length_preconditions [where h = demo_heap2 and req = demo_req and
        c = demo_cert_rec and r = demo_pk_r and x = "[0x03]" and P = demo_prims and msg = "[]" and
        p = 13 and s = demo_ssa_rec and len = 40 and recs = demo_recs and
        bss = "[demo_R1, demo_R2]" and aip = "(0x5c, 0x00)"]
      card21_header
    by (simp add: t u demo_records)
qed

text \<open>
  C10. In a run that has obtained the CA key and then fails, the context afterwards holds
  the CA key, the flag \<open>e_sda_ok\<close> is what it was, and \<open>e_iss_pk\<close> holds the issuer key if
  \<open>get_issuer_pk\<close> returned one (\<^verbatim>\<open>NULL\<close> if it failed).
\<close>

theorem keys_retained_on_failure:
  assumes "emv_authenticate_static_data P mod_cb exp_cb (e, h) = (r, e', h')"
    and "fst (e_aip e) AND EMV_AIP_SDA P \<noteq> 0"
    and "get_required_data P e h = Inr req"
    and "get_ca_key P (ca_pk_idx req) mod_cb exp_cb = Inr (ca, kl)"
    and "r \<noteq> Inr ()"
  shows "e_ca_pk e' = Some ca \<and> e_sda_ok e' = e_sda_ok e \<and>
    (case fst (get_issuer_pk P req ca kl h) of
       Inl x \<Rightarrow> e_iss_pk e' = None \<and> r = Inl x
     | Inr iss \<Rightarrow> e_iss_pk e' = Some iss)"
  using assms unfolding authenticate_cases
  by (auto split: sum.splits prod.splits)

theorem keys_retained_on_failure_witness:
  "emv_authenticate_static_data demo_prims demo_mod demo_exp
       (demo_emv\<lparr>db_sda := rev demo_recs\<rparr>, demo_heap) =
     (Inl HashMismatch,
      demo_emv\<lparr>db_sda := rev demo_recs, e_ca_pk := Some demo_ca_key, e_iss_pk := Some demo_iss_key\<rparr>,
      demo_heap2) \<and>
   e_ca_pk (demo_emv\<lparr>db_sda := rev demo_recs, e_ca_pk := Some demo_ca_key,
      e_iss_pk := Some demo_iss_key\<rparr>) = Some demo_ca_key \<and>
   e_iss_pk (demo_emv\<lparr>db_sda := rev demo_recs, e_ca_pk := Some demo_ca_key,
      e_iss_pk := Some demo_iss_key\<rparr>) = Some demo_iss_key \<and>
   e_sda_ok (demo_emv\<lparr>db_sda := rev demo_recs, e_ca_pk := Some demo_ca_key,
      e_iss_pk := Some demo_iss_key\<rparr>) = 0"
proof -
  have aip: "fst (e_aip (demo_emv\<lparr>db_sda := rev demo_recs\<rparr>)) AND EMV_AIP_SDA demo_prims \<noteq> 0"
    by (simp add: demo_emv_def)
  have req: "get_required_data demo_prims (demo_emv\<lparr>db_sda := rev demo_recs\<rparr>) demo_heap =
      Inr demo_req"
    by (simp add: get_required_data_def demo_emv_def demo_tags_def required_element_def NULL_def
        first_byte_int_def load_u8_def demo_req_def)
  have key: "get_ca_key demo_prims (ca_pk_idx demo_req) demo_mod demo_exp = Inr (demo_ca_key, 40)"
    by (simp add: demo_get_ca_key)
  have "e_sda_ok demo_emv = 0"
    by (simp add: demo_emv_def)
  then show ?thesis
    using keys_retained_on_failure [OF swapped_authenticate aip req key]
    by (simp add: swapped_authenticate)
qed

end
